theory Spec2Isabelle
  imports Main "HOL-Library.Word" "HOL-Library.Signed_Division"
begin

section \<open>Catalog data seen by the wrapper\<close>

text \<open>
  The wrapper reads a foreign table through the relation cache: the namespace and
  relation name, the table's FDW options, and the tuple descriptor, an array of
  attributes with name, number, type, dropped flag and per-column FDW options.
  An option is a \<open>DefElem\<close>: a name and a string value.
\<close>

type_synonym DefElem = "string \<times> string"

datatype Oid =
    InvalidOid
  | BOOLOID | INT8OID | INT2OID | INT4OID | TEXTOID
  | FLOAT4OID | FLOAT8OID | INETOID | BPCHAROID | VARCHAROID
  | TIMESTAMPOID | TIMESTAMPTZOID | UUIDOID
  | OtherOid nat

record Form_pg_attribute =
  attname :: string
  attnum :: int
  atttypid :: Oid
  attisdropped :: bool
  attfdwoptions :: "DefElem list"

record Relation =
  rd_nspname :: string
  rd_relname :: string
  rd_options :: "DefElem list"
  rd_att :: "Form_pg_attribute list"

definition natts :: "Relation \<Rightarrow> int" where
  "natts rel = int (length (rd_att rel))"

text \<open>\<open>TupleDescAttr(tupdesc, i)\<close> is an unchecked array read in C; the model
  makes the range explicit.\<close>

definition TupleDescAttr :: "Relation \<Rightarrow> int \<Rightarrow> Form_pg_attribute option" where
  "TupleDescAttr rel i =
     (if 0 \<le> i \<and> i < natts rel then Some (rd_att rel ! nat i) else None)"

datatype error =
    NoPrimaryKey
  | PrimaryKeyNotFound string
  | PrimaryKeyNull string
  | SmallintNullBind string
  | UnsupportedType Oid
  | RemoteFailure string string
  | RemoteQueryError string string
  | SystemColumnUpdate
  | UnexpectedOnConflict
  | UnexpectedOperation
  | JunkAttributeNotFound
  | CacheLookupFailed int
  | ResultShapeMismatch
  | InputConversionError string
  | UndefinedRead string

section \<open>Identifier quoting\<close>

text \<open>
  \<open>quote_identifier\<close> is the server library's routine: an identifier made of
  lower-case letters, digits and underscores that starts with a letter or an
  underscore, and that is not a reserved keyword, is returned as it is; any other
  one is wrapped in double quotes, embedded double quotes doubled. The keyword
  table belongs to the server, so the keyword test \<open>kw\<close> is a parameter.
\<close>

definition is_lower_char :: "char \<Rightarrow> bool" where
  "is_lower_char c = (of_char c \<ge> (97::nat) \<and> of_char c \<le> (122::nat))"

definition is_digit_char :: "char \<Rightarrow> bool" where
  "is_digit_char c = (of_char c \<ge> (48::nat) \<and> of_char c \<le> (57::nat))"

definition ident_char_ok :: "char \<Rightarrow> bool" where
  "ident_char_ok c = (is_lower_char c \<or> is_digit_char c \<or> c = CHR ''_'')"

definition ident_start_ok :: "string \<Rightarrow> bool" where
  "ident_start_ok s = (case s of [] \<Rightarrow> False | c # _ \<Rightarrow> is_lower_char c \<or> c = CHR ''_'')"

definition quote_identifier :: "(string \<Rightarrow> bool) \<Rightarrow> string \<Rightarrow> string" where
  "quote_identifier kw ident =
     (if ident_start_ok ident \<and> list_all ident_char_ok ident \<and> \<not> kw ident
      then ident
      else [CHR 0x22]
           @ concat (map (\<lambda>c. if c = CHR 0x22 then [CHR 0x22, CHR 0x22] else [c]) ident)
           @ [CHR 0x22])"

section \<open>The statement deparser (deparse.c)\<close>

text \<open>
  Every deparse routine of the source appends to a string buffer. The helpers
  below return the text they append; the four entry points take the buffer.
\<close>

text \<open>\<open>cassDeparseRelation\<close>: the options loop has no \<open>break\<close>, so the last
  \<open>schema_name\<close> and the last \<open>table_name\<close> win.\<close>

fun relation_names :: "DefElem list \<Rightarrow> string option \<times> string option
    \<Rightarrow> string option \<times> string option" where
  "relation_names [] acc = acc"
| "relation_names (d # ds) (nspname, relname) =
     (if fst d = ''schema_name'' then relation_names ds (Some (snd d), relname)
      else if fst d = ''table_name'' then relation_names ds (nspname, Some (snd d))
      else relation_names ds (nspname, relname))"

definition cassDeparseRelation :: "(string \<Rightarrow> bool) \<Rightarrow> Relation \<Rightarrow> string" where
  "cassDeparseRelation kw rel =
     (case relation_names (rd_options rel) (None, None) of
        (nspname, relname) \<Rightarrow>
          quote_identifier kw (case nspname of None \<Rightarrow> rd_nspname rel | Some s \<Rightarrow> s)
          @ ''.''
          @ quote_identifier kw (case relname of None \<Rightarrow> rd_relname rel | Some s \<Rightarrow> s))"

text \<open>\<open>cassDeparseColumnRef\<close>: the first \<open>column_name\<close> option wins (the loop
  breaks); without one the attribute name is used. Both catalog lookups fail for
  an attribute number the relation does not have.\<close>

fun column_name_option :: "DefElem list \<Rightarrow> string option" where
  "column_name_option [] = None"
| "column_name_option (d # ds) =
     (if fst d = ''column_name'' then Some (snd d) else column_name_option ds)"

definition remote_colname :: "Form_pg_attribute \<Rightarrow> string" where
  "remote_colname att =
     (case column_name_option (attfdwoptions att) of
        Some s \<Rightarrow> s
      | None \<Rightarrow> attname att)"

definition cassDeparseColumnRef :: "(string \<Rightarrow> bool) \<Rightarrow> Relation \<Rightarrow> int \<Rightarrow> error + string" where
  "cassDeparseColumnRef kw rel varattno =
     (case TupleDescAttr rel (varattno - 1) of
        None \<Rightarrow> Inl (CacheLookupFailed varattno)
      | Some att \<Rightarrow> Inr (quote_identifier kw (remote_colname att)))"

text \<open>
  \<open>cassDeparseTargetList\<close>: the loop \<open>for (i = 1; i <= natts; i++)\<close> walks the
  tuple descriptor; \<open>atts\<close> is the part of the descriptor still to visit, \<open>i\<close> the
  number of its first attribute. The result is the text appended so far, the
  retrieved attribute numbers and the \<open>first\<close> flag. Bit numbers of the used-column
  set are attribute numbers minus \<open>FirstLowInvalidHeapAttributeNumber\<close>, a negative
  constant of the server passed as \<open>flo\<close>.
\<close>

fun target_list_loop :: "(string \<Rightarrow> bool) \<Rightarrow> Relation \<Rightarrow> bool \<Rightarrow> int \<Rightarrow> int set
    \<Rightarrow> int \<Rightarrow> Form_pg_attribute list \<Rightarrow> string \<times> int list \<times> bool
    \<Rightarrow> error + (string \<times> int list \<times> bool)" where
  "target_list_loop kw rel have_wholerow flo attrs_used i [] st = Inr st"
| "target_list_loop kw rel have_wholerow flo attrs_used i (attr # atts) (buf, retrieved, first) =
     (if attisdropped attr
      then target_list_loop kw rel have_wholerow flo attrs_used (i + 1) atts (buf, retrieved, first)
      else if have_wholerow \<or> (i - flo) \<in> attrs_used
      then (case cassDeparseColumnRef kw rel i of
              Inl e \<Rightarrow> Inl e
            | Inr c \<Rightarrow>
                target_list_loop kw rel have_wholerow flo attrs_used (i + 1) atts
                  ((if first then buf else buf @ '', '') @ c, retrieved @ [i], False))
      else target_list_loop kw rel have_wholerow flo attrs_used (i + 1) atts (buf, retrieved, first))"

definition cassDeparseTargetList :: "(string \<Rightarrow> bool) \<Rightarrow> Relation \<Rightarrow> int \<Rightarrow> int set
    \<Rightarrow> error + (string \<times> int list)" where
  "cassDeparseTargetList kw rel flo attrs_used =
     (case target_list_loop kw rel ((0 - flo) \<in> attrs_used) flo attrs_used 1 (rd_att rel)
             ([], [], True) of
        Inl e \<Rightarrow> Inl e
      | Inr (buf, retrieved, first) \<Rightarrow>
          Inr (if first then buf @ ''NULL'' else buf, retrieved))"

definition cassDeparseSelectSql :: "(string \<Rightarrow> bool) \<Rightarrow> string \<Rightarrow> Relation \<Rightarrow> int \<Rightarrow> int set
    \<Rightarrow> error + (string \<times> int list)" where
  "cassDeparseSelectSql kw buf rel flo attrs_used =
     (case cassDeparseTargetList kw rel flo attrs_used of
        Inl e \<Rightarrow> Inl e
      | Inr (tlist, retrieved_attrs) \<Rightarrow>
          Inr (buf @ ''SELECT '' @ tlist @ '' FROM '' @ cassDeparseRelation kw rel,
               retrieved_attrs))"

text \<open>The column list of INSERT and the SET list of UPDATE: one column
  reference per target attribute, in list order, separated by a comma and a
  space; UPDATE follows each reference with \<open>= ?\<close>.\<close>

fun column_list :: "(string \<Rightarrow> bool) \<Rightarrow> Relation \<Rightarrow> string \<Rightarrow> bool \<Rightarrow> int list \<Rightarrow> error + string" where
  "column_list kw rel suffix first [] = Inr []"
| "column_list kw rel suffix first (attno # lc) =
     (case cassDeparseColumnRef kw rel attno of
        Inl e \<Rightarrow> Inl e
      | Inr c \<Rightarrow>
          (case column_list kw rel suffix False lc of
             Inl e \<Rightarrow> Inl e
           | Inr rest \<Rightarrow> Inr ((if first then [] else '', '') @ c @ suffix @ rest)))"

fun placeholders :: "bool \<Rightarrow> int list \<Rightarrow> string" where
  "placeholders first [] = []"
| "placeholders first (attno # lc) =
     (if first then [] else '', '') @ ''?'' @ placeholders False lc"

definition cassDeparseInsertSql :: "(string \<Rightarrow> bool) \<Rightarrow> string \<Rightarrow> Relation \<Rightarrow> int list \<Rightarrow> bool
    \<Rightarrow> error + string" where
  "cassDeparseInsertSql kw buf rel targetAttrs doNothing =
     (if targetAttrs \<noteq> []
      then (case column_list kw rel [] True targetAttrs of
              Inl e \<Rightarrow> Inl e
            | Inr cols \<Rightarrow>
                Inr (buf @ ''INSERT INTO '' @ cassDeparseRelation kw rel
                     @ ''('' @ cols @ '') VALUES ('' @ placeholders True targetAttrs @ '')''
                     @ (if doNothing then '' ON CONFLICT DO NOTHING'' else [])))
      else Inr (buf @ ''INSERT INTO '' @ cassDeparseRelation kw rel @ '' DEFAULT VALUES''
                @ (if doNothing then '' ON CONFLICT DO NOTHING'' else [])))"

definition cassDeparseUpdateSql :: "(string \<Rightarrow> bool) \<Rightarrow> string \<Rightarrow> Relation \<Rightarrow> int list \<Rightarrow> string
    \<Rightarrow> error + string" where
  "cassDeparseUpdateSql kw buf rel targetAttrs primaryKey =
     (case column_list kw rel '' = ?'' True targetAttrs of
        Inl e \<Rightarrow> Inl e
      | Inr sets \<Rightarrow>
          Inr (buf @ ''UPDATE '' @ cassDeparseRelation kw rel @ '' SET '' @ sets
               @ '' WHERE '' @ primaryKey @ '' = ?''))"

definition cassDeparseDeleteSql :: "(string \<Rightarrow> bool) \<Rightarrow> string \<Rightarrow> Relation \<Rightarrow> string \<Rightarrow> string" where
  "cassDeparseDeleteSql kw buf rel primaryKey =
     buf @ ''DELETE FROM '' @ cassDeparseRelation kw rel
     @ '' WHERE '' @ primaryKey @ '' = ?''"

section \<open>Table options and update targets (cstar\_fdw.c)\<close>

definition OPT_PK :: string where
  "OPT_PK = ''primary_key''"

text \<open>\<open>cassGetPKOption\<close> stores into \<open>*primarykey\<close> only when a
  \<open>primary_key\<close> option is present, and the loop has no \<open>break\<close>: the last such
  option wins. The second argument is what the caller's variable held before.\<close>

fun cassGetPKOption :: "DefElem list \<Rightarrow> string option \<Rightarrow> string option" where
  "cassGetPKOption [] primarykey = primarykey"
| "cassGetPKOption (d # ds) primarykey =
     (if fst d = OPT_PK then cassGetPKOption ds (Some (snd d))
      else cassGetPKOption ds primarykey)"

datatype CassConsistency =
    CASS_CONSISTENCY_UNKNOWN
  | CASS_CONSISTENCY_ANY | CASS_CONSISTENCY_ONE | CASS_CONSISTENCY_TWO
  | CASS_CONSISTENCY_THREE | CASS_CONSISTENCY_QUORUM | CASS_CONSISTENCY_ALL
  | CASS_CONSISTENCY_LOCAL_QUORUM | CASS_CONSISTENCY_EACH_QUORUM
  | CASS_CONSISTENCY_SERIAL | CASS_CONSISTENCY_LOCAL_SERIAL
  | CASS_CONSISTENCY_LOCAL_ONE

definition DEFAULT_CONSISTENCY_LEVEL :: CassConsistency where
  "DEFAULT_CONSISTENCY_LEVEL = CASS_CONSISTENCY_LOCAL_ONE"

definition consistency_from_string :: "string \<Rightarrow> CassConsistency" where
  "consistency_from_string s =
     (if s = ''ANY'' then CASS_CONSISTENCY_ANY
      else if s = ''ONE'' then CASS_CONSISTENCY_ONE
      else if s = ''TWO'' then CASS_CONSISTENCY_TWO
      else if s = ''THREE'' then CASS_CONSISTENCY_THREE
      else if s = ''QUORUM'' then CASS_CONSISTENCY_QUORUM
      else if s = ''ALL'' then CASS_CONSISTENCY_ALL
      else if s = ''LOCAL_QUORUM'' then CASS_CONSISTENCY_LOCAL_QUORUM
      else if s = ''EACH_QUORUM'' then CASS_CONSISTENCY_EACH_QUORUM
      else if s = ''SERIAL'' then CASS_CONSISTENCY_SERIAL
      else if s = ''LOCAL_SERIAL'' then CASS_CONSISTENCY_LOCAL_SERIAL
      else if s = ''LOCAL_ONE'' then CASS_CONSISTENCY_LOCAL_ONE
      else CASS_CONSISTENCY_UNKNOWN)"

fun consistency_option :: "string \<Rightarrow> DefElem list \<Rightarrow> CassConsistency \<Rightarrow> CassConsistency" where
  "consistency_option name [] c = c"
| "consistency_option name (d # ds) c =
     (if fst d = name then consistency_option name ds (consistency_from_string (snd d))
      else consistency_option name ds c)"

definition cassGetReadConsistencyOption :: "DefElem list \<Rightarrow> CassConsistency" where
  "cassGetReadConsistencyOption opts =
     consistency_option ''read_consistency'' opts DEFAULT_CONSISTENCY_LEVEL"

definition cassGetWriteConsistencyOption :: "DefElem list \<Rightarrow> CassConsistency" where
  "cassGetWriteConsistencyOption opts =
     consistency_option ''write_consistency'' opts DEFAULT_CONSISTENCY_LEVEL"

text \<open>The query tree as far as the wrapper touches it: the range-table index of
  the result relation and the target list. An entry carries an expression, its
  position, an optional name and the resjunk flag.\<close>

datatype Expr = Var int int Oid | OpaqueExpr

record TargetEntry =
  expr :: Expr
  resno :: int
  resname :: "string option"
  resjunk :: bool

record Query =
  resultRelation :: int
  targetList :: "TargetEntry list"

text \<open>\<open>strncmp(s1, s2, n) == 0\<close> on C strings: the first \<open>n\<close> characters
  agree, a shorter string ending the comparison at its terminator.\<close>

definition strncmp_eq :: "string \<Rightarrow> string \<Rightarrow> nat \<Rightarrow> bool" where
  "strncmp_eq s1 s2 n = (take n s1 = take n s2)"

text \<open>The loop of \<open>cassAddForeignUpdateTargets\<close> over all attributes of the
  tuple descriptor: every attribute that passes the \<open>strncmp\<close> test gets a
  resjunk entry appended to the target list.\<close>

fun add_update_targets_loop :: "int \<Rightarrow> string \<Rightarrow> Form_pg_attribute list
    \<Rightarrow> TargetEntry list \<times> bool \<Rightarrow> TargetEntry list \<times> bool" where
  "add_update_targets_loop rr primary_key [] st = st"
| "add_update_targets_loop rr primary_key (att # atts) (tlist, has_PK) =
     (if strncmp_eq (attname att) primary_key (length primary_key)
      then add_update_targets_loop rr primary_key atts
             (tlist @ [\<lparr> expr = Var rr (attnum att) (atttypid att),
                      resno = int (length tlist) + 1,
                      resname = Some (attname att),
                      resjunk = True \<rparr>], True)
      else add_update_targets_loop rr primary_key atts (tlist, has_PK))"

definition cassAddForeignUpdateTargets :: "Query \<Rightarrow> Relation \<Rightarrow> error + Query" where
  "cassAddForeignUpdateTargets parsetree target_relation =
     (case cassGetPKOption (rd_options target_relation) None of
        None \<Rightarrow> Inl NoPrimaryKey
      | Some primary_key \<Rightarrow>
          (case add_update_targets_loop (resultRelation parsetree) primary_key
                  (rd_att target_relation) (targetList parsetree, False) of
             (tlist, has_PK) \<Rightarrow>
               if has_PK then Inr (parsetree\<lparr> targetList := tlist \<rparr>)
               else Inl (PrimaryKeyNotFound primary_key)))"

section \<open>Planning a modify\<close>

text \<open>The command types and conflict actions are the server's enums; the
  codes are the enumerators' positions.\<close>

datatype CmdType =
  CMD_UNKNOWN | CMD_SELECT | CMD_UPDATE | CMD_INSERT | CMD_DELETE | CMD_UTILITY | CMD_NOTHING

fun cmd_code :: "CmdType \<Rightarrow> nat" where
  "cmd_code CMD_UNKNOWN = 0"
| "cmd_code CMD_SELECT = 1"
| "cmd_code CMD_UPDATE = 2"
| "cmd_code CMD_INSERT = 3"
| "cmd_code CMD_DELETE = 4"
| "cmd_code CMD_UTILITY = 5"
| "cmd_code CMD_NOTHING = 6"

datatype OnConflictAction = ONCONFLICT_NONE | ONCONFLICT_NOTHING | ONCONFLICT_UPDATE

definition cassIsForeignRelUpdatable :: "Relation \<Rightarrow> int" where
  "cassIsForeignRelUpdatable rel =
     or (or (push_bit (cmd_code CMD_UPDATE) 1) (push_bit (cmd_code CMD_INSERT) 1))
        (push_bit (cmd_code CMD_DELETE) 1)"

text \<open>INSERT transmits every attribute that is not dropped.\<close>

fun insert_target_attrs :: "int \<Rightarrow> Form_pg_attribute list \<Rightarrow> int list \<Rightarrow> int list" where
  "insert_target_attrs attno [] targetAttrs = targetAttrs"
| "insert_target_attrs attno (attr # atts) targetAttrs =
     (if attisdropped attr then insert_target_attrs (attno + 1) atts targetAttrs
      else insert_target_attrs (attno + 1) atts (targetAttrs @ [attno]))"

text \<open>UPDATE transmits the updated columns: \<open>bms_next_member\<close> yields the
  members of the bitmap set in ascending order, given here as \<open>cols\<close>.\<close>

fun update_target_attrs :: "int \<Rightarrow> int list \<Rightarrow> int list \<Rightarrow> error + int list" where
  "update_target_attrs flo [] targetAttrs = Inr targetAttrs"
| "update_target_attrs flo (col # cols) targetAttrs =
     (if col + flo \<le> 0 then Inl SystemColumnUpdate
      else update_target_attrs flo cols (targetAttrs @ [col + flo]))"

record FdwModifyPrivate =
  FdwModifyPrivateUpdateSql :: string
  FdwModifyPrivateTargetAttnums :: "int list"
  FdwModifyPrivateHasReturning :: bool
  FdwModifyPrivateRetrievedAttrs :: "int list"

definition plan_target_attrs :: "int \<Rightarrow> CmdType \<Rightarrow> Relation \<Rightarrow> int set \<Rightarrow> error + int list" where
  "plan_target_attrs flo operation rel updatedCols =
     (if operation = CMD_INSERT then Inr (insert_target_attrs 1 (rd_att rel) [])
      else if operation = CMD_UPDATE
      then update_target_attrs flo (sorted_list_of_set updatedCols) []
      else Inr [])"

text \<open>The local \<open>primaryKey\<close> of \<open>cassPlanForeignModify\<close> is not initialised;
  without a \<open>primary_key\<close> option UPDATE and DELETE would read it undefined,
  which the model reports as \<open>UndefinedRead\<close>.\<close>

definition plan_sql :: "(string \<Rightarrow> bool) \<Rightarrow> CmdType \<Rightarrow> Relation \<Rightarrow> int list \<Rightarrow> bool
    \<Rightarrow> string option \<Rightarrow> error + string" where
  "plan_sql kw operation rel targetAttrs doNothing primaryKey =
     (case operation of
        CMD_INSERT \<Rightarrow> cassDeparseInsertSql kw [] rel targetAttrs doNothing
      | CMD_UPDATE \<Rightarrow>
          (case primaryKey of
             None \<Rightarrow> Inl (UndefinedRead ''primaryKey'')
           | Some pk \<Rightarrow> cassDeparseUpdateSql kw [] rel targetAttrs pk)
      | CMD_DELETE \<Rightarrow>
          (case primaryKey of
             None \<Rightarrow> Inl (UndefinedRead ''primaryKey'')
           | Some pk \<Rightarrow> Inr (cassDeparseDeleteSql kw [] rel pk))
      | _ \<Rightarrow> Inl UnexpectedOperation)"

definition cassPlanForeignModify :: "(string \<Rightarrow> bool) \<Rightarrow> int \<Rightarrow> CmdType \<Rightarrow> OnConflictAction
    \<Rightarrow> Relation \<Rightarrow> int set \<Rightarrow> error + FdwModifyPrivate" where
  "cassPlanForeignModify kw flo operation onConflictAction rel updatedCols =
     (case plan_target_attrs flo operation rel updatedCols of
        Inl e \<Rightarrow> Inl e
      | Inr targetAttrs \<Rightarrow>
          if onConflictAction = ONCONFLICT_UPDATE then Inl UnexpectedOnConflict
          else
            (case plan_sql kw operation rel targetAttrs (onConflictAction = ONCONFLICT_NOTHING)
                    (cassGetPKOption (rd_options rel) None) of
               Inl e \<Rightarrow> Inl e
             | Inr sql \<Rightarrow>
                 Inr \<lparr> FdwModifyPrivateUpdateSql = sql,
                       FdwModifyPrivateTargetAttnums = targetAttrs,
                       FdwModifyPrivateHasReturning = False,
                       FdwModifyPrivateRetrievedAttrs = [] \<rparr>))"

section \<open>The driver and the server, as seen from the wrapper\<close>

text \<open>
  A \<open>Datum\<close> is a machine word: a value passed by value, or the address of one
  passed by reference. What the server computes from a datum (the output function
  of a type, the zone offset of a timestamp) is a parameter of the model, as are
  the C library's and the driver's renderings used on the read path.
\<close>

type_synonym Datum = "64 word"

record ServerEnv =
  OidOutputFunctionCall :: "Oid \<Rightarrow> Datum \<Rightarrow> string"
  timestamp2tm_tzoffset :: "Datum \<Rightarrow> 32 word"
  InputFunctionCall :: "Oid \<Rightarrow> string option \<Rightarrow> error + Datum"
  printf_f :: "64 word \<Rightarrow> string"
  float_to_double :: "32 word \<Rightarrow> 64 word"
  asctime_gmtime :: "64 word \<Rightarrow> string"
  cass_uuid_string :: "64 word \<times> 64 word \<Rightarrow> string"
  cass_inet_string :: "8 word list \<Rightarrow> string"

text \<open>The parameter values the driver accepts, and the driver calls the
  wrapper issues, recorded in the order they are made.\<close>

datatype CassParam =
    PInt16 "16 word" | PInt32 "32 word" | PInt64 "64 word"
  | PFloat "32 word" | PDouble "64 word" | PBool bool | PString string | PNull

datatype DriverCall =
    StatementNew string nat
  | StatementBind nat CassParam
  | SetConsistency CassConsistency
  | SessionExecute
  | StatementFree
  | ReleaseConnection

datatype CassFuture = CASS_OK | CASS_ERROR string

definition MSECS_PER_SEC :: int where
  "MSECS_PER_SEC = 1000"

text \<open>\<open>SetEpochTimestamp()\<close>: the server's timestamp of the Unix epoch, in
  microseconds before 2000-01-01.\<close>

definition SetEpochTimestamp :: "64 word" where
  "SetEpochTimestamp = - 946684800000000"

definition timestamp_to_wire :: "ServerEnv \<Rightarrow> Datum \<Rightarrow> 64 word" where
  "timestamp_to_wire env v =
     word_of_int (sint (v - SetEpochTimestamp + scast (timestamp2tm_tzoffset env v))
                  sdiv MSECS_PER_SEC)"

definition bind_cass_statement_param :: "ServerEnv \<Rightarrow> Oid \<Rightarrow> Datum \<Rightarrow> nat
    \<Rightarrow> error + DriverCall" where
  "bind_cass_statement_param env type v pindex =
     (case type of
        INT2OID \<Rightarrow> Inr (StatementBind pindex (PInt16 (ucast v)))
      | INT4OID \<Rightarrow> Inr (StatementBind pindex (PInt32 (ucast v)))
      | INT8OID \<Rightarrow> Inr (StatementBind pindex (PInt64 v))
      | FLOAT4OID \<Rightarrow> Inr (StatementBind pindex (PFloat (ucast v)))
      | FLOAT8OID \<Rightarrow> Inr (StatementBind pindex (PDouble v))
      | BOOLOID \<Rightarrow> Inr (StatementBind pindex (PBool (v \<noteq> 0)))
      | TEXTOID \<Rightarrow> Inr (StatementBind pindex (PString (OidOutputFunctionCall env type v)))
      | VARCHAROID \<Rightarrow> Inr (StatementBind pindex (PString (OidOutputFunctionCall env type v)))
      | BPCHAROID \<Rightarrow> Inr (StatementBind pindex (PString (OidOutputFunctionCall env type v)))
      | TIMESTAMPTZOID \<Rightarrow> Inr (StatementBind pindex (PInt64 (timestamp_to_wire env v)))
      | TIMESTAMPOID \<Rightarrow> Inr (StatementBind pindex (PInt64 (timestamp_to_wire env v)))
      | _ \<Rightarrow> Inl (UnsupportedType type))"

section \<open>Executing a modify\<close>

record CassFdwModifyState =
  fm_rel :: Relation
  fm_cass_conn :: bool
  fm_sql_sent :: bool
  fm_statement :: "(string \<times> nat) option"
  fm_write_consistency :: CassConsistency
  fm_query :: string
  fm_target_attrs :: "int list"
  fm_has_returning :: bool
  fm_retrieved_attrs :: "int list"
  fm_keyAttno :: int
  fm_p_nums :: nat
  fm_p_type_oids :: "Oid list"

text \<open>\<open>ExecFindJunkAttributeInTlist\<close> and \<open>get_attnum\<close> are the server's: the
  position of the first resjunk entry of that name, and the number of the
  attribute of that name that is not dropped; 0 is \<open>InvalidAttrNumber\<close>.\<close>

fun ExecFindJunkAttributeInTlist :: "TargetEntry list \<Rightarrow> string \<Rightarrow> int" where
  "ExecFindJunkAttributeInTlist [] attrName = 0"
| "ExecFindJunkAttributeInTlist (tle # tles) attrName =
     (if resjunk tle \<and> resname tle = Some attrName then resno tle
      else ExecFindJunkAttributeInTlist tles attrName)"

fun get_attnum :: "Form_pg_attribute list \<Rightarrow> string \<Rightarrow> int" where
  "get_attnum [] name = 0"
| "get_attnum (a # as) name =
     (if \<not> attisdropped a \<and> attname a = name then attnum a else get_attnum as name)"

text \<open>The parameter types: \<open>p_type_oids\<close> is a zeroed array of one more entry
  than there are target attributes, filled from position \<open>p_nums\<close> on. A read of
  the tuple descriptor outside its bounds is reported as \<open>UndefinedRead\<close>.\<close>

fun param_types_loop :: "Relation \<Rightarrow> int list \<Rightarrow> Oid list \<times> nat \<Rightarrow> error + (Oid list \<times> nat)" where
  "param_types_loop rel [] st = Inr st"
| "param_types_loop rel (attno # lc) (oids, n) =
     (case TupleDescAttr rel (attno - 1) of
        None \<Rightarrow> Inl (UndefinedRead ''TupleDescAttr'')
      | Some attr \<Rightarrow> param_types_loop rel lc (oids[n := atttypid attr], n + 1))"

definition key_param_type :: "Relation \<Rightarrow> TargetEntry list \<Rightarrow> Oid list \<times> nat
    \<Rightarrow> error + (int \<times> Oid list \<times> nat)" where
  "key_param_type rel subplan_tlist st =
     (case cassGetPKOption (rd_options rel) None of
        None \<Rightarrow> Inl (UndefinedRead ''primaryKey'')
      | Some primaryKey \<Rightarrow>
          if ExecFindJunkAttributeInTlist subplan_tlist primaryKey = 0
          then Inl JunkAttributeNotFound
          else
            (case TupleDescAttr rel (get_attnum (rd_att rel) primaryKey - 1) of
               None \<Rightarrow> Inl (UndefinedRead ''TupleDescAttr'')
             | Some attr \<Rightarrow>
                 Inr (ExecFindJunkAttributeInTlist subplan_tlist primaryKey,
                      (fst st)[snd st := atttypid attr], snd st + 1)))"

definition cassBeginForeignModify :: "CmdType \<Rightarrow> Relation \<Rightarrow> FdwModifyPrivate
    \<Rightarrow> TargetEntry list \<Rightarrow> bool \<Rightarrow> error + CassFdwModifyState option" where
  "cassBeginForeignModify operation rel fdw_private subplan_tlist explain_only =
     (if explain_only then Inr None
      else
        (case (if operation = CMD_INSERT \<or> operation = CMD_UPDATE
               then param_types_loop rel (FdwModifyPrivateTargetAttnums fdw_private)
                      (replicate (length (FdwModifyPrivateTargetAttnums fdw_private) + 1) InvalidOid, 0)
               else Inr (replicate (length (FdwModifyPrivateTargetAttnums fdw_private) + 1) InvalidOid, 0)) of
           Inl e \<Rightarrow> Inl e
         | Inr st \<Rightarrow>
             (case (if operation = CMD_UPDATE \<or> operation = CMD_DELETE
                    then key_param_type rel subplan_tlist st
                    else Inr (0, st)) of
                Inl e \<Rightarrow> Inl e
              | Inr (keyAttno, oids, n) \<Rightarrow>
                  Inr (Some \<lparr> fm_rel = rel,
                              fm_cass_conn = True,
                              fm_sql_sent = False,
                              fm_statement = None,
                              fm_write_consistency = cassGetWriteConsistencyOption (rd_options rel),
                              fm_query = FdwModifyPrivateUpdateSql fdw_private,
                              fm_target_attrs = FdwModifyPrivateTargetAttnums fdw_private,
                              fm_has_returning = FdwModifyPrivateHasReturning fdw_private,
                              fm_retrieved_attrs = FdwModifyPrivateRetrievedAttrs fdw_private,
                              fm_keyAttno = keyAttno,
                              fm_p_nums = n,
                              fm_p_type_oids = oids \<rparr>))))"

text \<open>The state of one modify operation together with the record of driver
  calls made so far. A routine that raises returns the error beside the state it
  leaves behind.\<close>

record ModifyCtx =
  fmstate :: CassFdwModifyState
  driver :: "DriverCall list"

definition call :: "DriverCall \<Rightarrow> ModifyCtx \<Rightarrow> ModifyCtx" where
  "call c ctx = ctx\<lparr> driver := driver ctx @ [c] \<rparr>"

definition releaseCassResources :: "ModifyCtx \<Rightarrow> ModifyCtx" where
  "releaseCassResources ctx =
     (let ctx1 = (if fm_statement (fmstate ctx) \<noteq> None \<and> fm_sql_sent (fmstate ctx)
                  then call StatementFree ctx else ctx)
      in (call ReleaseConnection ctx1)\<lparr> fmstate := (fmstate ctx1)\<lparr> fm_cass_conn := False \<rparr> \<rparr>)"

definition cassStatementBindNull :: "ModifyCtx \<Rightarrow> nat \<Rightarrow> Oid \<Rightarrow> string \<Rightarrow> error option \<times> ModifyCtx" where
  "cassStatementBindNull ctx pindex ptypeid opname =
     (if ptypeid = INT2OID
      then (Some (SmallintNullBind opname), releaseCassResources ctx)
      else (None, call (StatementBind pindex PNull) ctx))"

text \<open>The binding loop shared by INSERT, UPDATE and DELETE: one parameter per
  target attribute, at positions \<open>pindex\<close>, \<open>pindex + 1\<close>, ...; it returns the
  position after the last parameter bound. Reading \<open>p_type_oids\<close> beyond its
  end is reported as \<open>UndefinedRead\<close>.\<close>

definition p_type_oid :: "CassFdwModifyState \<Rightarrow> nat \<Rightarrow> Oid option" where
  "p_type_oid fm pindex =
     (if pindex < length (fm_p_type_oids fm) then Some (fm_p_type_oids fm ! pindex) else None)"

fun bind_target_attrs :: "ServerEnv \<Rightarrow> string \<Rightarrow> (int \<Rightarrow> Datum option) \<Rightarrow> int list \<Rightarrow> nat
    \<Rightarrow> ModifyCtx \<Rightarrow> error option \<times> ModifyCtx \<times> nat" where
  "bind_target_attrs env opname slot [] pindex ctx = (None, ctx, pindex)"
| "bind_target_attrs env opname slot (attno # lc) pindex ctx =
     (case p_type_oid (fmstate ctx) pindex of
        None \<Rightarrow> (Some (UndefinedRead ''p_type_oids''), ctx, pindex)
      | Some ptypeid \<Rightarrow>
          (case slot attno of
             None \<Rightarrow>
               (case cassStatementBindNull ctx pindex ptypeid opname of
                  (Some e, ctx') \<Rightarrow> (Some e, ctx', pindex)
                | (None, ctx') \<Rightarrow> bind_target_attrs env opname slot lc (pindex + 1) ctx')
           | Some v \<Rightarrow>
               (case bind_cass_statement_param env ptypeid v pindex of
                  Inl e \<Rightarrow> (Some e, ctx, pindex)
                | Inr c \<Rightarrow> bind_target_attrs env opname slot lc (pindex + 1) (call c ctx))))"

definition new_statement :: "ModifyCtx \<Rightarrow> ModifyCtx" where
  "new_statement ctx =
     (if fm_sql_sent (fmstate ctx) then ctx
      else (call (StatementNew (fm_query (fmstate ctx)) (fm_p_nums (fmstate ctx))) ctx)
             \<lparr> fmstate := (fmstate ctx)
                  \<lparr> fm_statement := Some (fm_query (fmstate ctx), fm_p_nums (fmstate ctx)) \<rparr> \<rparr>)"

text \<open>Sending the bound statement: consistency is set, the statement executed
  and \<open>sql_sent\<close> set; a reply other than \<open>CASS_OK\<close> releases the resources and
  raises the remote message under the operation's name.\<close>

definition execute_statement :: "string \<Rightarrow> CassFuture \<Rightarrow> ModifyCtx \<Rightarrow> error option \<times> ModifyCtx" where
  "execute_statement opname future ctx =
     (let ctx1 = call SessionExecute
                   (call (SetConsistency (fm_write_consistency (fmstate ctx))) ctx);
          ctx2 = ctx1\<lparr> fmstate := (fmstate ctx1)\<lparr> fm_sql_sent := True \<rparr> \<rparr>
      in case future of
           CASS_OK \<Rightarrow> (None, ctx2)
         | CASS_ERROR message \<Rightarrow> (Some (RemoteFailure opname message), releaseCassResources ctx2))"

definition cassExecForeignInsert :: "ServerEnv \<Rightarrow> ModifyCtx \<Rightarrow> (int \<Rightarrow> Datum option) option
    \<Rightarrow> CassFuture \<Rightarrow> error option \<times> ModifyCtx" where
  "cassExecForeignInsert env ctx slot future =
     (case (case slot of
              Some s \<Rightarrow>
                if fm_target_attrs (fmstate ctx) \<noteq> []
                then bind_target_attrs env ''INSERT'' s (fm_target_attrs (fmstate ctx)) 0
                       (new_statement ctx)
                else (None, new_statement ctx, 0)
            | None \<Rightarrow> (None, new_statement ctx, 0)) of
        (Some e, ctx', pindex) \<Rightarrow> (Some e, ctx')
      | (None, ctx', pindex) \<Rightarrow> execute_statement ''INSERT'' future ctx')"

text \<open>\<open>cassExecPKPredWrite\<close>, shared by UPDATE and DELETE: after the target
  attributes the key is read from the resjunk attribute of the plan slot and,
  when it is not null, bound at the next position.\<close>

definition bind_key :: "ServerEnv \<Rightarrow> (int \<Rightarrow> Datum option) \<Rightarrow> nat \<Rightarrow> ModifyCtx
    \<Rightarrow> error option \<times> ModifyCtx" where
  "bind_key env planSlot pindex ctx =
     (case planSlot (fm_keyAttno (fmstate ctx)) of
        None \<Rightarrow>
          (case cassGetPKOption (rd_options (fm_rel (fmstate ctx))) None of
             None \<Rightarrow> (Some (UndefinedRead ''primary_key''), ctx)
           | Some primary_key \<Rightarrow> (Some (PrimaryKeyNull primary_key), ctx))
      | Some v \<Rightarrow>
          (case p_type_oid (fmstate ctx) pindex of
             None \<Rightarrow> (Some (UndefinedRead ''p_type_oids''), ctx)
           | Some ptypeid \<Rightarrow>
               (case bind_cass_statement_param env ptypeid v pindex of
                  Inl e \<Rightarrow> (Some e, ctx)
                | Inr c \<Rightarrow> (None, call c ctx))))"

definition cassExecPKPredWrite :: "ServerEnv \<Rightarrow> ModifyCtx \<Rightarrow> (int \<Rightarrow> Datum option) option
    \<Rightarrow> (int \<Rightarrow> Datum option) \<Rightarrow> string \<Rightarrow> CassFuture \<Rightarrow> error option \<times> ModifyCtx" where
  "cassExecPKPredWrite env ctx slot planSlot cqlOpName future =
     (case (case slot of
              Some s \<Rightarrow>
                if fm_target_attrs (fmstate ctx) \<noteq> []
                then bind_target_attrs env cqlOpName s (fm_target_attrs (fmstate ctx)) 0
                       (new_statement ctx)
                else (None, new_statement ctx, 0)
            | None \<Rightarrow> (None, new_statement ctx, 0)) of
        (Some e, ctx', pindex) \<Rightarrow> (Some e, ctx')
      | (None, ctx', pindex) \<Rightarrow>
          (case bind_key env planSlot pindex ctx' of
             (Some e, ctx'') \<Rightarrow> (Some e, ctx'')
           | (None, ctx'') \<Rightarrow> execute_statement cqlOpName future ctx''))"

definition cassExecForeignUpdate :: "ServerEnv \<Rightarrow> ModifyCtx \<Rightarrow> (int \<Rightarrow> Datum option) option
    \<Rightarrow> (int \<Rightarrow> Datum option) \<Rightarrow> CassFuture \<Rightarrow> error option \<times> ModifyCtx" where
  "cassExecForeignUpdate env ctx slot planSlot future =
     cassExecPKPredWrite env ctx slot planSlot ''UPDATE'' future"

definition cassExecForeignDelete :: "ServerEnv \<Rightarrow> ModifyCtx \<Rightarrow> (int \<Rightarrow> Datum option) option
    \<Rightarrow> (int \<Rightarrow> Datum option) \<Rightarrow> CassFuture \<Rightarrow> error option \<times> ModifyCtx" where
  "cassExecForeignDelete env ctx slot planSlot future =
     cassExecPKPredWrite env ctx slot planSlot ''DELETE'' future"

section \<open>Reading: wire values, rows and the scan\<close>

text \<open>A column of a remote row is null or carries a typed value. Floats are
  kept as their bit patterns, a UUID as its two halves, an address as its bytes.\<close>

datatype CassData =
    CASS_VALUE_TYPE_TINY_INT "8 word"
  | CASS_VALUE_TYPE_SMALL_INT "16 word"
  | CASS_VALUE_TYPE_INT "32 word"
  | CASS_VALUE_TYPE_BIGINT "64 word"
  | CASS_VALUE_TYPE_COUNTER "64 word"
  | CASS_VALUE_TYPE_BOOLEAN bool
  | CASS_VALUE_TYPE_FLOAT "32 word"
  | CASS_VALUE_TYPE_DOUBLE "64 word"
  | CASS_VALUE_TYPE_TEXT string
  | CASS_VALUE_TYPE_ASCII string
  | CASS_VALUE_TYPE_VARCHAR string
  | CASS_VALUE_TYPE_TIMESTAMP "64 word"
  | CASS_VALUE_TYPE_UUID "64 word" "64 word"
  | CASS_VALUE_TYPE_INET "8 word list"
  | CASS_VALUE_TYPE_LIST
  | CASS_VALUE_TYPE_MAP
  | CASS_VALUE_TYPE_OTHER

type_synonym CassValue = "CassData option"
type_synonym CassRow = "CassValue list"

text \<open>The decimal rendering of \<open>printf\<close>'s \<open>%d\<close> and \<open>%lld\<close>.\<close>

function dec_digits :: "nat \<Rightarrow> string" where
  "dec_digits n =
     (if n < 10 then [char_of (48 + n)]
      else dec_digits (n div 10) @ [char_of (48 + n mod 10)])"
  by pat_completeness auto
termination
  by (relation "measure id") auto

declare dec_digits.simps [simp del]

definition printf_d :: "int \<Rightarrow> string" where
  "printf_d i = (if i < 0 then ''-'' @ dec_digits (nat (- i)) else dec_digits (nat i))"

definition LITERAL_UTC :: string where
  "LITERAL_UTC = ''UTC''"

text \<open>A text value arrives as a pointer and a length and is formatted with
  \<open>%.*s\<close> into the buffer, whose data is then handed on as a C string: the
  text ends at its first NUL byte, if it has one.\<close>

definition c_string :: "string \<Rightarrow> string" where
  "c_string s = takeWhile (\<lambda>c. c \<noteq> CHR 0x00) s"

definition pgcass_transferValue :: "ServerEnv \<Rightarrow> CassData \<Rightarrow> string" where
  "pgcass_transferValue env v =
     (case v of
        CASS_VALUE_TYPE_TINY_INT i \<Rightarrow> printf_d (sint i)
      | CASS_VALUE_TYPE_SMALL_INT i \<Rightarrow> printf_d (sint i)
      | CASS_VALUE_TYPE_INT i \<Rightarrow> printf_d (sint i)
      | CASS_VALUE_TYPE_BIGINT i \<Rightarrow> printf_d (sint i) @ '' ''
      | CASS_VALUE_TYPE_COUNTER i \<Rightarrow> printf_d (sint i) @ '' ''
      | CASS_VALUE_TYPE_BOOLEAN b \<Rightarrow> (if b then ''true'' else ''false'')
      | CASS_VALUE_TYPE_FLOAT d \<Rightarrow> printf_f env (float_to_double env d)
      | CASS_VALUE_TYPE_DOUBLE d \<Rightarrow> printf_f env d
      | CASS_VALUE_TYPE_TEXT s \<Rightarrow> c_string s
      | CASS_VALUE_TYPE_ASCII s \<Rightarrow> c_string s
      | CASS_VALUE_TYPE_VARCHAR s \<Rightarrow> c_string s
      | CASS_VALUE_TYPE_TIMESTAMP t \<Rightarrow>
          asctime_gmtime env (word_of_int (sint t sdiv MSECS_PER_SEC)) @ '' '' @ LITERAL_UTC
      | CASS_VALUE_TYPE_UUID hi lo \<Rightarrow> cass_uuid_string env (hi, lo)
      | CASS_VALUE_TYPE_INET a \<Rightarrow> cass_inet_string env a
      | _ \<Rightarrow> ''<unhandled type>'')"

text \<open>\<open>make_tuple_from_result_row\<close>: the values and null flags of the tuple
  under construction are one array of pairs, all null at first; \<open>j\<close> indexes the
  columns of the remote row. A read outside the row or the tuple descriptor is
  reported as \<open>UndefinedRead\<close>.\<close>

type_synonym HeapTuple = "Datum option list"

fun materialize_loop :: "ServerEnv \<Rightarrow> Relation \<Rightarrow> CassRow \<Rightarrow> int list \<Rightarrow> nat
    \<Rightarrow> (Datum \<times> bool) list \<Rightarrow> error + ((Datum \<times> bool) list \<times> nat)" where
  "materialize_loop env rel row [] j vals = Inr (vals, j)"
| "materialize_loop env rel row (i # lc) j vals =
     (if j < length row
      then if i > 0
           then (case TupleDescAttr rel (i - 1) of
                   None \<Rightarrow> Inl (UndefinedRead ''attinfuncs'')
                 | Some attr \<Rightarrow>
                     (case InputFunctionCall env (atttypid attr)
                             (map_option (pgcass_transferValue env) (row ! j)) of
                        Inl e \<Rightarrow> Inl e
                      | Inr d \<Rightarrow>
                          materialize_loop env rel row lc (j + 1)
                            (vals[nat (i - 1) := (d, row ! j = None)])))
           else materialize_loop env rel row lc (j + 1) vals
      else Inl (UndefinedRead ''cass_row_get_column''))"

definition heap_form_tuple :: "(Datum \<times> bool) list \<Rightarrow> HeapTuple" where
  "heap_form_tuple vals = map (\<lambda>(d, isnull). if isnull then None else Some d) vals"

definition make_tuple_from_result_row :: "ServerEnv \<Rightarrow> CassRow \<Rightarrow> int \<Rightarrow> Relation \<Rightarrow> int list
    \<Rightarrow> error + HeapTuple" where
  "make_tuple_from_result_row env row ncolumn rel retrieved_attrs =
     (case materialize_loop env rel row retrieved_attrs 0
             (replicate (length (rd_att rel)) (0, True)) of
        Inl e \<Rightarrow> Inl e
      | Inr (vals, j) \<Rightarrow>
          if j > 0 \<and> int j \<noteq> ncolumn then Inl ResultShapeMismatch
          else Inr (heap_form_tuple vals))"

record CassResult =
  cass_result_column_count :: int
  cass_result_rows :: "CassRow list"

datatype CassResultFuture = RESULT_OK CassResult | RESULT_ERROR string

record CassFdwScanState =
  fs_rel :: Relation
  fs_query :: string
  fs_retrieved_attrs :: "int list"
  NumberOfColumns :: int
  fs_cass_conn :: bool
  sql_sended :: bool
  fs_statement :: "(string \<times> nat) option"
  read_consistency :: CassConsistency
  tuples :: "HeapTuple option list option"
  num_tuples :: int
  next_tuple :: int
  fetch_ct_2 :: int
  eof_reached :: bool

record ScanCtx =
  fsstate :: CassFdwScanState
  scan_driver :: "DriverCall list"

definition scan_call :: "DriverCall \<Rightarrow> ScanCtx \<Rightarrow> ScanCtx" where
  "scan_call c ctx = ctx\<lparr> scan_driver := scan_driver ctx @ [c] \<rparr>"

definition create_cursor :: "ScanCtx \<Rightarrow> ScanCtx" where
  "create_cursor ctx =
     (scan_call (StatementNew (fs_query (fsstate ctx)) 0) ctx)
       \<lparr> fsstate := (fsstate ctx)
            \<lparr> fs_statement := Some (fs_query (fsstate ctx), 0),
              sql_sended := True,
              tuples := None,
              num_tuples := 0,
              next_tuple := 0,
              fetch_ct_2 := 0,
              eof_reached := False \<rparr> \<rparr>"

datatype elevel = WARNING | ERROR

text \<open>
  Modelled from the spec: \<open>pgcass_report_error\<close> lives in cstar\_connect.c,
  which is not among the sources; the header only declares it with an error
  level, the future, a clear flag and the statement text. The specification's error
  design says that a non-success status from the remote store is surfaced with the
  remote message, that every failure is fatal to the current operation and
  propagates to the caller at once, and that nothing is retried. So a report at
  level \<open>ERROR\<close> raises an error carrying the remote message and the statement and
  does not come back to its caller; a report at a lower level comes back.
\<close>

definition pgcass_report_error :: "elevel \<Rightarrow> string \<Rightarrow> string \<Rightarrow> error option" where
  "pgcass_report_error lvl message sql =
     (case lvl of
        ERROR \<Rightarrow> Some (RemoteQueryError message sql)
      | WARNING \<Rightarrow> None)"

text \<open>Converting the rows of a result: \<open>tuples[k]\<close> is stored row by row, so a
  row that fails to convert leaves the rows before it in the array.\<close>

fun store_tuples :: "ServerEnv \<Rightarrow> int \<Rightarrow> Relation \<Rightarrow> int list \<Rightarrow> CassRow list \<Rightarrow> nat
    \<Rightarrow> HeapTuple option list \<Rightarrow> error option \<times> HeapTuple option list" where
  "store_tuples env ncolumn rel retrieved [] k arr = (None, arr)"
| "store_tuples env ncolumn rel retrieved (row # rows) k arr =
     (case make_tuple_from_result_row env row ncolumn rel retrieved of
        Inl e \<Rightarrow> (Some e, arr)
      | Inr t \<Rightarrow> store_tuples env ncolumn rel retrieved rows (k + 1) (arr[k := Some t]))"

definition fetch_more_data :: "ServerEnv \<Rightarrow> ScanCtx \<Rightarrow> CassResultFuture \<Rightarrow> error option \<times> ScanCtx" where
  "fetch_more_data env ctx result_future =
     (let ctx1 = scan_call SessionExecute
                   (scan_call (SetConsistency (read_consistency (fsstate ctx)))
                      (ctx\<lparr> fsstate := (fsstate ctx)\<lparr> tuples := None \<rparr> \<rparr>))
      in case result_future of
           RESULT_OK res \<Rightarrow>
             (case store_tuples env (cass_result_column_count res) (fs_rel (fsstate ctx1))
                     (fs_retrieved_attrs (fsstate ctx1)) (cass_result_rows res) 0
                     (replicate (length (cass_result_rows res)) None) of
                (err, arr) \<Rightarrow>
                  (err,
                   ctx1\<lparr> fsstate := (fsstate ctx1)
                          \<lparr> NumberOfColumns := cass_result_column_count res,
                            tuples := Some arr,
                            num_tuples := int (length (cass_result_rows res)),
                            next_tuple := 0,
                            eof_reached := (if err = None then True
                                            else eof_reached (fsstate ctx1)) \<rparr> \<rparr>))
         | RESULT_ERROR message \<Rightarrow>
             (case pgcass_report_error ERROR message (fs_query (fsstate ctx1)) of
                Some e \<Rightarrow> (Some e, ctx1)
              | None \<Rightarrow>
                  (None, ctx1\<lparr> fsstate := (fsstate ctx1)\<lparr> eof_reached := True \<rparr> \<rparr>)))"

text \<open>\<open>cassIterateForeignScan\<close> returns the next tuple, or nothing at the end
  of the data (the cleared slot).\<close>

definition next_stored_tuple :: "ScanCtx \<Rightarrow> error option \<times> ScanCtx \<times> HeapTuple option" where
  "next_stored_tuple ctx =
     (if next_tuple (fsstate ctx) \<ge> num_tuples (fsstate ctx) then (None, ctx, None)
      else
        (case tuples (fsstate ctx) of
           None \<Rightarrow> (Some (UndefinedRead ''tuples''), ctx, None)
         | Some arr \<Rightarrow>
             if 0 \<le> next_tuple (fsstate ctx) \<and> nat (next_tuple (fsstate ctx)) < length arr
             then (None,
                   ctx\<lparr> fsstate := (fsstate ctx)\<lparr> next_tuple := next_tuple (fsstate ctx) + 1 \<rparr> \<rparr>,
                   arr ! nat (next_tuple (fsstate ctx)))
             else (Some (UndefinedRead ''tuples''), ctx, None)))"

definition cassIterateForeignScan :: "ServerEnv \<Rightarrow> ScanCtx \<Rightarrow> CassResultFuture
    \<Rightarrow> error option \<times> ScanCtx \<times> HeapTuple option" where
  "cassIterateForeignScan env ctx result_future =
     (let ctx1 = (if sql_sended (fsstate ctx) then ctx else create_cursor ctx)
      in if next_tuple (fsstate ctx1) \<ge> num_tuples (fsstate ctx1)
            \<and> \<not> eof_reached (fsstate ctx1)
         then (case fetch_more_data env ctx1 result_future of
                 (Some e, ctx2) \<Rightarrow> (Some e, ctx2, None)
               | (None, ctx2) \<Rightarrow> next_stored_tuple ctx2)
         else next_stored_tuple ctx1)"

definition cassReScanForeignScan :: "ScanCtx \<Rightarrow> ScanCtx" where
  "cassReScanForeignScan ctx =
     (if sql_sended (fsstate ctx)
      then ctx\<lparr> fsstate := (fsstate ctx)\<lparr> next_tuple := 0 \<rparr> \<rparr>
      else ctx)"

section \<open>Specification predicates and example data\<close>

text \<open>Column \<open>i\<close> is selected by a used-column set when it is not dropped and
  the set holds the whole-row marker or the column's own bit.\<close>

definition selected :: "Relation \<Rightarrow> int \<Rightarrow> int set \<Rightarrow> int \<Rightarrow> bool" where
  "selected rel flo attrs_used i =
     (\<not> attisdropped (rd_att rel ! nat (i - 1))
      \<and> ((0 - flo) \<in> attrs_used \<or> (i - flo) \<in> attrs_used))"

definition is_bind :: "DriverCall \<Rightarrow> bool" where
  "is_bind c = (case c of StatementBind k p \<Rightarrow> True | _ \<Rightarrow> False)"

text \<open>The scenario table \<open>ks.t (id int, v1 smallint, v2 bigint, v3 boolean)\<close>
  with primary key \<open>id\<close>, and a variant whose second column is dropped.\<close>

definition example_atts :: "Form_pg_attribute list" where
  "example_atts =
     [\<lparr> attname = ''id'', attnum = 1, atttypid = INT4OID, attisdropped = False, attfdwoptions = [] \<rparr>,
      \<lparr> attname = ''v1'', attnum = 2, atttypid = INT2OID, attisdropped = False, attfdwoptions = [] \<rparr>,
      \<lparr> attname = ''v2'', attnum = 3, atttypid = INT8OID, attisdropped = False, attfdwoptions = [] \<rparr>,
      \<lparr> attname = ''v3'', attnum = 4, atttypid = BOOLOID, attisdropped = False, attfdwoptions = [] \<rparr>]"

definition example_rel :: Relation where
  "example_rel =
     \<lparr> rd_nspname = ''ks'', rd_relname = ''t'',
       rd_options = [(''primary_key'', ''id'')],
       rd_att = example_atts \<rparr>"

definition example_rel_dropped :: Relation where
  "example_rel_dropped =
     \<lparr> rd_nspname = ''ks'', rd_relname = ''t'',
       rd_options = [(''primary_key'', ''id'')],
       rd_att = [example_atts ! 0,
                 \<lparr> attname = ''........pg.dropped.2........'', attnum = 2, atttypid = InvalidOid,
                   attisdropped = True, attfdwoptions = [] \<rparr>,
                 example_atts ! 2, example_atts ! 3] \<rparr>"

definition no_keyword :: "string \<Rightarrow> bool" where
  "no_keyword s = False"

definition example_env :: ServerEnv where
  "example_env =
     \<lparr> OidOutputFunctionCall = (\<lambda>t v. []),
       timestamp2tm_tzoffset = (\<lambda>v. 0),
       InputFunctionCall = (\<lambda>t s. Inr 0),
       printf_f = (\<lambda>d. []),
       float_to_double = (\<lambda>d. 0),
       asctime_gmtime = (\<lambda>t. []),
       cass_uuid_string = (\<lambda>u. []),
       cass_inet_string = (\<lambda>a. []) \<rparr>"

text \<open>A table whose key column has a case-sensitive name and whose second
  column has a \<open>column_name\<close> option; a table whose key column is renamed on the
  remote side; and a table with two columns that start with the key's name.\<close>

definition example_rel_case :: Relation where
  "example_rel_case =
     \<lparr> rd_nspname = ''ks'', rd_relname = ''t'',
       rd_options = [(''primary_key'', ''Id'')],
       rd_att =
         [\<lparr> attname = ''Id'', attnum = 1, atttypid = INT4OID, attisdropped = False,
            attfdwoptions = [] \<rparr>,
          \<lparr> attname = ''v'', attnum = 2, atttypid = INT4OID, attisdropped = False,
            attfdwoptions = [(''column_name'', ''Val'')] \<rparr>] \<rparr>"

definition example_rel_renamed :: Relation where
  "example_rel_renamed =
     \<lparr> rd_nspname = ''ks'', rd_relname = ''t'',
       rd_options = [(''primary_key'', ''id'')],
       rd_att =
         [\<lparr> attname = ''id'', attnum = 1, atttypid = INT4OID, attisdropped = False,
            attfdwoptions = [(''column_name'', ''user_id'')] \<rparr>,
          \<lparr> attname = ''v'', attnum = 2, atttypid = INT4OID, attisdropped = False,
            attfdwoptions = [] \<rparr>] \<rparr>"

definition example_rel_prefix :: Relation where
  "example_rel_prefix =
     \<lparr> rd_nspname = ''ks'', rd_relname = ''t'',
       rd_options = [(''primary_key'', ''id'')],
       rd_att =
         [\<lparr> attname = ''id'', attnum = 1, atttypid = INT4OID, attisdropped = False,
            attfdwoptions = [] \<rparr>,
          \<lparr> attname = ''id2'', attnum = 2, atttypid = INT8OID, attisdropped = False,
            attfdwoptions = [] \<rparr>] \<rparr>"

text \<open>The plan and the initial state of the scenario's INSERT, and a tuple slot
  given by the values of its attributes in order.\<close>

definition example_insert_sql :: string where
  "example_insert_sql = ''INSERT INTO ks.t(id, v1, v2, v3) VALUES (?, ?, ?, ?)''"

definition example_insert_plan :: FdwModifyPrivate where
  "example_insert_plan =
     \<lparr> FdwModifyPrivateUpdateSql = example_insert_sql,
       FdwModifyPrivateTargetAttnums = [1, 2, 3, 4],
       FdwModifyPrivateHasReturning = False,
       FdwModifyPrivateRetrievedAttrs = [] \<rparr>"

definition example_insert_state :: CassFdwModifyState where
  "example_insert_state =
     \<lparr> fm_rel = example_rel,
       fm_cass_conn = True,
       fm_sql_sent = False,
       fm_statement = None,
       fm_write_consistency = CASS_CONSISTENCY_LOCAL_ONE,
       fm_query = example_insert_sql,
       fm_target_attrs = [1, 2, 3, 4],
       fm_has_returning = False,
       fm_retrieved_attrs = [],
       fm_keyAttno = 0,
       fm_p_nums = 4,
       fm_p_type_oids = [INT4OID, INT2OID, INT8OID, BOOLOID, InvalidOid] \<rparr>"

definition slot_of :: "Datum option list \<Rightarrow> int \<Rightarrow> Datum option" where
  "slot_of vals attno =
     (if 1 \<le> attno \<and> attno \<le> int (length vals) then vals ! nat (attno - 1) else None)"

text \<open>What it means for a driver call to be the binding of target attribute
  \<open>attno\<close> at position \<open>k\<close>: a null of a type other than smallint is bound as
  null, a value is bound the way \<open>bind_cass_statement_param\<close> converts it for the
  type recorded at that position.\<close>

definition bound_as :: "ServerEnv \<Rightarrow> CassFdwModifyState \<Rightarrow> (int \<Rightarrow> Datum option)
    \<Rightarrow> DriverCall \<Rightarrow> nat \<times> int \<Rightarrow> bool" where
  "bound_as env fm slot c ka =
     (case slot (snd ka) of
        None \<Rightarrow> c = StatementBind (fst ka) PNull \<and> p_type_oid fm (fst ka) \<noteq> Some INT2OID
      | Some v \<Rightarrow>
          (case p_type_oid fm (fst ka) of
             None \<Rightarrow> False
           | Some ty \<Rightarrow> bind_cass_statement_param env ty v (fst ka) = Inr c))"

definition bind_position :: "DriverCall \<Rightarrow> nat option" where
  "bind_position c = (case c of StatementBind k p \<Rightarrow> Some k | _ \<Rightarrow> None)"

definition supported_type :: "Oid \<Rightarrow> bool" where
  "supported_type ty =
     (ty \<in> set [INT2OID, INT4OID, INT8OID, FLOAT4OID, FLOAT8OID, BOOLOID, TEXTOID,
                 VARCHAROID, BPCHAROID, TIMESTAMPTZOID, TIMESTAMPOID])"

fun comma_separated :: "string list \<Rightarrow> string" where
  "comma_separated [] = []"
| "comma_separated [x] = x"
| "comma_separated (x # y # zs) = x @ '', '' @ comma_separated (y # zs)"

text \<open>The state of an UPDATE of \<open>v1\<close> on the scenario table, the key carried
  as the second entry of the plan's tuples.\<close>

definition example_update_state :: CassFdwModifyState where
  "example_update_state =
     \<lparr> fm_rel = example_rel,
       fm_cass_conn = True,
       fm_sql_sent = False,
       fm_statement = None,
       fm_write_consistency = CASS_CONSISTENCY_LOCAL_ONE,
       fm_query = ''UPDATE ks.t SET v1 = ? WHERE id = ?'',
       fm_target_attrs = [2],
       fm_has_returning = False,
       fm_retrieved_attrs = [],
       fm_keyAttno = 5,
       fm_p_nums = 2,
       fm_p_type_oids = [INT2OID, INT4OID] \<rparr>"

definition example_delete_state :: CassFdwModifyState where
  "example_delete_state =
     \<lparr> fm_rel = example_rel,
       fm_cass_conn = True,
       fm_sql_sent = False,
       fm_statement = None,
       fm_write_consistency = CASS_CONSISTENCY_LOCAL_ONE,
       fm_query = ''DELETE FROM ks.t WHERE id = ?'',
       fm_target_attrs = [],
       fm_has_returning = False,
       fm_retrieved_attrs = [],
       fm_keyAttno = 5,
       fm_p_nums = 1,
       fm_p_type_oids = [INT4OID] \<rparr>"

text \<open>A table \<open>ks.u (id uuid, addr inet)\<close> and the state of an INSERT into
  it, as \<open>cassBeginForeignModify\<close> builds it.\<close>

definition example_rel_uuid :: Relation where
  "example_rel_uuid =
     \<lparr> rd_nspname = ''ks'', rd_relname = ''u'',
       rd_options = [(''primary_key'', ''id'')],
       rd_att =
         [\<lparr> attname = ''id'', attnum = 1, atttypid = UUIDOID, attisdropped = False,
            attfdwoptions = [] \<rparr>,
          \<lparr> attname = ''addr'', attnum = 2, atttypid = INETOID, attisdropped = False,
            attfdwoptions = [] \<rparr>] \<rparr>"

definition example_uuid_plan :: FdwModifyPrivate where
  "example_uuid_plan =
     \<lparr> FdwModifyPrivateUpdateSql = ''INSERT INTO ks.u(id, addr) VALUES (?, ?)'',
       FdwModifyPrivateTargetAttnums = [1, 2],
       FdwModifyPrivateHasReturning = False,
       FdwModifyPrivateRetrievedAttrs = [] \<rparr>"

definition example_uuid_state :: CassFdwModifyState where
  "example_uuid_state =
     \<lparr> fm_rel = example_rel_uuid,
       fm_cass_conn = True,
       fm_sql_sent = False,
       fm_statement = None,
       fm_write_consistency = CASS_CONSISTENCY_LOCAL_ONE,
       fm_query = ''INSERT INTO ks.u(id, addr) VALUES (?, ?)'',
       fm_target_attrs = [1, 2],
       fm_has_returning = False,
       fm_retrieved_attrs = [],
       fm_keyAttno = 0,
       fm_p_nums = 2,
       fm_p_type_oids = [UUIDOID, INETOID, InvalidOid] \<rparr>"

text \<open>A target attribute can be bound at its position when a parameter type
  is recorded there and either the value is null and the type is not smallint, or
  the value is present and the type is one the write path converts. The error an
  operation raises for a reply of the remote store is none for \<open>CASS_OK\<close> and
  the remote failure under the operation's name otherwise.\<close>

definition bindable :: "CassFdwModifyState \<Rightarrow> (int \<Rightarrow> Datum option) \<Rightarrow> nat \<times> int \<Rightarrow> bool" where
  "bindable fm slot ka =
     (case p_type_oid fm (fst ka) of
        None \<Rightarrow> False
      | Some ty \<Rightarrow>
          (case slot (snd ka) of
             None \<Rightarrow> ty \<noteq> INT2OID
           | Some v \<Rightarrow> supported_type ty))"

definition remote_outcome :: "string \<Rightarrow> CassFuture \<Rightarrow> error option" where
  "remote_outcome opname future =
     (case future of
        CASS_OK \<Rightarrow> None
      | CASS_ERROR message \<Rightarrow> Some (RemoteFailure opname message))"

text \<open>An UPDATE of \<open>v2\<close> and \<open>v3\<close> on the scenario table: its plan, the target
  list of its subplan with the key as resjunk entry, and its initial state.\<close>

definition example_update_two_sql :: string where
  "example_update_two_sql = ''UPDATE ks.t SET v2 = ?, v3 = ? WHERE id = ?''"

definition example_update_two_plan :: FdwModifyPrivate where
  "example_update_two_plan =
     \<lparr> FdwModifyPrivateUpdateSql = example_update_two_sql,
       FdwModifyPrivateTargetAttnums = [3, 4],
       FdwModifyPrivateHasReturning = False,
       FdwModifyPrivateRetrievedAttrs = [] \<rparr>"

definition example_subplan_tlist :: "TargetEntry list" where
  "example_subplan_tlist =
     [\<lparr> expr = Var 1 1 INT4OID, resno = 1, resname = Some ''id'', resjunk = False \<rparr>,
      \<lparr> expr = Var 1 2 INT2OID, resno = 2, resname = Some ''v1'', resjunk = False \<rparr>,
      \<lparr> expr = OpaqueExpr, resno = 3, resname = Some ''v2'', resjunk = False \<rparr>,
      \<lparr> expr = OpaqueExpr, resno = 4, resname = Some ''v3'', resjunk = False \<rparr>,
      \<lparr> expr = Var 1 1 INT4OID, resno = 5, resname = Some ''id'', resjunk = True \<rparr>]"

definition example_update_two_state :: CassFdwModifyState where
  "example_update_two_state =
     \<lparr> fm_rel = example_rel,
       fm_cass_conn = True,
       fm_sql_sent = False,
       fm_statement = None,
       fm_write_consistency = CASS_CONSISTENCY_LOCAL_ONE,
       fm_query = example_update_two_sql,
       fm_target_attrs = [3, 4],
       fm_has_returning = False,
       fm_retrieved_attrs = [],
       fm_keyAttno = 5,
       fm_p_nums = 3,
       fm_p_type_oids = [INT8OID, BOOLOID, INT4OID] \<rparr>"

section \<open>The SELECT deparser\<close>

lemma upto_Cons: "i \<le> n \<Longrightarrow> [i..n] = i # [i + 1..n]"
  by (simp add: upto_rec1)

lemma colref_in_range:
  "1 \<le> i \<Longrightarrow> i \<le> natts rel \<Longrightarrow>
   cassDeparseColumnRef kw rel i
     = Inr (quote_identifier kw (remote_colname (rd_att rel ! nat (i - 1))))"
  by (simp add: cassDeparseColumnRef_def TupleDescAttr_def)

lemma target_list_loop_result:
  "rd_att rel = pre @ atts \<Longrightarrow> i = int (length pre) + 1 \<Longrightarrow>
   \<exists>buf'. target_list_loop kw rel ((0 - flo) \<in> attrs_used) flo attrs_used i atts
             (buf, retrieved, first)
       = Inr (buf', retrieved @ filter (selected rel flo attrs_used) [i..natts rel],
              first \<and> filter (selected rel flo attrs_used) [i..natts rel] = [])
     \<and> (if first \<and> filter (selected rel flo attrs_used) [i..natts rel] = []
        then buf' = buf else True)"
proof (induction atts arbitrary: pre i buf retrieved first)
  case Nil
  then show ?case by (simp add: natts_def)
next
  case (Cons attr atts)
  have split: "rd_att rel = (pre @ [attr]) @ atts" using Cons.prems by simp
  have nxt: "i + 1 = int (length (pre @ [attr])) + 1" using Cons.prems by simp
  have le: "i \<le> natts rel" and ge: "1 \<le> i" using Cons.prems by (simp_all add: natts_def)
  have at: "rd_att rel ! nat (i - 1) = attr" using Cons.prems by (simp add: nth_append)
  have sel: "selected rel flo attrs_used i =
      (\<not> attisdropped attr \<and> ((0 - flo) \<in> attrs_used \<or> (i - flo) \<in> attrs_used))"
    using at by (simp add: selected_def)
  note IH = Cons.IH[OF split nxt]
  show ?case
  proof (cases "selected rel flo attrs_used i")
    case True
    obtain c where c: "cassDeparseColumnRef kw rel i = Inr c"
      using colref_in_range[OF ge le] by blast
    from IH[of "(if first then buf else buf @ '', '') @ c" "retrieved @ [i]" False]
    obtain b where "target_list_loop kw rel ((0 - flo) \<in> attrs_used) flo attrs_used (i + 1) atts
        ((if first then buf else buf @ '', '') @ c, retrieved @ [i], False)
       = Inr (b, (retrieved @ [i]) @ filter (selected rel flo attrs_used) [i + 1..natts rel], False)"
      by auto
    with True c sel show ?thesis
      by (auto simp: upto_Cons[OF le])
  next
    case False
    from IH[of buf retrieved first]
    obtain b where "target_list_loop kw rel ((0 - flo) \<in> attrs_used) flo attrs_used (i + 1) atts
        (buf, retrieved, first)
       = Inr (b, retrieved @ filter (selected rel flo attrs_used) [i + 1..natts rel],
              first \<and> filter (selected rel flo attrs_used) [i + 1..natts rel] = [])"
      and "(if first \<and> filter (selected rel flo attrs_used) [i + 1..natts rel] = []
            then b = buf else True)"
      by auto
    with False sel show ?thesis
      by (auto simp: upto_Cons[OF le])
  qed
qed

lemma filter_upto_sorted: "sorted_wrt (<) (filter P [i..n])"
  by (rule sorted_wrt_filter) simp

text \<open>
  C9. For every relation, used-column set and buffer the SELECT deparser
  succeeds, and the retrieved attribute list is exactly the selected ordinals of
  \<open>1..natts\<close> in order: each selected ordinal once, strictly ascending, none of
  a dropped column. When it is empty, the statement is \<open>SELECT NULL FROM\<close>
  followed by the table name.
\<close>

theorem select_retrieved_attrs:
  "\<exists>sql retrieved.
     cassDeparseSelectSql kw buf rel flo attrs_used = Inr (sql, retrieved)
     \<and> retrieved = filter (selected rel flo attrs_used) [1..natts rel]
     \<and> sorted_wrt (<) retrieved
     \<and> distinct retrieved
     \<and> (\<forall>a \<in> set retrieved. 1 \<le> a \<and> a \<le> natts rel
            \<and> \<not> attisdropped (rd_att rel ! nat (a - 1)))
     \<and> (retrieved = [] \<longrightarrow> sql = buf @ ''SELECT NULL FROM '' @ cassDeparseRelation kw rel)"
proof -
  let ?r = "filter (selected rel flo attrs_used) [1..natts rel]"
  from target_list_loop_result[of rel "[]" "rd_att rel" 1 kw flo attrs_used "[]" "[]" True]
  obtain b where b: "target_list_loop kw rel ((0 - flo) \<in> attrs_used) flo attrs_used 1 (rd_att rel)
       ([], [], True) = Inr (b, ?r, ?r = [])"
    and b0: "?r = [] \<Longrightarrow> b = []"
    by (auto split: if_splits)
  have run: "cassDeparseSelectSql kw buf rel flo attrs_used =
      Inr (buf @ ''SELECT '' @ (if ?r = [] then b @ ''NULL'' else b) @ '' FROM ''
           @ cassDeparseRelation kw rel, ?r)"
    using b by (simp add: cassDeparseSelectSql_def cassDeparseTargetList_def)
  have srt: "sorted_wrt (<) ?r" by (rule filter_upto_sorted)
  have dst: "distinct ?r" by simp
  have rng: "\<forall>a \<in> set ?r. 1 \<le> a \<and> a \<le> natts rel \<and> \<not> attisdropped (rd_att rel ! nat (a - 1))"
    by (auto simp: selected_def)
  have nul: "?r = [] \<longrightarrow> buf @ ''SELECT '' @ (if ?r = [] then b @ ''NULL'' else b) @ '' FROM ''
           @ cassDeparseRelation kw rel = buf @ ''SELECT NULL FROM '' @ cassDeparseRelation kw rel"
    using b0 by simp
  show ?thesis
    using run srt dst rng nul by blast
qed

lemma select_example_empty:
  "cassDeparseSelectSql no_keyword [] example_rel_dropped (-7) {} = Inr (''SELECT NULL FROM ks.t'', [])"
  by code_simp

lemma select_example_wholerow:
  "cassDeparseSelectSql no_keyword [] example_rel_dropped (-7) {7}
     = Inr (''SELECT id, v2, v3 FROM ks.t'', [1, 3, 4])"
  by code_simp

theorem select_retrieved_attrs_witness:
  "(\<exists>sql. cassDeparseSelectSql no_keyword [] example_rel_dropped (-7) {} = Inr (sql, [])
          \<and> sql = [] @ ''SELECT NULL FROM '' @ cassDeparseRelation no_keyword example_rel_dropped)
   \<and> cassDeparseSelectSql no_keyword [] example_rel_dropped (-7) {}
       = Inr (''SELECT NULL FROM ks.t'', [])
   \<and> cassDeparseSelectSql no_keyword [] example_rel_dropped (-7) {7}
       = Inr (''SELECT id, v2, v3 FROM ks.t'', [1, 3, 4])"
proof -
  from select_retrieved_attrs[of no_keyword "[]" example_rel_dropped "-7" "{}"]
  obtain sql retrieved where
    r: "cassDeparseSelectSql no_keyword [] example_rel_dropped (-7) {} = Inr (sql, retrieved)"
    and n: "retrieved = [] \<longrightarrow>
            sql = [] @ ''SELECT NULL FROM '' @ cassDeparseRelation no_keyword example_rel_dropped"
    by blast
  from r have "retrieved = []" by (simp add: select_example_empty)
  with r n show ?thesis
    using select_example_empty select_example_wholerow by blast
qed

section \<open>Updatability and the primary-key option\<close>

lemma cassGetPKOption_None:
  "cassGetPKOption opts init = None \<Longrightarrow> init = None"
  by (induction opts arbitrary: init) (auto split: if_splits)

lemma column_list_error:
  "column_list kw rel suffix first attrs = Inl e \<Longrightarrow> \<exists>a. e = CacheLookupFailed a"
  by (induction attrs arbitrary: first)
     (auto simp: cassDeparseColumnRef_def split: sum.splits option.splits)

lemma plan_insert_no_pk_error:
  "cassPlanForeignModify kw flo CMD_INSERT action rel cols \<noteq> Inl NoPrimaryKey"
  by (auto simp: cassPlanForeignModify_def plan_target_attrs_def plan_sql_def
        cassDeparseInsertSql_def split: sum.splits if_splits dest: column_list_error)

text \<open>
  C10. The updatability report is the same bit mask for every relation, with
  the bits of UPDATE, INSERT and DELETE set, whatever the table's options are.
  A table without a \<open>primary_key\<close> option is only rejected when the update
  targets of an UPDATE or DELETE are added; planning an INSERT never raises the
  missing-key error.
\<close>

theorem updatable_regardless_of_primary_key:
  "cassIsForeignRelUpdatable rel = 28
   \<and> bit (cassIsForeignRelUpdatable rel) (cmd_code CMD_INSERT)
   \<and> bit (cassIsForeignRelUpdatable rel) (cmd_code CMD_UPDATE)
   \<and> bit (cassIsForeignRelUpdatable rel) (cmd_code CMD_DELETE)
   \<and> (cassGetPKOption (rd_options rel) None = None \<longrightarrow>
        cassAddForeignUpdateTargets parsetree rel = Inl NoPrimaryKey)
   \<and> cassPlanForeignModify kw flo CMD_INSERT action rel cols \<noteq> Inl NoPrimaryKey"
proof -
  have v: "cassIsForeignRelUpdatable rel = 28"
    by (simp add: cassIsForeignRelUpdatable_def)
  have b: "bit (28::int) 3" "bit (28::int) 2" "bit (28::int) 4"
    by (simp_all add: bit_iff_odd)
  have e: "cassGetPKOption (rd_options rel) None = None \<longrightarrow>
        cassAddForeignUpdateTargets parsetree rel = Inl NoPrimaryKey"
    by (simp add: cassAddForeignUpdateTargets_def)
  show ?thesis
    using v b e plan_insert_no_pk_error by simp
qed

theorem updatable_regardless_of_primary_key_witness:
  "cassGetPKOption (rd_options (example_rel\<lparr> rd_options := [] \<rparr>)) None = None
   \<and> cassIsForeignRelUpdatable (example_rel\<lparr> rd_options := [] \<rparr>) = 28
   \<and> cassAddForeignUpdateTargets \<lparr> resultRelation = 1, targetList = [] \<rparr>
        (example_rel\<lparr> rd_options := [] \<rparr>) = Inl NoPrimaryKey"
  using updatable_regardless_of_primary_key
          [of "example_rel\<lparr> rd_options := [] \<rparr>" "\<lparr> resultRelation = 1, targetList = [] \<rparr>"]
  by simp

section \<open>Types the write path accepts\<close>

lemma bind_unsupported_types:
  "bind_cass_statement_param env UUIDOID v pindex = Inl (UnsupportedType UUIDOID)
   \<and> bind_cass_statement_param env INETOID v pindex = Inl (UnsupportedType INETOID)"
  by (simp add: bind_cass_statement_param_def)

lemma example_uuid_insert:
  "cassPlanForeignModify no_keyword (-7) CMD_INSERT ONCONFLICT_NONE example_rel_uuid {}
     = Inr example_uuid_plan
   \<and> cassBeginForeignModify CMD_INSERT example_rel_uuid example_uuid_plan [] False
     = Inr (Some example_uuid_state)
   \<and> cassExecForeignInsert example_env \<lparr> fmstate = example_uuid_state, driver = [] \<rparr>
         (Some (slot_of [Some 5, Some 6])) CASS_OK
     = (Some (UnsupportedType UUIDOID),
        \<lparr> fmstate = example_uuid_state
            \<lparr> fm_statement := Some (''INSERT INTO ks.u(id, addr) VALUES (?, ?)'', 2) \<rparr>,
          driver = [StatementNew ''INSERT INTO ks.u(id, addr) VALUES (?, ?)'' 2] \<rparr>)"
  by code_simp

text \<open>
  C2. The write path has no case for UUID or address columns: binding a value
  of either type raises the unsupported-type error, whatever the value and the
  parameter position. An INSERT into a table \<open>(id uuid, addr inet)\<close> is planned
  and begun like any other and then fails at the first binding, before any
  execute: such a value is never written and cannot be read back.
\<close>

theorem bind_uuid_inet_unsupported:
  "bind_cass_statement_param env UUIDOID v pindex = Inl (UnsupportedType UUIDOID)
   \<and> bind_cass_statement_param env INETOID v pindex = Inl (UnsupportedType INETOID)
   \<and> cassPlanForeignModify no_keyword (-7) CMD_INSERT ONCONFLICT_NONE example_rel_uuid {}
     = Inr example_uuid_plan
   \<and> cassBeginForeignModify CMD_INSERT example_rel_uuid example_uuid_plan [] False
     = Inr (Some example_uuid_state)
   \<and> cassExecForeignInsert example_env \<lparr> fmstate = example_uuid_state, driver = [] \<rparr>
         (Some (slot_of [Some 5, Some 6])) CASS_OK
     = (Some (UnsupportedType UUIDOID),
        \<lparr> fmstate = example_uuid_state
            \<lparr> fm_statement := Some (''INSERT INTO ks.u(id, addr) VALUES (?, ?)'', 2) \<rparr>,
          driver = [StatementNew ''INSERT INTO ks.u(id, addr) VALUES (?, ?)'' 2] \<rparr>)"
  using bind_unsupported_types[of env v pindex] example_uuid_insert by simp

section \<open>A failed fetch\<close>

text \<open>
  C3. When the remote execute of a fetch fails, the error is raised with the
  remote message and the statement text, after exactly one execute call; the
  scan state left behind has its batch cleared and its end-of-data flag as it was
  before the fetch. After \<open>create_cursor\<close> that flag is false, so the first
  fetch of a scan that fails leaves it false.
\<close>

theorem fetch_failure_leaves_eof:
  "fetch_more_data env ctx (RESULT_ERROR message)
     = (Some (RemoteQueryError message (fs_query (fsstate ctx))),
        ctx\<lparr> fsstate := (fsstate ctx)\<lparr> tuples := None \<rparr>,
             scan_driver := scan_driver ctx
                @ [SetConsistency (read_consistency (fsstate ctx)), SessionExecute] \<rparr>)
   \<and> eof_reached (fsstate (snd (fetch_more_data env ctx (RESULT_ERROR message))))
       = eof_reached (fsstate ctx)
   \<and> eof_reached (fsstate (snd (fetch_more_data env (create_cursor ctx) (RESULT_ERROR message))))
       = False
   \<and> fst (cassIterateForeignScan env (ctx\<lparr> fsstate := (fsstate ctx)\<lparr> sql_sended := False \<rparr> \<rparr>)
             (RESULT_ERROR message))
       = Some (RemoteQueryError message (fs_query (fsstate ctx)))"
  by (simp add: fetch_more_data_def pgcass_report_error_def scan_call_def Let_def
        create_cursor_def cassIterateForeignScan_def)

section \<open>The key column in UPDATE and DELETE\<close>

text \<open>
  C4. A column reference of the SELECT list and of the SET list goes through the
  column's \<open>column_name\<close> option and the quoting routine; the key column after
  WHERE is the text of the \<open>primary_key\<close> option as it stands. With a key
  column \<open>Id\<close> the SELECT list has it quoted and the WHERE clauses have it bare;
  with a key column \<open>id\<close> renamed to \<open>user_id\<close> the SELECT list uses the remote
  name and the WHERE clauses the local one.
\<close>

theorem where_key_not_quoted:
  \<open>cassDeparseSelectSql no_keyword [] example_rel_case (-7) {7}
     = Inr (''SELECT "Id", "Val" FROM ks.t'', [1, 2])
   \<and> cassDeparseColumnRef no_keyword example_rel_case 1 = Inr ''"Id"''
   \<and> cassDeparseUpdateSql no_keyword [] example_rel_case [2] ''Id''
     = Inr ''UPDATE ks.t SET "Val" = ? WHERE Id = ?''
   \<and> cassDeparseDeleteSql no_keyword [] example_rel_case ''Id''
     = ''DELETE FROM ks.t WHERE Id = ?''
   \<and> map_sum id FdwModifyPrivateUpdateSql
        (cassPlanForeignModify no_keyword (-7) CMD_UPDATE ONCONFLICT_NONE example_rel_case {9})
     = Inr ''UPDATE ks.t SET "Val" = ? WHERE Id = ?''
   \<and> cassDeparseSelectSql no_keyword [] example_rel_renamed (-7) {7}
     = Inr (''SELECT user_id, v FROM ks.t'', [1, 2])
   \<and> map_sum id FdwModifyPrivateUpdateSql
        (cassPlanForeignModify no_keyword (-7) CMD_UPDATE ONCONFLICT_NONE example_rel_renamed {9})
     = Inr ''UPDATE ks.t SET v = ? WHERE id = ?''
   \<and> map_sum id FdwModifyPrivateUpdateSql
        (cassPlanForeignModify no_keyword (-7) CMD_DELETE ONCONFLICT_NONE example_rel_renamed {})
     = Inr ''DELETE FROM ks.t WHERE id = ?''\<close>
  by code_simp

section \<open>Adding the update targets\<close>

text \<open>
  C5. With the key name \<open>id\<close> and the columns \<open>id\<close> and \<open>id2\<close>, both columns
  pass the comparison over the first \<open>strlen(primary_key)\<close> characters and both
  are attached as resjunk entries; with the key name \<open>i\<close>, which no column of the
  scenario table bears, the column \<open>id\<close> is attached and no error is raised.
\<close>

theorem update_targets_prefix_match:
  "cassAddForeignUpdateTargets \<lparr> resultRelation = 1, targetList = [] \<rparr> example_rel_prefix
     = Inr \<lparr> resultRelation = 1,
             targetList =
               [\<lparr> expr = Var 1 1 INT4OID, resno = 1, resname = Some ''id'', resjunk = True \<rparr>,
                \<lparr> expr = Var 1 2 INT8OID, resno = 2, resname = Some ''id2'', resjunk = True \<rparr>] \<rparr>
   \<and> cassAddForeignUpdateTargets \<lparr> resultRelation = 1, targetList = [] \<rparr>
        (example_rel\<lparr> rd_options := [(''primary_key'', ''i'')] \<rparr>)
     = Inr \<lparr> resultRelation = 1,
             targetList =
               [\<lparr> expr = Var 1 1 INT4OID, resno = 1, resname = Some ''id'', resjunk = True \<rparr>] \<rparr>
   \<and> get_attnum (rd_att example_rel) ''i'' = 0"
  by code_simp

section \<open>The INSERT scenario\<close>

lemma quote_plain:
  "ident_start_ok s \<Longrightarrow> list_all ident_char_ok s \<Longrightarrow> \<not> kw s \<Longrightarrow> quote_identifier kw s = s"
  by (simp add: quote_identifier_def)

lemma plain_names:
  "ident_start_ok ''ks'' \<and> list_all ident_char_ok ''ks''"
  "ident_start_ok ''t'' \<and> list_all ident_char_ok ''t''"
  "ident_start_ok ''id'' \<and> list_all ident_char_ok ''id''"
  "ident_start_ok ''v1'' \<and> list_all ident_char_ok ''v1''"
  "ident_start_ok ''v2'' \<and> list_all ident_char_ok ''v2''"
  "ident_start_ok ''v3'' \<and> list_all ident_char_ok ''v3''"
  by code_simp+

lemma example_plan:
  assumes "\<not> kw ''ks''" "\<not> kw ''t''" "\<not> kw ''id''" "\<not> kw ''v1''" "\<not> kw ''v2''" "\<not> kw ''v3''"
  shows "cassPlanForeignModify kw flo CMD_INSERT ONCONFLICT_NONE example_rel cols
           = Inr example_insert_plan"
proof -
  have q: "quote_identifier kw ''ks'' = ''ks''" "quote_identifier kw ''t'' = ''t''"
    "quote_identifier kw ''id'' = ''id''" "quote_identifier kw ''v1'' = ''v1''"
    "quote_identifier kw ''v2'' = ''v2''" "quote_identifier kw ''v3'' = ''v3''"
    using assms plain_names by (simp_all add: quote_identifier_def)
  show ?thesis
    by (simp add: cassPlanForeignModify_def plan_target_attrs_def plan_sql_def
        cassDeparseInsertSql_def cassDeparseRelation_def cassDeparseColumnRef_def
        TupleDescAttr_def natts_def remote_colname_def example_rel_def example_atts_def
        example_insert_plan_def example_insert_sql_def OPT_PK_def q)
qed

lemma example_begin:
  "cassBeginForeignModify CMD_INSERT example_rel example_insert_plan subplan_tlist False
     = Inr (Some example_insert_state)"
  by (simp add: cassBeginForeignModify_def example_insert_plan_def example_insert_state_def
        TupleDescAttr_def natts_def example_rel_def example_atts_def
        cassGetWriteConsistencyOption_def DEFAULT_CONSISTENCY_LEVEL_def numeral_eq_Suc)

lemma example_exec:
  "cassExecForeignInsert env \<lparr> fmstate = example_insert_state, driver = [] \<rparr>
       (Some (slot_of [Some a, Some b, Some c, Some d])) CASS_OK
     = (None,
        \<lparr> fmstate = example_insert_state
            \<lparr> fm_sql_sent := True, fm_statement := Some (example_insert_sql, 4) \<rparr>,
          driver =
            [StatementNew example_insert_sql 4,
             StatementBind 0 (PInt32 (ucast a)),
             StatementBind 1 (PInt16 (ucast b)),
             StatementBind 2 (PInt64 c),
             StatementBind 3 (PBool (d \<noteq> 0)),
             SetConsistency CASS_CONSISTENCY_LOCAL_ONE,
             SessionExecute] \<rparr>)"
  by (simp add: cassExecForeignInsert_def new_statement_def call_def p_type_oid_def
        bind_cass_statement_param_def execute_statement_def Let_def slot_of_def
        example_insert_state_def)

text \<open>
  C1 (as amended). For the table \<open>ks.t (id int, v1 smallint, v2 bigint, v3
  boolean)\<close> with primary key \<open>id\<close>, planning an INSERT yields the statement
  \<open>INSERT INTO ks.t(id, v1, v2, v3) VALUES (?, ?, ?, ?)\<close> over all four
  columns, whichever columns the command supplies; the statement is created with
  four parameters, and executing it for a tuple without nulls binds the four
  values at positions 0 to 3 in column order before the one execute call.
\<close>

theorem insert_scenario_all_columns:
  assumes "\<not> kw ''ks''" "\<not> kw ''t''" "\<not> kw ''id''" "\<not> kw ''v1''" "\<not> kw ''v2''" "\<not> kw ''v3''"
  shows "cassPlanForeignModify kw flo CMD_INSERT ONCONFLICT_NONE example_rel cols
           = Inr example_insert_plan
         \<and> FdwModifyPrivateUpdateSql example_insert_plan
             = ''INSERT INTO ks.t(id, v1, v2, v3) VALUES (?, ?, ?, ?)''
         \<and> FdwModifyPrivateTargetAttnums example_insert_plan = [1, 2, 3, 4]
         \<and> cassBeginForeignModify CMD_INSERT example_rel example_insert_plan subplan_tlist False
             = Inr (Some example_insert_state)
         \<and> fm_p_nums example_insert_state = 4
         \<and> cassExecForeignInsert env \<lparr> fmstate = example_insert_state, driver = [] \<rparr>
               (Some (slot_of [Some a, Some b, Some c, Some d])) CASS_OK
             = (None,
                \<lparr> fmstate = example_insert_state
                    \<lparr> fm_sql_sent := True, fm_statement := Some (example_insert_sql, 4) \<rparr>,
                  driver =
                    [StatementNew example_insert_sql 4,
                     StatementBind 0 (PInt32 (ucast a)),
                     StatementBind 1 (PInt16 (ucast b)),
                     StatementBind 2 (PInt64 c),
                     StatementBind 3 (PBool (d \<noteq> 0)),
                     SetConsistency CASS_CONSISTENCY_LOCAL_ONE,
                     SessionExecute] \<rparr>)"
  using example_plan[OF assms] example_begin example_exec
  by (simp add: example_insert_plan_def example_insert_sql_def example_insert_state_def)

theorem insert_scenario_all_columns_witness:
  "\<not> no_keyword ''ks'' \<and> \<not> no_keyword ''t'' \<and> \<not> no_keyword ''id''
   \<and> \<not> no_keyword ''v1'' \<and> \<not> no_keyword ''v2'' \<and> \<not> no_keyword ''v3''
   \<and> cassPlanForeignModify no_keyword (-7) CMD_INSERT ONCONFLICT_NONE example_rel {}
       = Inr example_insert_plan
   \<and> cassExecForeignInsert example_env \<lparr> fmstate = example_insert_state, driver = [] \<rparr>
         (Some (slot_of [Some 1, Some 0, Some 2, Some 1])) CASS_OK
       = (None,
          \<lparr> fmstate = example_insert_state
              \<lparr> fm_sql_sent := True, fm_statement := Some (example_insert_sql, 4) \<rparr>,
            driver =
              [StatementNew example_insert_sql 4,
               StatementBind 0 (PInt32 1),
               StatementBind 1 (PInt16 0),
               StatementBind 2 (PInt64 2),
               StatementBind 3 (PBool True),
               SetConsistency CASS_CONSISTENCY_LOCAL_ONE,
               SessionExecute] \<rparr>)"
  using insert_scenario_all_columns[of no_keyword "-7" "{}" "[]" example_env 1 0 2 1]
  by (simp add: no_keyword_def)

text \<open>
  The scenario as the claim states it: the plan's statement is not the
  three-column one and the statement does not have three parameters; and when
  \<open>v1\<close> is not supplied, so that its value in the tuple is null, the execution
  binds \<open>id\<close> alone and raises the smallint error without an execute call.
\<close>

theorem insert_scenario_counterexample:
  "cassPlanForeignModify no_keyword (-7) CMD_INSERT ONCONFLICT_NONE example_rel {}
     = Inr example_insert_plan
   \<and> FdwModifyPrivateUpdateSql example_insert_plan
       \<noteq> ''INSERT INTO ks.t (id, v2, v3) VALUES (?, ?, ?)''
   \<and> FdwModifyPrivateTargetAttnums example_insert_plan \<noteq> [1, 3, 4]
   \<and> cassBeginForeignModify CMD_INSERT example_rel example_insert_plan [] False
       = Inr (Some example_insert_state)
   \<and> fm_p_nums example_insert_state \<noteq> 3
   \<and> cassExecForeignInsert example_env \<lparr> fmstate = example_insert_state, driver = [] \<rparr>
         (Some (slot_of [Some 1, None, Some 2, Some 1])) CASS_OK
       = (Some (SmallintNullBind ''INSERT''),
          \<lparr> fmstate = example_insert_state
              \<lparr> fm_cass_conn := False, fm_statement := Some (example_insert_sql, 4) \<rparr>,
            driver =
              [StatementNew example_insert_sql 4,
               StatementBind 0 (PInt32 1),
               ReleaseConnection] \<rparr>)"
  by code_simp

section \<open>The binding loop\<close>

lemma fmstate_call [simp]: "fmstate (call c ctx) = fmstate ctx"
  by (simp add: call_def)

lemma driver_call [simp]: "driver (call c ctx) = driver ctx @ [c]"
  by (simp add: call_def)

lemma p_type_oid_call [simp]: "p_type_oid (fmstate (call c ctx)) k = p_type_oid (fmstate ctx) k"
  by simp

lemma release_driver:
  "\<exists>rest. driver (releaseCassResources ctx) = driver ctx @ rest
          \<and> set rest \<subseteq> {StatementFree, ReleaseConnection}"
  by (auto simp: releaseCassResources_def Let_def)

lemma release_fields:
  "fm_p_type_oids (fmstate (releaseCassResources ctx)) = fm_p_type_oids (fmstate ctx)
   \<and> fm_keyAttno (fmstate (releaseCassResources ctx)) = fm_keyAttno (fmstate ctx)
   \<and> fm_rel (fmstate (releaseCassResources ctx)) = fm_rel (fmstate ctx)"
  by (simp add: releaseCassResources_def Let_def)

lemma bind_param_position:
  "bind_cass_statement_param env ty v k = Inr c \<Longrightarrow> \<exists>p. c = StatementBind k p \<and> p \<noteq> PNull"
  by (cases ty) (auto simp: bind_cass_statement_param_def)

lemma bind_param_supported:
  "supported_type ty \<Longrightarrow> \<exists>c. bind_cass_statement_param env ty v k = Inr c"
  by (cases ty) (auto simp: bind_cass_statement_param_def supported_type_def)

lemma bound_as_position:
  "bound_as env fm slot c (k, a) \<Longrightarrow> bind_position c = Some k"
  by (auto simp: bound_as_def bind_position_def split: option.splits dest: bind_param_position)

lemma bound_as_not_execute:
  "bound_as env fm slot c ka \<Longrightarrow> c \<noteq> SessionExecute"
  by (cases ka) (auto simp: bind_position_def dest: bound_as_position)

lemma bound_as_null:
  "bound_as env fm slot (StatementBind j PNull) (k, a) \<Longrightarrow>
     j = k \<and> slot a = None \<and> p_type_oid fm k \<noteq> Some INT2OID"
  by (auto simp: bound_as_def split: option.splits dest: bind_param_position)

text \<open>A run of the loop over \<open>attrs\<close> from position \<open>p\<close>: it binds an initial
  segment of the attributes at consecutive positions; on success the segment is
  the whole list and the state is unchanged, on failure only release calls
  follow the bindings.\<close>

lemma bind_target_attrs_run:
  "bind_target_attrs env opname slot attrs p ctx = (r, ctx', p') \<Longrightarrow>
   \<exists>m binds rest.
     p' = p + m \<and> m \<le> length attrs
     \<and> driver ctx' = driver ctx @ binds @ rest
     \<and> list_all2 (bound_as env (fmstate ctx) slot) binds (zip [p..<p + m] (take m attrs))
     \<and> set rest \<subseteq> {StatementFree, ReleaseConnection}
     \<and> fm_p_type_oids (fmstate ctx') = fm_p_type_oids (fmstate ctx)
     \<and> (if r = None then m = length attrs \<and> rest = [] \<and> fmstate ctx' = fmstate ctx
        else m < length attrs)"
proof (induction attrs arbitrary: p ctx)
  case Nil
  then show ?case by auto
next
  case (Cons attno lc)
  show ?case
  proof (cases "p_type_oid (fmstate ctx) p")
    case None
    with Cons.prems have "r = Some (UndefinedRead ''p_type_oids'')" "ctx' = ctx" "p' = p"
      by auto
    then show ?thesis by (intro exI[of _ 0] exI[of _ "[]"]) auto
  next
    case (Some ty)
    show ?thesis
    proof (cases "slot attno")
      case None
      show ?thesis
      proof (cases "ty = INT2OID")
        case True
        with Cons.prems Some None
        have res: "r = Some (SmallintNullBind opname)" "ctx' = releaseCassResources ctx" "p' = p"
          by (auto simp: cassStatementBindNull_def)
        from release_driver[of ctx] obtain rest where
          "driver (releaseCassResources ctx) = driver ctx @ rest"
          "set rest \<subseteq> {StatementFree, ReleaseConnection}" by blast
        with res release_fields[of ctx] show ?thesis
          by (intro exI[of _ 0] exI[of _ "[]"] exI[of _ rest]) auto
      next
        case False
        with Cons.prems Some None
        have rec: "bind_target_attrs env opname slot lc (p + 1)
                     (call (StatementBind p PNull) ctx) = (r, ctx', p')"
          by (auto simp: cassStatementBindNull_def)
        from Cons.IH[OF rec] obtain m binds rest where
          ih: "p' = p + 1 + m" "m \<le> length lc"
            "driver ctx' = driver (call (StatementBind p PNull) ctx) @ binds @ rest"
            "list_all2 (bound_as env (fmstate ctx) slot) binds (zip [p + 1..<p + 1 + m] (take m lc))"
            "set rest \<subseteq> {StatementFree, ReleaseConnection}"
            "fm_p_type_oids (fmstate ctx') = fm_p_type_oids (fmstate ctx)"
            "if r = None then m = length lc \<and> rest = [] \<and> fmstate ctx' = fmstate ctx
             else m < length lc"
          by auto
        have b: "bound_as env (fmstate ctx) slot (StatementBind p PNull) (p, attno)"
          using None Some False by (simp add: bound_as_def)
        have z: "zip [p..<p + Suc m] (take (Suc m) (attno # lc))
                   = (p, attno) # zip [p + 1..<p + 1 + m] (take m lc)"
          by (simp add: upt_conv_Cons)
        show ?thesis
          using ih b z
          by (intro exI[of _ "Suc m"] exI[of _ "StatementBind p PNull # binds"] exI[of _ rest])
             (auto split: if_splits)
      qed
    next
      case (Some v)
      note v = this
      show ?thesis
      proof (cases "bind_cass_statement_param env ty v p")
        case (Inl e)
        with Cons.prems \<open>p_type_oid (fmstate ctx) p = Some ty\<close> v
        have "r = Some e" "ctx' = ctx" "p' = p" by auto
        then show ?thesis by (intro exI[of _ 0] exI[of _ "[]"]) auto
      next
        case (Inr c)
        with Cons.prems \<open>p_type_oid (fmstate ctx) p = Some ty\<close> v
        have rec: "bind_target_attrs env opname slot lc (p + 1) (call c ctx) = (r, ctx', p')"
          by auto
        from Cons.IH[OF rec] obtain m binds rest where
          ih: "p' = p + 1 + m" "m \<le> length lc"
            "driver ctx' = driver (call c ctx) @ binds @ rest"
            "list_all2 (bound_as env (fmstate ctx) slot) binds (zip [p + 1..<p + 1 + m] (take m lc))"
            "set rest \<subseteq> {StatementFree, ReleaseConnection}"
            "fm_p_type_oids (fmstate ctx') = fm_p_type_oids (fmstate ctx)"
            "if r = None then m = length lc \<and> rest = [] \<and> fmstate ctx' = fmstate ctx
             else m < length lc"
          by auto
        have b: "bound_as env (fmstate ctx) slot c (p, attno)"
          using v Inr \<open>p_type_oid (fmstate ctx) p = Some ty\<close> by (simp add: bound_as_def)
        have z: "zip [p..<p + Suc m] (take (Suc m) (attno # lc))
                   = (p, attno) # zip [p + 1..<p + 1 + m] (take m lc)"
          by (simp add: upt_conv_Cons)
        show ?thesis
          using ih b z
          by (intro exI[of _ "Suc m"] exI[of _ "c # binds"] exI[of _ rest])
             (auto split: if_splits)
      qed
    qed
  qed
qed

lemma zip_upt_nth:
  "i < m \<Longrightarrow> m \<le> length attrs \<Longrightarrow> zip [p..<p + m] (take m attrs) ! i = (p + i, attrs ! i)"
  by simp

lemma bind_target_attrs_null_smallint:
  assumes run: "bind_target_attrs env opname slot attrs p ctx = (r, ctx', p')"
    and k: "k < length attrs"
    and null: "slot (attrs ! k) = None"
    and ty: "p_type_oid (fmstate ctx) (p + k) = Some INT2OID"
  shows "r \<noteq> None"
    and "\<exists>calls. driver ctx' = driver ctx @ calls \<and> SessionExecute \<notin> set calls
           \<and> StatementBind (p + k) PNull \<notin> set calls"
proof -
  from bind_target_attrs_run[OF run] obtain m binds rest where
    m: "m \<le> length attrs"
    and d: "driver ctx' = driver ctx @ binds @ rest"
    and b: "list_all2 (bound_as env (fmstate ctx) slot) binds (zip [p..<p + m] (take m attrs))"
    and rest: "set rest \<subseteq> {StatementFree, ReleaseConnection}"
    and fin: "if r = None then m = length attrs \<and> rest = [] \<and> fmstate ctx' = fmstate ctx
              else m < length attrs"
    by blast
  have len: "length binds = m" using b m by (auto dest: list_all2_lengthD)
  have at: "\<And>i. i < m \<Longrightarrow> bound_as env (fmstate ctx) slot (binds ! i) (p + i, attrs ! i)"
  proof -
    fix i assume i: "i < m"
    from list_all2_nthD[OF b, of i] i len
    have "bound_as env (fmstate ctx) slot (binds ! i) (zip [p..<p + m] (take m attrs) ! i)"
      by simp
    then show "bound_as env (fmstate ctx) slot (binds ! i) (p + i, attrs ! i)"
      using zip_upt_nth[OF i m] by simp
  qed
  show "r \<noteq> None"
  proof
    assume "r = None"
    with fin have "m = length attrs" by simp
    with k at[of k] have "bound_as env (fmstate ctx) slot (binds ! k) (p + k, attrs ! k)" by simp
    with null ty show False by (simp add: bound_as_def)
  qed
  have noexec: "SessionExecute \<notin> set binds"
  proof
    assume "SessionExecute \<in> set binds"
    then obtain i where "i < m" "binds ! i = SessionExecute"
      using len by (auto simp: in_set_conv_nth)
    with at[of i] show False by (auto dest: bound_as_not_execute)
  qed
  have nonull: "StatementBind (p + k) PNull \<notin> set binds"
  proof
    assume "StatementBind (p + k) PNull \<in> set binds"
    then obtain i where i: "i < m" "binds ! i = StatementBind (p + k) PNull"
      using len by (auto simp: in_set_conv_nth)
    with at[of i] have "p + k = p + i \<and> p_type_oid (fmstate ctx) (p + i) \<noteq> Some INT2OID"
      by (auto dest: bound_as_null)
    with ty show False by simp
  qed
  from rest have "SessionExecute \<notin> set rest" "StatementBind (p + k) PNull \<notin> set rest"
    by auto
  with d noexec nonull
  show "\<exists>calls. driver ctx' = driver ctx @ calls \<and> SessionExecute \<notin> set calls
           \<and> StatementBind (p + k) PNull \<notin> set calls"
    by (intro exI[of _ "binds @ rest"]) simp
qed

lemma bind_target_attrs_supported:
  "bind_target_attrs env opname slot attrs p ctx = (r, ctx', p') \<Longrightarrow>
   list_all supported_type (take (length attrs) (drop p (fm_p_type_oids (fmstate ctx)))) \<Longrightarrow>
   p + length attrs \<le> length (fm_p_type_oids (fmstate ctx)) \<Longrightarrow>
   r = None \<or> r = Some (SmallintNullBind opname)"
proof (induction attrs arbitrary: p ctx)
  case Nil
  then show ?case by simp
next
  case (Cons attno lc)
  have inr: "p < length (fm_p_type_oids (fmstate ctx))" using Cons.prems(3) by simp
  then have ty: "p_type_oid (fmstate ctx) p = Some (fm_p_type_oids (fmstate ctx) ! p)"
    by (simp add: p_type_oid_def)
  have d: "drop p (fm_p_type_oids (fmstate ctx))
           = fm_p_type_oids (fmstate ctx) ! p # drop (p + 1) (fm_p_type_oids (fmstate ctx))"
    using inr by (simp add: Cons_nth_drop_Suc)
  have sup: "supported_type (fm_p_type_oids (fmstate ctx) ! p)"
    and sup': "list_all supported_type
                 (take (length lc) (drop (p + 1) (fm_p_type_oids (fmstate ctx))))"
    using Cons.prems(2) d by simp_all
  have len': "p + 1 + length lc \<le> length (fm_p_type_oids (fmstate ctx))"
    using Cons.prems(3) by simp
  show ?case
  proof (cases "slot attno")
    case None
    show ?thesis
    proof (cases "fm_p_type_oids (fmstate ctx) ! p = INT2OID")
      case True
      with Cons.prems(1) ty None show ?thesis by (auto simp: cassStatementBindNull_def)
    next
      case False
      with Cons.prems(1) ty None
      have "bind_target_attrs env opname slot lc (p + 1)
              (call (StatementBind p PNull) ctx) = (r, ctx', p')"
        by (auto simp: cassStatementBindNull_def)
      from Cons.IH[OF this] sup' len' show ?thesis by simp
    qed
  next
    case (Some v)
    from bind_param_supported[OF sup, of env v p] obtain c where
      c: "bind_cass_statement_param env (fm_p_type_oids (fmstate ctx) ! p) v p = Inr c" by blast
    with Cons.prems(1) ty Some
    have "bind_target_attrs env opname slot lc (p + 1) (call c ctx) = (r, ctx', p')"
      by auto
    from Cons.IH[OF this] sup' len' show ?thesis by simp
  qed
qed

lemma new_statement_driver:
  "\<exists>pre. driver (new_statement ctx) = driver ctx @ pre
         \<and> pre = (if fm_sql_sent (fmstate ctx) then []
                  else [StatementNew (fm_query (fmstate ctx)) (fm_p_nums (fmstate ctx))])"
  by (simp add: new_statement_def)

lemma new_statement_fields:
  "fm_p_type_oids (fmstate (new_statement ctx)) = fm_p_type_oids (fmstate ctx)
   \<and> fm_keyAttno (fmstate (new_statement ctx)) = fm_keyAttno (fmstate ctx)
   \<and> fm_rel (fmstate (new_statement ctx)) = fm_rel (fmstate ctx)
   \<and> fm_target_attrs (fmstate (new_statement ctx)) = fm_target_attrs (fmstate ctx)
   \<and> fm_write_consistency (fmstate (new_statement ctx)) = fm_write_consistency (fmstate ctx)"
  by (simp add: new_statement_def)

lemma p_type_oid_new_statement [simp]:
  "p_type_oid (fmstate (new_statement ctx)) k = p_type_oid (fmstate ctx) k"
  by (simp add: p_type_oid_def new_statement_fields)

lemma bound_as_new_statement [simp]:
  "bound_as env (fmstate (new_statement ctx)) = bound_as env (fmstate ctx)"
  by (rule ext)+ (simp add: bound_as_def cong: option.case_cong)

section \<open>Null smallint values\<close>

lemma bind_null_smallint:
  "cassStatementBindNull ctx pindex INT2OID opname
     = (Some (SmallintNullBind opname), releaseCassResources ctx)"
  by (simp add: cassStatementBindNull_def)

lemma bind_null_other:
  "ptypeid \<noteq> INT2OID \<Longrightarrow>
   cassStatementBindNull ctx pindex ptypeid opname = (None, call (StatementBind pindex PNull) ctx)"
  by (simp add: cassStatementBindNull_def)

lemma target_phase_null_smallint:
  assumes k: "k < length (fm_target_attrs (fmstate ctx))"
    and null: "s (fm_target_attrs (fmstate ctx) ! k) = None"
    and ty: "p_type_oid (fmstate ctx) k = Some INT2OID"
  shows "\<exists>e c1 p1 calls.
           bind_target_attrs env opname s (fm_target_attrs (fmstate ctx)) 0 (new_statement ctx)
             = (Some e, c1, p1)
           \<and> driver c1 = driver ctx @ calls
           \<and> SessionExecute \<notin> set calls
           \<and> StatementBind k PNull \<notin> set calls
           \<and> (list_all supported_type
                 (take (length (fm_target_attrs (fmstate ctx))) (fm_p_type_oids (fmstate ctx)))
               \<and> length (fm_target_attrs (fmstate ctx)) \<le> length (fm_p_type_oids (fmstate ctx))
               \<longrightarrow> e = SmallintNullBind opname)"
proof -
  obtain r c1 p1 where
    run: "bind_target_attrs env opname s (fm_target_attrs (fmstate ctx)) 0 (new_statement ctx)
            = (r, c1, p1)"
    by (rule prod_cases3)
  have ty': "p_type_oid (fmstate (new_statement ctx)) (0 + k) = Some INT2OID"
    using ty by simp
  from bind_target_attrs_null_smallint[where slot = s, OF run k null ty']
  obtain e calls where e: "r = Some e"
    and d: "driver c1 = driver (new_statement ctx) @ calls"
    and ne: "SessionExecute \<notin> set calls" and nn: "StatementBind k PNull \<notin> set calls"
    by auto
  obtain pre where pre: "driver (new_statement ctx) = driver ctx @ pre"
    "pre = (if fm_sql_sent (fmstate ctx) then []
            else [StatementNew (fm_query (fmstate ctx)) (fm_p_nums (fmstate ctx))])"
    using new_statement_driver by blast
  have sup: "list_all supported_type
                 (take (length (fm_target_attrs (fmstate ctx))) (fm_p_type_oids (fmstate ctx)))
               \<and> length (fm_target_attrs (fmstate ctx)) \<le> length (fm_p_type_oids (fmstate ctx))
               \<longrightarrow> e = SmallintNullBind opname"
  proof
    assume a: "list_all supported_type
                 (take (length (fm_target_attrs (fmstate ctx))) (fm_p_type_oids (fmstate ctx)))
               \<and> length (fm_target_attrs (fmstate ctx)) \<le> length (fm_p_type_oids (fmstate ctx))"
    from bind_target_attrs_supported[OF run] a e
    show "e = SmallintNullBind opname" by (simp add: new_statement_fields)
  qed
  have "driver c1 = driver ctx @ (pre @ calls)" using d pre by simp
  moreover have "SessionExecute \<notin> set (pre @ calls)" using ne pre by simp
  moreover have "StatementBind k PNull \<notin> set (pre @ calls)" using nn pre by simp
  ultimately show ?thesis using run e sup by blast
qed

text \<open>
  C6. When the tuple value of a target column is null and the parameter type
  recorded for its position is smallint, an INSERT and an UPDATE raise an error
  and the driver calls they made contain neither an execute nor a null binding at
  that position; when all target columns have supported types the error is the
  smallint-null error under the operation's name. The null binding itself raises
  that error for the smallint type and binds a null parameter for every other
  type.
\<close>

theorem null_smallint_fails_before_execute:
  assumes k: "k < length (fm_target_attrs (fmstate ctx))"
    and null: "s (fm_target_attrs (fmstate ctx) ! k) = None"
    and ty: "p_type_oid (fmstate ctx) k = Some INT2OID"
  shows "(\<exists>e ctx' calls.
            cassExecForeignInsert env ctx (Some s) future = (Some e, ctx')
            \<and> driver ctx' = driver ctx @ calls
            \<and> SessionExecute \<notin> set calls
            \<and> StatementBind k PNull \<notin> set calls
            \<and> (list_all supported_type
                  (take (length (fm_target_attrs (fmstate ctx))) (fm_p_type_oids (fmstate ctx)))
                \<and> length (fm_target_attrs (fmstate ctx)) \<le> length (fm_p_type_oids (fmstate ctx))
                \<longrightarrow> e = SmallintNullBind ''INSERT''))
         \<and> (\<exists>e ctx' calls.
            cassExecForeignUpdate env ctx (Some s) planSlot future = (Some e, ctx')
            \<and> driver ctx' = driver ctx @ calls
            \<and> SessionExecute \<notin> set calls
            \<and> StatementBind k PNull \<notin> set calls
            \<and> (list_all supported_type
                  (take (length (fm_target_attrs (fmstate ctx))) (fm_p_type_oids (fmstate ctx)))
                \<and> length (fm_target_attrs (fmstate ctx)) \<le> length (fm_p_type_oids (fmstate ctx))
                \<longrightarrow> e = SmallintNullBind ''UPDATE''))
         \<and> cassStatementBindNull ctx pindex INT2OID opname
             = (Some (SmallintNullBind opname), releaseCassResources ctx)
         \<and> (ptypeid \<noteq> INT2OID \<longrightarrow>
             cassStatementBindNull ctx pindex ptypeid opname
               = (None, call (StatementBind pindex PNull) ctx))"
proof -
  have ne: "fm_target_attrs (fmstate ctx) \<noteq> []" using k by auto
  from target_phase_null_smallint[where s = s and env = env and opname = "''INSERT''", OF k null ty]
  obtain e c1 p1 calls where
    i: "bind_target_attrs env ''INSERT'' s (fm_target_attrs (fmstate ctx)) 0 (new_statement ctx)
          = (Some e, c1, p1)"
       "driver c1 = driver ctx @ calls" "SessionExecute \<notin> set calls"
       "StatementBind k PNull \<notin> set calls"
       "list_all supported_type
          (take (length (fm_target_attrs (fmstate ctx))) (fm_p_type_oids (fmstate ctx)))
        \<and> length (fm_target_attrs (fmstate ctx)) \<le> length (fm_p_type_oids (fmstate ctx))
        \<longrightarrow> e = SmallintNullBind ''INSERT''"
    by blast
  have "cassExecForeignInsert env ctx (Some s) future = (Some e, c1)"
    using i(1) ne by (simp add: cassExecForeignInsert_def)
  with i have ins: "\<exists>e ctx' calls.
            cassExecForeignInsert env ctx (Some s) future = (Some e, ctx')
            \<and> driver ctx' = driver ctx @ calls
            \<and> SessionExecute \<notin> set calls
            \<and> StatementBind k PNull \<notin> set calls
            \<and> (list_all supported_type
                  (take (length (fm_target_attrs (fmstate ctx))) (fm_p_type_oids (fmstate ctx)))
                \<and> length (fm_target_attrs (fmstate ctx)) \<le> length (fm_p_type_oids (fmstate ctx))
                \<longrightarrow> e = SmallintNullBind ''INSERT'')"
    by blast
  from target_phase_null_smallint[where s = s and env = env and opname = "''UPDATE''", OF k null ty]
  obtain e c1 p1 calls where
    u: "bind_target_attrs env ''UPDATE'' s (fm_target_attrs (fmstate ctx)) 0 (new_statement ctx)
          = (Some e, c1, p1)"
       "driver c1 = driver ctx @ calls" "SessionExecute \<notin> set calls"
       "StatementBind k PNull \<notin> set calls"
       "list_all supported_type
          (take (length (fm_target_attrs (fmstate ctx))) (fm_p_type_oids (fmstate ctx)))
        \<and> length (fm_target_attrs (fmstate ctx)) \<le> length (fm_p_type_oids (fmstate ctx))
        \<longrightarrow> e = SmallintNullBind ''UPDATE''"
    by blast
  have "cassExecForeignUpdate env ctx (Some s) planSlot future = (Some e, c1)"
    using u(1) ne by (simp add: cassExecForeignUpdate_def cassExecPKPredWrite_def)
  with u have upd: "\<exists>e ctx' calls.
            cassExecForeignUpdate env ctx (Some s) planSlot future = (Some e, ctx')
            \<and> driver ctx' = driver ctx @ calls
            \<and> SessionExecute \<notin> set calls
            \<and> StatementBind k PNull \<notin> set calls
            \<and> (list_all supported_type
                  (take (length (fm_target_attrs (fmstate ctx))) (fm_p_type_oids (fmstate ctx)))
                \<and> length (fm_target_attrs (fmstate ctx)) \<le> length (fm_p_type_oids (fmstate ctx))
                \<longrightarrow> e = SmallintNullBind ''UPDATE'')"
    by blast
  show ?thesis
    using ins upd bind_null_smallint bind_null_other by blast
qed

lemma example_null_smallint_insert:
  "cassExecForeignInsert example_env \<lparr> fmstate = example_insert_state, driver = [] \<rparr>
       (Some (slot_of [Some 1, None, None, Some 1])) CASS_OK
     = (Some (SmallintNullBind ''INSERT''),
        \<lparr> fmstate = example_insert_state
            \<lparr> fm_cass_conn := False, fm_statement := Some (example_insert_sql, 4) \<rparr>,
          driver = [StatementNew example_insert_sql 4, StatementBind 0 (PInt32 1),
                    ReleaseConnection] \<rparr>)"
  by code_simp

lemma example_null_bigint_insert:
  "cassExecForeignInsert example_env \<lparr> fmstate = example_insert_state, driver = [] \<rparr>
       (Some (slot_of [Some 1, Some 5, None, Some 1])) CASS_OK
     = (None,
        \<lparr> fmstate = example_insert_state
            \<lparr> fm_sql_sent := True, fm_statement := Some (example_insert_sql, 4) \<rparr>,
          driver = [StatementNew example_insert_sql 4, StatementBind 0 (PInt32 1),
                    StatementBind 1 (PInt16 5), StatementBind 2 PNull,
                    StatementBind 3 (PBool True),
                    SetConsistency CASS_CONSISTENCY_LOCAL_ONE, SessionExecute] \<rparr>)"
  by code_simp

theorem null_smallint_fails_before_execute_witness:
  "1 < length (fm_target_attrs example_insert_state)
   \<and> slot_of [Some 1, None, None, Some 1] (fm_target_attrs example_insert_state ! 1) = None
   \<and> p_type_oid example_insert_state 1 = Some INT2OID
   \<and> list_all supported_type
        (take (length (fm_target_attrs example_insert_state)) (fm_p_type_oids example_insert_state))
   \<and> (\<exists>ctx' calls.
        cassExecForeignInsert example_env \<lparr> fmstate = example_insert_state, driver = [] \<rparr>
            (Some (slot_of [Some 1, None, None, Some 1])) CASS_OK
          = (Some (SmallintNullBind ''INSERT''), ctx')
        \<and> driver ctx' = calls
        \<and> SessionExecute \<notin> set calls
        \<and> StatementBind 1 PNull \<notin> set calls)
   \<and> cassExecForeignInsert example_env \<lparr> fmstate = example_insert_state, driver = [] \<rparr>
         (Some (slot_of [Some 1, Some 5, None, Some 1])) CASS_OK
       = (None,
          \<lparr> fmstate = example_insert_state
              \<lparr> fm_sql_sent := True, fm_statement := Some (example_insert_sql, 4) \<rparr>,
            driver = [StatementNew example_insert_sql 4, StatementBind 0 (PInt32 1),
                      StatementBind 1 (PInt16 5), StatementBind 2 PNull,
                      StatementBind 3 (PBool True),
                      SetConsistency CASS_CONSISTENCY_LOCAL_ONE, SessionExecute] \<rparr>)"
proof -
  have h1: "1 < length (fm_target_attrs (fmstate \<lparr> fmstate = example_insert_state, driver = [] \<rparr>))"
    by (simp add: example_insert_state_def)
  have h2: "slot_of [Some 1, None, None, Some 1]
              (fm_target_attrs (fmstate \<lparr> fmstate = example_insert_state, driver = [] \<rparr>) ! 1) = None"
    by (simp add: example_insert_state_def slot_of_def)
  have h3: "p_type_oid (fmstate \<lparr> fmstate = example_insert_state, driver = [] \<rparr>) 1 = Some INT2OID"
    by (simp add: example_insert_state_def p_type_oid_def)
  have h4: "list_all supported_type
        (take (length (fm_target_attrs example_insert_state)) (fm_p_type_oids example_insert_state))"
    by (simp add: example_insert_state_def supported_type_def)
  have h5: "length (fm_target_attrs example_insert_state) \<le> length (fm_p_type_oids example_insert_state)"
    by (simp add: example_insert_state_def)
  from null_smallint_fails_before_execute
         [where s = "slot_of [Some 1, None, None, Some 1]" and env = example_env
            and future = CASS_OK, OF h1 h2 h3] h4 h5
  have "\<exists>ctx' calls.
        cassExecForeignInsert example_env \<lparr> fmstate = example_insert_state, driver = [] \<rparr>
            (Some (slot_of [Some 1, None, None, Some 1])) CASS_OK
          = (Some (SmallintNullBind ''INSERT''), ctx')
        \<and> driver ctx' = calls
        \<and> SessionExecute \<notin> set calls
        \<and> StatementBind 1 PNull \<notin> set calls"
    by auto
  then show ?thesis
    using h1 h2 h3 h4 example_null_bigint_insert by simp
qed

section \<open>A null key\<close>

lemma bind_key_null:
  "planSlot (fm_keyAttno (fmstate ctx)) = None \<Longrightarrow>
   \<exists>e. bind_key env planSlot pindex ctx = (Some e, ctx)
       \<and> (case cassGetPKOption (rd_options (fm_rel (fmstate ctx))) None of
             None \<Rightarrow> e = UndefinedRead ''primary_key''
           | Some pk \<Rightarrow> e = PrimaryKeyNull pk)"
  by (simp add: bind_key_def split: option.splits)

lemma bind_target_attrs_key_fields:
  "bind_target_attrs env opname slot attrs p ctx = (r, ctx', p') \<Longrightarrow>
   fm_keyAttno (fmstate ctx') = fm_keyAttno (fmstate ctx)
   \<and> fm_rel (fmstate ctx') = fm_rel (fmstate ctx)"
proof (induction attrs arbitrary: p ctx)
  case Nil
  then show ?case by auto
next
  case (Cons attno lc)
  show ?case
  proof (cases "p_type_oid (fmstate ctx) p")
    case None
    with Cons.prems show ?thesis by auto
  next
    case (Some ty)
    show ?thesis
    proof (cases "slot attno")
      case None
      show ?thesis
      proof (cases "ty = INT2OID")
        case True
        with Cons.prems Some None release_fields[of ctx] show ?thesis
          by (auto simp: cassStatementBindNull_def)
      next
        case False
        with Cons.prems Some None
        have "bind_target_attrs env opname slot lc (p + 1)
                (call (StatementBind p PNull) ctx) = (r, ctx', p')"
          by (auto simp: cassStatementBindNull_def)
        from Cons.IH[OF this] show ?thesis by simp
      qed
    next
      case v: (Some v)
      show ?thesis
      proof (cases "bind_cass_statement_param env ty v p")
        case (Inl e)
        with Cons.prems Some v show ?thesis by auto
      next
        case (Inr c)
        with Cons.prems Some v
        have "bind_target_attrs env opname slot lc (p + 1) (call c ctx) = (r, ctx', p')"
          by auto
        from Cons.IH[OF this] show ?thesis by simp
      qed
    qed
  qed
qed

lemma target_phase:
  "\<exists>r c1 p1 calls.
     (case slot of
        Some s \<Rightarrow>
          if fm_target_attrs (fmstate ctx) \<noteq> []
          then bind_target_attrs env opname s (fm_target_attrs (fmstate ctx)) 0 (new_statement ctx)
          else (None, new_statement ctx, 0)
      | None \<Rightarrow> (None, new_statement ctx, 0)) = (r, c1, p1)
     \<and> driver c1 = driver ctx @ calls
     \<and> SessionExecute \<notin> set calls
     \<and> fm_keyAttno (fmstate c1) = fm_keyAttno (fmstate ctx)
     \<and> fm_rel (fmstate c1) = fm_rel (fmstate ctx)"
proof -
  obtain pre where pre: "driver (new_statement ctx) = driver ctx @ pre"
    "pre = (if fm_sql_sent (fmstate ctx) then []
            else [StatementNew (fm_query (fmstate ctx)) (fm_p_nums (fmstate ctx))])"
    using new_statement_driver by blast
  then have npre: "SessionExecute \<notin> set pre" by simp
  show ?thesis
  proof (cases "\<exists>s. slot = Some s \<and> fm_target_attrs (fmstate ctx) \<noteq> []")
    case True
    then obtain s where s: "slot = Some s" "fm_target_attrs (fmstate ctx) \<noteq> []" by blast
    obtain r c1 p1 where
      run: "bind_target_attrs env opname s (fm_target_attrs (fmstate ctx)) 0 (new_statement ctx)
              = (r, c1, p1)"
      by (rule prod_cases3)
    from bind_target_attrs_run[OF run] obtain binds rest m where
      d: "driver c1 = driver (new_statement ctx) @ binds @ rest"
      and b: "list_all2 (bound_as env (fmstate (new_statement ctx)) s) binds
                (zip [0..<0 + m] (take m (fm_target_attrs (fmstate ctx))))"
      and rest: "set rest \<subseteq> {StatementFree, ReleaseConnection}"
      by blast
    have nb: "SessionExecute \<notin> set binds"
    proof
      assume "SessionExecute \<in> set binds"
      then obtain i where i: "i < length binds" "binds ! i = SessionExecute"
        by (auto simp: in_set_conv_nth)
      from list_all2_nthD[OF b i(1)] i(2) show False
        by (auto dest: bound_as_not_execute)
    qed
    from rest have nr: "SessionExecute \<notin> set rest" by auto
    have "driver c1 = driver ctx @ (pre @ binds @ rest)" using d pre by simp
    moreover have "SessionExecute \<notin> set (pre @ binds @ rest)" using npre nb nr by simp
    ultimately show ?thesis
      using s run bind_target_attrs_key_fields[OF run] new_statement_fields[of ctx]
      by (intro exI[of _ r] exI[of _ c1] exI[of _ p1] exI[of _ "pre @ binds @ rest"]) simp
  next
    case False
    then have "(case slot of
        Some s \<Rightarrow>
          if fm_target_attrs (fmstate ctx) \<noteq> []
          then bind_target_attrs env opname s (fm_target_attrs (fmstate ctx)) 0 (new_statement ctx)
          else (None, new_statement ctx, 0)
      | None \<Rightarrow> (None, new_statement ctx, 0)) = (None, new_statement ctx, 0)"
      by (auto split: option.splits)
    then show ?thesis
      using pre npre new_statement_fields[of ctx]
      by (intro exI[of _ None] exI[of _ "new_statement ctx"] exI[of _ 0] exI[of _ pre]) simp
  qed
qed

text \<open>
  C7 (as amended). When the carried key is null, an UPDATE or DELETE raises an
  error and the driver calls it made contain no execute. The error is the
  null-key error naming the configured key whenever the target parameters were
  bound without error: always when the target list is empty, as for DELETE, and
  after a successful run of the binding loop otherwise. When a target parameter
  fails to bind, that failure is the error raised.
\<close>

theorem null_key_never_executes:
  assumes key: "planSlot (fm_keyAttno (fmstate ctx)) = None"
  shows "(\<exists>e ctx' calls.
            cassExecPKPredWrite env ctx slot planSlot cqlOpName future = (Some e, ctx')
            \<and> driver ctx' = driver ctx @ calls
            \<and> SessionExecute \<notin> set calls)
         \<and> (fm_target_attrs (fmstate ctx) = []
              \<and> cassGetPKOption (rd_options (fm_rel (fmstate ctx))) None = Some pk
            \<longrightarrow> cassExecPKPredWrite env ctx slot planSlot cqlOpName future
                  = (Some (PrimaryKeyNull pk), new_statement ctx))
         \<and> (fm_target_attrs (fmstate ctx) \<noteq> []
              \<and> bind_target_attrs env cqlOpName s (fm_target_attrs (fmstate ctx)) 0
                    (new_statement ctx) = (None, c1, p1)
              \<and> cassGetPKOption (rd_options (fm_rel (fmstate ctx))) None = Some pk
            \<longrightarrow> cassExecPKPredWrite env ctx (Some s) planSlot cqlOpName future
                  = (Some (PrimaryKeyNull pk), c1))
         \<and> (fm_target_attrs (fmstate ctx) \<noteq> []
              \<and> bind_target_attrs env cqlOpName s (fm_target_attrs (fmstate ctx)) 0
                    (new_statement ctx) = (Some e1, c1, p1)
            \<longrightarrow> cassExecPKPredWrite env ctx (Some s) planSlot cqlOpName future = (Some e1, c1))"
proof -
  have general: "\<exists>e ctx' calls.
            cassExecPKPredWrite env ctx slot planSlot cqlOpName future = (Some e, ctx')
            \<and> driver ctx' = driver ctx @ calls
            \<and> SessionExecute \<notin> set calls"
  proof -
    from target_phase[where slot = slot and ctx = ctx and env = env and opname = cqlOpName] obtain r c1 p1 calls where
      t: "(case slot of
            Some s \<Rightarrow>
              if fm_target_attrs (fmstate ctx) \<noteq> []
              then bind_target_attrs env cqlOpName s (fm_target_attrs (fmstate ctx)) 0
                     (new_statement ctx)
              else (None, new_statement ctx, 0)
          | None \<Rightarrow> (None, new_statement ctx, 0)) = (r, c1, p1)"
      and d: "driver c1 = driver ctx @ calls" "SessionExecute \<notin> set calls"
      and kf: "fm_keyAttno (fmstate c1) = fm_keyAttno (fmstate ctx)"
      by blast
    show ?thesis
    proof (cases r)
      case None
      from bind_key_null[where planSlot = planSlot and ctx = c1 and env = env and pindex = p1] key kf
      obtain e where "bind_key env planSlot p1 c1 = (Some e, c1)" by auto
      with t None d show ?thesis
        by (auto simp: cassExecPKPredWrite_def)
    next
      case (Some e)
      with t d show ?thesis
        by (auto simp: cassExecPKPredWrite_def)
    qed
  qed
  have k0: "planSlot (fm_keyAttno (fmstate (new_statement ctx))) = None"
    using key by (simp add: new_statement_fields)
  have empty: "fm_target_attrs (fmstate ctx) = []
              \<and> cassGetPKOption (rd_options (fm_rel (fmstate ctx))) None = Some pk
            \<longrightarrow> cassExecPKPredWrite env ctx slot planSlot cqlOpName future
                  = (Some (PrimaryKeyNull pk), new_statement ctx)"
    using bind_key_null[where planSlot = planSlot and ctx = "new_statement ctx" and env = env
                          and pindex = 0, OF k0]
    by (auto simp: cassExecPKPredWrite_def new_statement_fields split: option.splits)
  have bound: "fm_target_attrs (fmstate ctx) \<noteq> []
              \<and> bind_target_attrs env cqlOpName s (fm_target_attrs (fmstate ctx)) 0
                    (new_statement ctx) = (None, c1, p1)
              \<and> cassGetPKOption (rd_options (fm_rel (fmstate ctx))) None = Some pk
            \<longrightarrow> cassExecPKPredWrite env ctx (Some s) planSlot cqlOpName future
                  = (Some (PrimaryKeyNull pk), c1)"
  proof
    assume a: "fm_target_attrs (fmstate ctx) \<noteq> []
              \<and> bind_target_attrs env cqlOpName s (fm_target_attrs (fmstate ctx)) 0
                    (new_statement ctx) = (None, c1, p1)
              \<and> cassGetPKOption (rd_options (fm_rel (fmstate ctx))) None = Some pk"
    then have run: "bind_target_attrs env cqlOpName s (fm_target_attrs (fmstate ctx)) 0
                    (new_statement ctx) = (None, c1, p1)" by simp
    from bind_target_attrs_key_fields[OF run]
    have f: "fm_keyAttno (fmstate c1) = fm_keyAttno (fmstate ctx)"
            "fm_rel (fmstate c1) = fm_rel (fmstate ctx)"
      by (simp_all add: new_statement_fields)
    with key have "planSlot (fm_keyAttno (fmstate c1)) = None" by simp
    from bind_key_null[where planSlot = planSlot and ctx = c1 and env = env and pindex = p1, OF this]
         f a
    have "bind_key env planSlot p1 c1 = (Some (PrimaryKeyNull pk), c1)" by auto
    with a show "cassExecPKPredWrite env ctx (Some s) planSlot cqlOpName future
                  = (Some (PrimaryKeyNull pk), c1)"
      by (simp add: cassExecPKPredWrite_def)
  qed
  have failed: "fm_target_attrs (fmstate ctx) \<noteq> []
              \<and> bind_target_attrs env cqlOpName s (fm_target_attrs (fmstate ctx)) 0
                    (new_statement ctx) = (Some e1, c1, p1)
            \<longrightarrow> cassExecPKPredWrite env ctx (Some s) planSlot cqlOpName future = (Some e1, c1)"
    by (simp add: cassExecPKPredWrite_def)
  show ?thesis using general empty bound failed by blast
qed

theorem null_key_never_executes_witness:
  "slot_of [None, None, None, None, None]
       (fm_keyAttno (fmstate \<lparr> fmstate = example_delete_state, driver = [] \<rparr>)) = None
   \<and> fm_target_attrs example_delete_state = []
   \<and> cassGetPKOption (rd_options (fm_rel example_delete_state)) None = Some ''id''
   \<and> cassExecPKPredWrite example_env \<lparr> fmstate = example_delete_state, driver = [] \<rparr>
         (Some (slot_of [Some 1, Some 0, Some 2, Some 1, None]))
         (slot_of [None, None, None, None, None]) ''DELETE'' CASS_OK
       = (Some (PrimaryKeyNull ''id''),
          new_statement \<lparr> fmstate = example_delete_state, driver = [] \<rparr>)
   \<and> driver (new_statement \<lparr> fmstate = example_delete_state, driver = [] \<rparr>)
       = [StatementNew ''DELETE FROM ks.t WHERE id = ?'' 1]"
proof -
  have h: "slot_of [None, None, None, None, None]
       (fm_keyAttno (fmstate \<lparr> fmstate = example_delete_state, driver = [] \<rparr>)) = None"
    by (simp add: slot_of_def example_delete_state_def)
  have e: "fm_target_attrs example_delete_state = []"
    by (simp add: example_delete_state_def)
  have p: "cassGetPKOption (rd_options (fm_rel example_delete_state)) None = Some ''id''"
    by (simp add: example_delete_state_def example_rel_def OPT_PK_def)
  have d: "driver (new_statement \<lparr> fmstate = example_delete_state, driver = [] \<rparr>)
       = [StatementNew ''DELETE FROM ks.t WHERE id = ?'' 1]"
    by (simp add: new_statement_def call_def example_delete_state_def)
  from null_key_never_executes
         [where planSlot = "slot_of [None, None, None, None, None]"
            and slot = "Some (slot_of [Some 1, Some 0, Some 2, Some 1, None])"
            and env = example_env and cqlOpName = "''DELETE''" and future = CASS_OK
            and pk = "''id''", OF h]
  show ?thesis using h e p d by simp
qed

text \<open>
  The claim as stated fails for an UPDATE that sets the smallint column \<open>v1\<close> to
  null while the carried key is null: the error raised is the smallint-null error,
  not the null-key error.
\<close>

theorem null_key_counterexample:
  "slot_of [None, None, None, None, None] (fm_keyAttno example_update_state) = None
   \<and> cassExecForeignUpdate example_env \<lparr> fmstate = example_update_state, driver = [] \<rparr>
         (Some (slot_of [Some 1, None, Some 2, Some 1, None]))
         (slot_of [None, None, None, None, None]) CASS_OK
       = (Some (SmallintNullBind ''UPDATE''),
          \<lparr> fmstate = example_update_state
              \<lparr> fm_cass_conn := False,
                fm_statement := Some (''UPDATE ks.t SET v1 = ? WHERE id = ?'', 2) \<rparr>,
            driver = [StatementNew ''UPDATE ks.t SET v1 = ? WHERE id = ?'' 2,
                      ReleaseConnection] \<rparr>)
   \<and> SmallintNullBind ''UPDATE'' \<noteq> PrimaryKeyNull ''id''"
  by code_simp

section \<open>The order of the parameters\<close>

lemma comma_separated_Cons:
  "comma_separated (x # xs) = x @ (if xs = [] then [] else '', '' @ comma_separated xs)"
  by (cases xs) simp_all

lemma column_list_structure:
  "column_list kw rel suffix first attrs = Inr s \<Longrightarrow>
   \<exists>cols. list_all2 (\<lambda>c a. cassDeparseColumnRef kw rel a = Inr c) cols attrs
         \<and> s = (if first \<or> attrs = [] then [] else '', '')
               @ comma_separated (map (\<lambda>c. c @ suffix) cols)"
proof (induction attrs arbitrary: first s)
  case Nil
  then show ?case by simp
next
  case (Cons a lc)
  from Cons.prems obtain c rest where
    c: "cassDeparseColumnRef kw rel a = Inr c"
    and r: "column_list kw rel suffix False lc = Inr rest"
    and s: "s = (if first then [] else '', '') @ c @ suffix @ rest"
    by (auto split: sum.splits)
  from Cons.IH[OF r] obtain cols where
    cols: "list_all2 (\<lambda>c a. cassDeparseColumnRef kw rel a = Inr c) cols lc"
    and rest: "rest = (if lc = [] then [] else '', '') @ comma_separated (map (\<lambda>c. c @ suffix) cols)"
    by auto
  have e: "(lc = []) = (cols = [])" using cols by (auto dest: list_all2_lengthD)
  show ?case
    using c cols s rest e
    by (intro exI[of _ "c # cols"]) (simp add: comma_separated_Cons)
qed

lemma placeholders_structure:
  "placeholders first attrs
     = (if first \<or> attrs = [] then [] else '', '') @ comma_separated (map (\<lambda>a. ''?'') attrs)"
  by (induction attrs arbitrary: first) (simp_all add: comma_separated_Cons)

lemma bound_as_positions:
  "list_all2 (bound_as env fm slot) binds (zip [p..<p + n] attrs) \<Longrightarrow> length attrs = n \<Longrightarrow>
   map bind_position binds = map Some [p..<p + n]"
proof (induction attrs arbitrary: p n binds)
  case Nil
  then show ?case by simp
next
  case (Cons a lc)
  then obtain n' where n: "n = Suc n'" by (cases n) auto
  have z: "[p..<p + Suc n'] = p # [p + 1..<p + 1 + n']"
    by (subst upt_rec) simp
  from Cons.prems(1) have "list_all2 (bound_as env fm slot) binds
      ((p, a) # zip [p + 1..<p + 1 + n'] lc)"
    unfolding n z by simp
  then obtain b bs where
    b: "binds = b # bs" "bound_as env fm slot b (p, a)"
       "list_all2 (bound_as env fm slot) bs (zip [p + 1..<p + 1 + n'] lc)"
    by (auto simp: list_all2_Cons2)
  from Cons.IH[OF b(3)] Cons.prems(2) n
  have "map bind_position bs = map Some [p + 1..<p + 1 + n']" by simp
  with b show ?case
    unfolding n z by (simp add: bound_as_position)
qed

lemma execute_statement_driver:
  "execute_statement opname future ctx = (r, ctx') \<Longrightarrow>
   \<exists>rest. driver ctx' = driver ctx
            @ [SetConsistency (fm_write_consistency (fmstate ctx)), SessionExecute] @ rest
     \<and> set rest \<subseteq> {StatementFree, ReleaseConnection}"
proof (cases future)
  case CASS_OK
  assume "execute_statement opname future ctx = (r, ctx')"
  with CASS_OK show ?thesis
    by (auto simp: execute_statement_def Let_def)
next
  case (CASS_ERROR message)
  assume a: "execute_statement opname future ctx = (r, ctx')"
  let ?c2 = "(call SessionExecute (call (SetConsistency (fm_write_consistency (fmstate ctx))) ctx))
               \<lparr> fmstate := (fmstate ctx)\<lparr> fm_sql_sent := True \<rparr> \<rparr>"
  from a CASS_ERROR have c: "ctx' = releaseCassResources ?c2"
    by (simp add: execute_statement_def Let_def)
  from release_driver[of ?c2] obtain rest where
    "driver (releaseCassResources ?c2) = driver ?c2 @ rest"
    "set rest \<subseteq> {StatementFree, ReleaseConnection}"
    by blast
  with c show ?thesis by (intro exI[of _ rest]) simp
qed

lemma bind_run_no_execute:
  assumes run: "bind_target_attrs env opname s attrs 0 ctx = (r, c1, p1)"
  shows "\<exists>calls. driver c1 = driver ctx @ calls \<and> SessionExecute \<notin> set calls"
proof -
  from bind_target_attrs_run[OF run] obtain m binds rest where
    d: "driver c1 = driver ctx @ binds @ rest"
    and b: "list_all2 (bound_as env (fmstate ctx) s) binds (zip [0..<0 + m] (take m attrs))"
    and rest: "set rest \<subseteq> {StatementFree, ReleaseConnection}"
    by blast
  have nb: "SessionExecute \<notin> set binds"
  proof
    assume "SessionExecute \<in> set binds"
    then obtain i where i: "i < length binds" "binds ! i = SessionExecute"
      by (auto simp: in_set_conv_nth)
    from list_all2_nthD[OF b i(1)] i(2) show False
      by (auto dest: bound_as_not_execute)
  qed
  from rest have "SessionExecute \<notin> set rest" by auto
  with d nb show ?thesis by (intro exI[of _ "binds @ rest"]) simp
qed

lemma bind_run_ok:
  assumes run: "bind_target_attrs env opname s (fm_target_attrs (fmstate ctx)) 0 (new_statement ctx)
                  = (None, c1, p1)"
  shows "\<exists>binds.
           driver c1 = driver (new_statement ctx) @ binds
           \<and> fmstate c1 = fmstate (new_statement ctx)
           \<and> p1 = length (fm_target_attrs (fmstate ctx))
           \<and> list_all2 (bound_as env (fmstate ctx) s) binds
                (zip [0..<length (fm_target_attrs (fmstate ctx))] (fm_target_attrs (fmstate ctx)))
           \<and> map bind_position binds = map Some [0..<length (fm_target_attrs (fmstate ctx))]"
proof -
  from bind_target_attrs_run[OF run] obtain binds where
    d: "driver c1 = driver (new_statement ctx) @ binds"
    and p: "p1 = length (fm_target_attrs (fmstate ctx))"
    and b: "list_all2 (bound_as env (fmstate ctx) s) binds
              (zip [0..<0 + length (fm_target_attrs (fmstate ctx))]
                   (take (length (fm_target_attrs (fmstate ctx))) (fm_target_attrs (fmstate ctx))))"
    and f: "fmstate c1 = fmstate (new_statement ctx)"
    by auto
  from b have b': "list_all2 (bound_as env (fmstate ctx) s) binds
              (zip [0..<0 + length (fm_target_attrs (fmstate ctx))] (fm_target_attrs (fmstate ctx)))"
    by simp
  from bound_as_positions[OF b'] have
    "map bind_position binds = map Some [0..<length (fm_target_attrs (fmstate ctx))]"
    by simp
  with d p f b' show ?thesis by simp
qed

text \<open>The target phase of an execution, with an empty target list counted as
  a run of the loop that binds nothing.\<close>

lemma target_phase_cases:
  "\<exists>r c1 p1.
     (if fm_target_attrs (fmstate ctx) \<noteq> []
      then bind_target_attrs env opname s (fm_target_attrs (fmstate ctx)) 0 (new_statement ctx)
      else (None, new_statement ctx, 0)) = (r, c1, p1)
     \<and> bind_target_attrs env opname s (fm_target_attrs (fmstate ctx)) 0 (new_statement ctx)
         = (r, c1, p1)"
proof (cases "fm_target_attrs (fmstate ctx) = []")
  case True
  then show ?thesis by simp
next
  case False
  obtain r c1 p1 where
    "bind_target_attrs env opname s (fm_target_attrs (fmstate ctx)) 0 (new_statement ctx)
       = (r, c1, p1)"
    by (rule prod_cases3)
  with False show ?thesis by simp
qed

lemma insert_binds:
  assumes run: "cassExecForeignInsert env ctx (Some s) future = (r, ctx')"
    and dr: "driver ctx' = driver ctx @ calls"
    and ex: "SessionExecute \<in> set calls"
  shows "\<exists>binds rest.
           calls = (if fm_sql_sent (fmstate ctx) then []
                    else [StatementNew (fm_query (fmstate ctx)) (fm_p_nums (fmstate ctx))])
             @ binds
             @ [SetConsistency (fm_write_consistency (fmstate ctx)), SessionExecute]
             @ rest
           \<and> set rest \<subseteq> {StatementFree, ReleaseConnection}
           \<and> list_all2 (bound_as env (fmstate ctx) s) binds
                (zip [0..<length (fm_target_attrs (fmstate ctx))] (fm_target_attrs (fmstate ctx)))
           \<and> map bind_position binds = map Some [0..<length (fm_target_attrs (fmstate ctx))]"
proof -
  let ?pre = "if fm_sql_sent (fmstate ctx) then []
              else [StatementNew (fm_query (fmstate ctx)) (fm_p_nums (fmstate ctx))]"
  have pre: "driver (new_statement ctx) = driver ctx @ ?pre"
    using new_statement_driver[of ctx] by auto
  from target_phase_cases[of ctx env "''INSERT''" s] obtain rb c1 p1 where
    ph: "(if fm_target_attrs (fmstate ctx) \<noteq> []
          then bind_target_attrs env ''INSERT'' s (fm_target_attrs (fmstate ctx)) 0 (new_statement ctx)
          else (None, new_statement ctx, 0)) = (rb, c1, p1)"
    and br: "bind_target_attrs env ''INSERT'' s (fm_target_attrs (fmstate ctx)) 0 (new_statement ctx)
               = (rb, c1, p1)"
    by blast
  show ?thesis
  proof (cases rb)
    case (Some e)
    with run ph have "ctx' = c1" by (simp add: cassExecForeignInsert_def)
    moreover from bind_run_no_execute[OF br] obtain cs where
      "driver c1 = driver (new_statement ctx) @ cs" "SessionExecute \<notin> set cs" by blast
    ultimately have "calls = ?pre @ cs" using dr pre by simp
    with \<open>SessionExecute \<notin> set cs\<close> ex show ?thesis by (auto split: if_splits)
  next
    case None
    with run ph have e: "execute_statement ''INSERT'' future c1 = (r, ctx')"
      by (simp add: cassExecForeignInsert_def)
    from bind_run_ok[OF br[unfolded None]] obtain binds where
      b: "driver c1 = driver (new_statement ctx) @ binds"
         "fmstate c1 = fmstate (new_statement ctx)"
         "list_all2 (bound_as env (fmstate ctx) s) binds
            (zip [0..<length (fm_target_attrs (fmstate ctx))] (fm_target_attrs (fmstate ctx)))"
         "map bind_position binds = map Some [0..<length (fm_target_attrs (fmstate ctx))]"
      by blast
    from execute_statement_driver[OF e] obtain rest where
      r: "driver ctx' = driver c1
            @ [SetConsistency (fm_write_consistency (fmstate c1)), SessionExecute] @ rest"
         "set rest \<subseteq> {StatementFree, ReleaseConnection}"
      by blast
    have "calls = ?pre @ binds
            @ [SetConsistency (fm_write_consistency (fmstate ctx)), SessionExecute] @ rest"
      using dr r(1) b(1,2) pre by (simp add: new_statement_fields)
    with r(2) b(3,4) show ?thesis by blast
  qed
qed

lemma bind_key_cases:
  "bind_key env planSlot pindex ctx = (r, ctx') \<Longrightarrow>
   (r \<noteq> None \<and> ctx' = ctx)
   \<or> (r = None
      \<and> (\<exists>v ty keycall. planSlot (fm_keyAttno (fmstate ctx)) = Some v
            \<and> p_type_oid (fmstate ctx) pindex = Some ty
            \<and> bind_cass_statement_param env ty v pindex = Inr keycall
            \<and> bind_position keycall = Some pindex
            \<and> ctx' = call keycall ctx))"
  by (auto simp: bind_key_def bind_position_def split: option.splits sum.splits
        dest: bind_param_position)

lemma pk_write_binds:
  assumes run: "cassExecPKPredWrite env ctx (Some s) planSlot cqlOpName future = (r, ctx')"
    and dr: "driver ctx' = driver ctx @ calls"
    and ex: "SessionExecute \<in> set calls"
  shows "\<exists>binds v ty keycall rest.
           calls = (if fm_sql_sent (fmstate ctx) then []
                    else [StatementNew (fm_query (fmstate ctx)) (fm_p_nums (fmstate ctx))])
             @ binds @ [keycall]
             @ [SetConsistency (fm_write_consistency (fmstate ctx)), SessionExecute]
             @ rest
           \<and> set rest \<subseteq> {StatementFree, ReleaseConnection}
           \<and> list_all2 (bound_as env (fmstate ctx) s) binds
                (zip [0..<length (fm_target_attrs (fmstate ctx))] (fm_target_attrs (fmstate ctx)))
           \<and> map bind_position (binds @ [keycall])
               = map Some [0..<length (fm_target_attrs (fmstate ctx)) + 1]
           \<and> planSlot (fm_keyAttno (fmstate ctx)) = Some v
           \<and> p_type_oid (fmstate ctx) (length (fm_target_attrs (fmstate ctx))) = Some ty
           \<and> bind_cass_statement_param env ty v (length (fm_target_attrs (fmstate ctx)))
               = Inr keycall"
proof -
  let ?n = "length (fm_target_attrs (fmstate ctx))"
  let ?pre = "if fm_sql_sent (fmstate ctx) then []
              else [StatementNew (fm_query (fmstate ctx)) (fm_p_nums (fmstate ctx))]"
  have pre: "driver (new_statement ctx) = driver ctx @ ?pre"
    using new_statement_driver[of ctx] by auto
  have npre: "SessionExecute \<notin> set ?pre" by simp
  from target_phase_cases[of ctx env cqlOpName s] obtain rb c1 p1 where
    ph: "(if fm_target_attrs (fmstate ctx) \<noteq> []
          then bind_target_attrs env cqlOpName s (fm_target_attrs (fmstate ctx)) 0 (new_statement ctx)
          else (None, new_statement ctx, 0)) = (rb, c1, p1)"
    and br: "bind_target_attrs env cqlOpName s (fm_target_attrs (fmstate ctx)) 0 (new_statement ctx)
               = (rb, c1, p1)"
    by blast
  from bind_run_no_execute[OF br] obtain cs where
    cs: "driver c1 = driver (new_statement ctx) @ cs" "SessionExecute \<notin> set cs" by blast
  show ?thesis
  proof (cases rb)
    case (Some e)
    with run ph have "ctx' = c1" by (simp add: cassExecPKPredWrite_def)
    then have "calls = ?pre @ cs" using dr pre cs(1) by simp
    with cs(2) ex npre show ?thesis by auto
  next
    case None
    from bind_run_ok[OF br[unfolded None]] obtain binds where
      b: "driver c1 = driver (new_statement ctx) @ binds"
         "fmstate c1 = fmstate (new_statement ctx)"
         "p1 = ?n"
         "list_all2 (bound_as env (fmstate ctx) s) binds
            (zip [0..<?n] (fm_target_attrs (fmstate ctx)))"
         "map bind_position binds = map Some [0..<?n]"
      by blast
    obtain rk c2 where bk: "bind_key env planSlot ?n c1 = (rk, c2)"
      by (cases "bind_key env planSlot ?n c1") auto
    show ?thesis
    proof (cases rk)
      case (Some e)
      with bind_key_cases[OF bk] have "c2 = c1" by auto
      with run ph None bk Some b(3) have "ctx' = c1"
        by (simp add: cassExecPKPredWrite_def)
      then have "calls = ?pre @ cs" using dr pre cs(1) by simp
      with cs(2) ex npre show ?thesis by auto
    next
      case rkn: None
      with bind_key_cases[OF bk] obtain v ty keycall where
        k: "planSlot (fm_keyAttno (fmstate c1)) = Some v"
           "p_type_oid (fmstate c1) ?n = Some ty"
           "bind_cass_statement_param env ty v ?n = Inr keycall"
           "bind_position keycall = Some ?n"
           "c2 = call keycall c1"
        by auto
      from run ph None bk rkn b(3)
      have e: "execute_statement cqlOpName future c2 = (r, ctx')"
        by (simp add: cassExecPKPredWrite_def)
      from execute_statement_driver[OF e] obtain rest where
        r: "driver ctx' = driver c2
              @ [SetConsistency (fm_write_consistency (fmstate c2)), SessionExecute] @ rest"
           "set rest \<subseteq> {StatementFree, ReleaseConnection}"
        by blast
      have c: "calls = ?pre @ binds @ [keycall]
              @ [SetConsistency (fm_write_consistency (fmstate ctx)), SessionExecute] @ rest"
        using dr r(1) k(5) b(1,2) pre by (simp add: new_statement_fields)
      have k1: "planSlot (fm_keyAttno (fmstate ctx)) = Some v"
        using k(1) b(2) by (simp add: new_statement_fields)
      have k2: "p_type_oid (fmstate ctx) ?n = Some ty"
        using k(2) b(2) by simp
      have pos: "map bind_position (binds @ [keycall]) = map Some [0..<?n + 1]"
        using b(5) k(4) by simp
      show ?thesis
        using c r(2) b(4) pos k1 k2 k(3) by blast
    qed
  qed
qed

lemma insert_ok_executes:
  "cassExecForeignInsert env ctx (Some s) future = (None, ctx') \<Longrightarrow>
   \<exists>calls. driver ctx' = driver ctx @ calls \<and> SessionExecute \<in> set calls"
proof -
  assume run: "cassExecForeignInsert env ctx (Some s) future = (None, ctx')"
  have pre: "\<exists>p. driver (new_statement ctx) = driver ctx @ p"
    using new_statement_driver[of ctx] by auto
  from target_phase_cases[of ctx env "''INSERT''" s] obtain rb c1 p1 where
    ph: "(if fm_target_attrs (fmstate ctx) \<noteq> []
          then bind_target_attrs env ''INSERT'' s (fm_target_attrs (fmstate ctx)) 0 (new_statement ctx)
          else (None, new_statement ctx, 0)) = (rb, c1, p1)"
    and br: "bind_target_attrs env ''INSERT'' s (fm_target_attrs (fmstate ctx)) 0 (new_statement ctx)
               = (rb, c1, p1)"
    by blast
  from run ph have rb: "rb = None" and e: "execute_statement ''INSERT'' future c1 = (None, ctx')"
    by (auto simp: cassExecForeignInsert_def split: option.splits)
  from bind_run_no_execute[OF br] obtain cs where cs: "driver c1 = driver (new_statement ctx) @ cs"
    by blast
  from execute_statement_driver[OF e] obtain rest where
    "driver ctx' = driver c1
       @ [SetConsistency (fm_write_consistency (fmstate c1)), SessionExecute] @ rest"
    by blast
  with cs pre show ?thesis by auto
qed

lemma pk_write_ok_executes:
  "cassExecPKPredWrite env ctx (Some s) planSlot cqlOpName future = (None, ctx') \<Longrightarrow>
   \<exists>calls. driver ctx' = driver ctx @ calls \<and> SessionExecute \<in> set calls"
proof -
  assume run: "cassExecPKPredWrite env ctx (Some s) planSlot cqlOpName future = (None, ctx')"
  have pre: "\<exists>p. driver (new_statement ctx) = driver ctx @ p"
    using new_statement_driver[of ctx] by auto
  from target_phase_cases[of ctx env cqlOpName s] obtain rb c1 p1 where
    ph: "(if fm_target_attrs (fmstate ctx) \<noteq> []
          then bind_target_attrs env cqlOpName s (fm_target_attrs (fmstate ctx)) 0 (new_statement ctx)
          else (None, new_statement ctx, 0)) = (rb, c1, p1)"
    and br: "bind_target_attrs env cqlOpName s (fm_target_attrs (fmstate ctx)) 0 (new_statement ctx)
               = (rb, c1, p1)"
    by blast
  from bind_run_no_execute[OF br] obtain cs where cs: "driver c1 = driver (new_statement ctx) @ cs"
    by blast
  obtain rk c2 where bk: "bind_key env planSlot p1 c1 = (rk, c2)"
    by (cases "bind_key env planSlot p1 c1") auto
  from run ph bk have rk: "rk = None" and e: "execute_statement cqlOpName future c2 = (None, ctx')"
    by (auto simp: cassExecPKPredWrite_def split: option.splits)
  from bind_key_cases[OF bk] rk obtain keycall where "c2 = call keycall c1" by auto
  moreover from execute_statement_driver[OF e] obtain rest where
    "driver ctx' = driver c2
       @ [SetConsistency (fm_write_consistency (fmstate c2)), SessionExecute] @ rest"
    by blast
  ultimately show ?thesis using cs pre by auto
qed


lemma bindable_new_statement:
  "bindable (fmstate (new_statement ctx)) = bindable (fmstate ctx)"
  by (rule ext)+ (simp add: bindable_def cong: option.case_cong)

lemma bindable_call:
  "bindable (fmstate (call c ctx)) = bindable (fmstate ctx)"
  by (rule ext)+ (simp add: bindable_def cong: option.case_cong)

lemma bind_target_attrs_bindable:
  "list_all (bindable (fmstate ctx) s) (zip [p..<p + length attrs] attrs) \<Longrightarrow>
   \<exists>c1. bind_target_attrs env opname s attrs p ctx = (None, c1, p + length attrs)"
proof (induction attrs arbitrary: p ctx)
  case Nil
  then show ?case by simp
next
  case (Cons attno lc)
  have z: "[p..<p + length (attno # lc)] = p # [p + 1..<p + 1 + length lc]"
    by (subst upt_rec) simp
  from Cons.prems have hd: "bindable (fmstate ctx) s (p, attno)"
    and tl: "list_all (bindable (fmstate ctx) s) (zip [p + 1..<p + 1 + length lc] lc)"
    unfolding z by simp_all
  from hd obtain ty where ty: "p_type_oid (fmstate ctx) p = Some ty"
    by (auto simp: bindable_def split: option.splits)
  show ?case
  proof (cases "s attno")
    case None
    with hd ty have n2: "ty \<noteq> INT2OID" by (simp add: bindable_def)
    have tl': "list_all (bindable (fmstate (call (StatementBind p PNull) ctx)) s)
                 (zip [p + 1..<p + 1 + length lc] lc)"
      using tl by (simp add: bindable_call)
    from Cons.IH[OF tl'] obtain c1 where
      "bind_target_attrs env opname s lc (p + 1) (call (StatementBind p PNull) ctx)
         = (None, c1, p + 1 + length lc)"
      by blast
    with None ty n2 show ?thesis
      by (simp add: cassStatementBindNull_def)
  next
    case (Some v)
    with hd ty have "supported_type ty" by (simp add: bindable_def)
    from bind_param_supported[OF this, of env v p] obtain c where
      c: "bind_cass_statement_param env ty v p = Inr c" by blast
    have tl': "list_all (bindable (fmstate (call c ctx)) s)
                 (zip [p + 1..<p + 1 + length lc] lc)"
      using tl by (simp add: bindable_call)
    from Cons.IH[OF tl'] obtain c1 where
      "bind_target_attrs env opname s lc (p + 1) (call c ctx) = (None, c1, p + 1 + length lc)"
      by blast
    with Some ty c show ?thesis by simp
  qed
qed

lemma execute_statement_result:
  "\<exists>ctx' rest.
     execute_statement opname future ctx = (remote_outcome opname future, ctx')
     \<and> driver ctx' = driver ctx
          @ [SetConsistency (fm_write_consistency (fmstate ctx)), SessionExecute] @ rest
     \<and> set rest \<subseteq> {StatementFree, ReleaseConnection}
     \<and> (if future = CASS_OK then rest = [] else True)"
proof -
  obtain r ctx' where e: "execute_statement opname future ctx = (r, ctx')"
    by (cases "execute_statement opname future ctx") auto
  have r: "r = remote_outcome opname future"
    using e by (auto simp: execute_statement_def remote_outcome_def Let_def
                  split: CassFuture.splits)
  show ?thesis
  proof (cases future)
    case CASS_OK
    with e have "driver ctx' = driver ctx
          @ [SetConsistency (fm_write_consistency (fmstate ctx)), SessionExecute] @ []"
      by (auto simp: execute_statement_def Let_def)
    with e r CASS_OK show ?thesis by (intro exI[of _ ctx'] exI[of _ "[]"]) simp
  next
    case (CASS_ERROR message)
    from execute_statement_driver[OF e] obtain rest where
      "driver ctx' = driver ctx
          @ [SetConsistency (fm_write_consistency (fmstate ctx)), SessionExecute] @ rest"
      "set rest \<subseteq> {StatementFree, ReleaseConnection}"
      by blast
    with e r CASS_ERROR show ?thesis by (intro exI[of _ ctx'] exI[of _ rest]) simp
  qed
qed

lemma insert_binds_all:
  assumes ok: "list_all (bindable (fmstate ctx) s)
                 (zip [0..<length (fm_target_attrs (fmstate ctx))] (fm_target_attrs (fmstate ctx)))"
  shows "\<exists>binds ctx' rest.
           cassExecForeignInsert env ctx (Some s) future = (remote_outcome ''INSERT'' future, ctx')
           \<and> driver ctx' = driver ctx
                @ (if fm_sql_sent (fmstate ctx) then []
                   else [StatementNew (fm_query (fmstate ctx)) (fm_p_nums (fmstate ctx))])
                @ binds
                @ [SetConsistency (fm_write_consistency (fmstate ctx)), SessionExecute]
                @ rest
           \<and> set rest \<subseteq> {StatementFree, ReleaseConnection}
           \<and> (if future = CASS_OK then rest = [] else True)
           \<and> length binds = length (fm_target_attrs (fmstate ctx))
           \<and> list_all2 (bound_as env (fmstate ctx) s) binds
                (zip [0..<length (fm_target_attrs (fmstate ctx))] (fm_target_attrs (fmstate ctx)))
           \<and> map bind_position binds = map Some [0..<length (fm_target_attrs (fmstate ctx))]"
proof -
  let ?attrs = "fm_target_attrs (fmstate ctx)"
  let ?pre = "if fm_sql_sent (fmstate ctx) then []
              else [StatementNew (fm_query (fmstate ctx)) (fm_p_nums (fmstate ctx))]"
  have pre: "driver (new_statement ctx) = driver ctx @ ?pre"
    using new_statement_driver[of ctx] by auto
  have ok': "list_all (bindable (fmstate (new_statement ctx)) s)
               (zip [0..<0 + length ?attrs] ?attrs)"
    using ok by (simp add: bindable_new_statement)
  from bind_target_attrs_bindable[OF ok', of env "''INSERT''"] obtain c1 where
    br: "bind_target_attrs env ''INSERT'' s ?attrs 0 (new_statement ctx)
           = (None, c1, length ?attrs)"
    by auto
  from bind_run_ok[OF br] obtain binds where
    b: "driver c1 = driver (new_statement ctx) @ binds"
       "fmstate c1 = fmstate (new_statement ctx)"
       "list_all2 (bound_as env (fmstate ctx) s) binds (zip [0..<length ?attrs] ?attrs)"
       "map bind_position binds = map Some [0..<length ?attrs]"
    by blast
  have len: "length binds = length ?attrs"
    using b(3) by (auto dest: list_all2_lengthD)
  have run: "cassExecForeignInsert env ctx (Some s) future
               = execute_statement ''INSERT'' future c1"
  proof (cases "?attrs = []")
    case True
    with br show ?thesis by (simp add: cassExecForeignInsert_def)
  next
    case False
    with br show ?thesis by (simp add: cassExecForeignInsert_def)
  qed
  from execute_statement_result[of "''INSERT''" future c1] obtain ctx' rest where
    e: "execute_statement ''INSERT'' future c1 = (remote_outcome ''INSERT'' future, ctx')"
       "driver ctx' = driver c1
          @ [SetConsistency (fm_write_consistency (fmstate c1)), SessionExecute] @ rest"
       "set rest \<subseteq> {StatementFree, ReleaseConnection}"
       "if future = CASS_OK then rest = [] else True"
    by blast
  have d: "driver ctx' = driver ctx @ ?pre @ binds
            @ [SetConsistency (fm_write_consistency (fmstate ctx)), SessionExecute] @ rest"
    using e(2) b(1,2) pre by (simp add: new_statement_fields)
  show ?thesis
    using run e(1,3,4) d len b(3,4)
    by (intro exI[of _ binds] exI[of _ ctx'] exI[of _ rest]) simp
qed

lemma pk_write_binds_all:
  assumes ok: "list_all (bindable (fmstate ctx) s)
                 (zip [0..<length (fm_target_attrs (fmstate ctx))] (fm_target_attrs (fmstate ctx)))"
    and key: "planSlot (fm_keyAttno (fmstate ctx)) = Some v"
    and ty: "p_type_oid (fmstate ctx) (length (fm_target_attrs (fmstate ctx))) = Some ty"
    and sup: "supported_type ty"
  shows "\<exists>binds keycall ctx' rest.
           cassExecPKPredWrite env ctx (Some s) planSlot cqlOpName future
             = (remote_outcome cqlOpName future, ctx')
           \<and> driver ctx' = driver ctx
                @ (if fm_sql_sent (fmstate ctx) then []
                   else [StatementNew (fm_query (fmstate ctx)) (fm_p_nums (fmstate ctx))])
                @ binds @ [keycall]
                @ [SetConsistency (fm_write_consistency (fmstate ctx)), SessionExecute]
                @ rest
           \<and> set rest \<subseteq> {StatementFree, ReleaseConnection}
           \<and> (if future = CASS_OK then rest = [] else True)
           \<and> length binds = length (fm_target_attrs (fmstate ctx))
           \<and> list_all2 (bound_as env (fmstate ctx) s) binds
                (zip [0..<length (fm_target_attrs (fmstate ctx))] (fm_target_attrs (fmstate ctx)))
           \<and> bind_cass_statement_param env ty v (length (fm_target_attrs (fmstate ctx)))
               = Inr keycall
           \<and> map bind_position (binds @ [keycall])
               = map Some [0..<length (fm_target_attrs (fmstate ctx)) + 1]"
proof -
  let ?attrs = "fm_target_attrs (fmstate ctx)"
  let ?n = "length ?attrs"
  let ?pre = "if fm_sql_sent (fmstate ctx) then []
              else [StatementNew (fm_query (fmstate ctx)) (fm_p_nums (fmstate ctx))]"
  have pre: "driver (new_statement ctx) = driver ctx @ ?pre"
    using new_statement_driver[of ctx] by auto
  have ok': "list_all (bindable (fmstate (new_statement ctx)) s) (zip [0..<0 + ?n] ?attrs)"
    using ok by (simp add: bindable_new_statement)
  from bind_target_attrs_bindable[OF ok', of env cqlOpName] obtain c1 where
    br: "bind_target_attrs env cqlOpName s ?attrs 0 (new_statement ctx) = (None, c1, ?n)"
    by auto
  from bind_run_ok[OF br] obtain binds where
    b: "driver c1 = driver (new_statement ctx) @ binds"
       "fmstate c1 = fmstate (new_statement ctx)"
       "list_all2 (bound_as env (fmstate ctx) s) binds (zip [0..<?n] ?attrs)"
       "map bind_position binds = map Some [0..<?n]"
    by blast
  have len: "length binds = ?n"
    using b(3) by (auto dest: list_all2_lengthD)
  from bind_param_supported[OF sup, of env v ?n] obtain keycall where
    kc: "bind_cass_statement_param env ty v ?n = Inr keycall" by blast
  from bind_param_position[OF kc] have kp: "bind_position keycall = Some ?n"
    by (auto simp: bind_position_def)
  have bk: "bind_key env planSlot ?n c1 = (None, call keycall c1)"
    using key ty kc b(2) by (simp add: bind_key_def new_statement_fields)
  have run: "cassExecPKPredWrite env ctx (Some s) planSlot cqlOpName future
               = execute_statement cqlOpName future (call keycall c1)"
  proof (cases "?attrs = []")
    case True
    with br bk show ?thesis by (simp add: cassExecPKPredWrite_def)
  next
    case False
    with br bk show ?thesis by (simp add: cassExecPKPredWrite_def)
  qed
  from execute_statement_result[of cqlOpName future "call keycall c1"] obtain ctx' rest where
    e: "execute_statement cqlOpName future (call keycall c1)
          = (remote_outcome cqlOpName future, ctx')"
       "driver ctx' = driver (call keycall c1)
          @ [SetConsistency (fm_write_consistency (fmstate (call keycall c1))), SessionExecute]
          @ rest"
       "set rest \<subseteq> {StatementFree, ReleaseConnection}"
       "if future = CASS_OK then rest = [] else True"
    by blast
  have d: "driver ctx' = driver ctx @ ?pre @ binds @ [keycall]
            @ [SetConsistency (fm_write_consistency (fmstate ctx)), SessionExecute] @ rest"
    using e(2) b(1,2) pre by (simp add: new_statement_fields)
  have pos: "map bind_position (binds @ [keycall]) = map Some [0..<?n + 1]"
    using b(4) kp by simp
  show ?thesis
    using run e(1,3,4) d len b(3) kc pos
    by (intro exI[of _ binds] exI[of _ keycall] exI[of _ ctx'] exI[of _ rest]) simp
qed

lemma update_ok_executes:
  "cassExecForeignUpdate env ctx (Some s) planSlot future = (None, ctx') \<Longrightarrow>
   \<exists>calls. driver ctx' = driver ctx @ calls \<and> SessionExecute \<in> set calls"
  unfolding cassExecForeignUpdate_def by (rule pk_write_ok_executes)

lemma delete_ok_executes:
  "cassExecForeignDelete env ctx (Some s) planSlot future = (None, ctx') \<Longrightarrow>
   \<exists>calls. driver ctx' = driver ctx @ calls \<and> SessionExecute \<in> set calls"
  unfolding cassExecForeignDelete_def by (rule pk_write_ok_executes)

lemma insert_sql_structure:
  assumes "targetAttrs \<noteq> []"
    and "cassDeparseInsertSql kw buf rel targetAttrs doNothing = Inr sql"
  shows "\<exists>cols.
         list_all2 (\<lambda>c a. cassDeparseColumnRef kw rel a = Inr c) cols targetAttrs
         \<and> sql = buf @ ''INSERT INTO '' @ cassDeparseRelation kw rel
                 @ ''('' @ comma_separated cols
                 @ '') VALUES ('' @ comma_separated (map (\<lambda>a. ''?'') targetAttrs) @ '')''
                 @ (if doNothing then '' ON CONFLICT DO NOTHING'' else [])"
proof -
  from assms obtain cl where cl: "column_list kw rel [] True targetAttrs = Inr cl"
    and sql: "sql = buf @ ''INSERT INTO '' @ cassDeparseRelation kw rel
               @ ''('' @ cl @ '') VALUES ('' @ placeholders True targetAttrs @ '')''
               @ (if doNothing then '' ON CONFLICT DO NOTHING'' else [])"
    by (auto simp: cassDeparseInsertSql_def split: sum.splits)
  from column_list_structure[OF cl] obtain cols where
    "list_all2 (\<lambda>c a. cassDeparseColumnRef kw rel a = Inr c) cols targetAttrs"
    "cl = comma_separated cols"
    by auto
  with sql show ?thesis
    by (intro exI[of _ cols]) (simp add: placeholders_structure)
qed

lemma update_sql_structure:
  assumes "cassDeparseUpdateSql kw buf rel targetAttrs primaryKey = Inr sql"
  shows "\<exists>cols.
         list_all2 (\<lambda>c a. cassDeparseColumnRef kw rel a = Inr c) cols targetAttrs
         \<and> sql = buf @ ''UPDATE '' @ cassDeparseRelation kw rel @ '' SET ''
                  @ comma_separated (map (\<lambda>c. c @ '' = ?'') cols)
                  @ '' WHERE '' @ primaryKey @ '' = ?''"
proof -
  from assms obtain cl where cl: "column_list kw rel '' = ?'' True targetAttrs = Inr cl"
    and sql: "sql = buf @ ''UPDATE '' @ cassDeparseRelation kw rel @ '' SET '' @ cl
                @ '' WHERE '' @ primaryKey @ '' = ?''"
    by (auto simp: cassDeparseUpdateSql_def split: sum.splits)
  from column_list_structure[OF cl] obtain cols where
    "list_all2 (\<lambda>c a. cassDeparseColumnRef kw rel a = Inr c) cols targetAttrs"
    "cl = comma_separated (map (\<lambda>c. c @ '' = ?'') cols)"
    by auto
  with sql show ?thesis
    by (intro exI[of _ cols]) simp
qed

text \<open>
  C8. Whenever every target attribute can be bound, an INSERT binds exactly one
  parameter per target attribute, the \<open>k\<close>-th attribute of the list at position
  \<open>k\<close> counted from 0, and then executes the statement; with a carried key that
  is not null and of a supported type, an UPDATE and a DELETE make the same
  bindings, bind the key at the position after the last target attribute as the
  final parameter, and then execute. Conversely, every INSERT, UPDATE or DELETE
  that issues the execute, successful or not, has made exactly these bindings
  before it, and a successful one has issued the execute. The deparsed INSERT
  lists the columns of the target attributes in list order with one placeholder
  each; the deparsed UPDATE has one assignment with a placeholder per target
  attribute in list order and the key's placeholder last; the deparsed DELETE has
  the key's placeholder only.
\<close>

theorem parameters_bound_in_list_order:
  "(list_all (bindable (fmstate ctx) s)
       (zip [0..<length (fm_target_attrs (fmstate ctx))] (fm_target_attrs (fmstate ctx))) \<longrightarrow>
      (\<exists>binds ctx' rest.
         cassExecForeignInsert env ctx (Some s) future = (remote_outcome ''INSERT'' future, ctx')
         \<and> driver ctx' = driver ctx
              @ (if fm_sql_sent (fmstate ctx) then []
                 else [StatementNew (fm_query (fmstate ctx)) (fm_p_nums (fmstate ctx))])
              @ binds
              @ [SetConsistency (fm_write_consistency (fmstate ctx)), SessionExecute]
              @ rest
         \<and> set rest \<subseteq> {StatementFree, ReleaseConnection}
         \<and> (if future = CASS_OK then rest = [] else True)
         \<and> length binds = length (fm_target_attrs (fmstate ctx))
         \<and> list_all2 (bound_as env (fmstate ctx) s) binds
              (zip [0..<length (fm_target_attrs (fmstate ctx))] (fm_target_attrs (fmstate ctx)))
         \<and> map bind_position binds = map Some [0..<length (fm_target_attrs (fmstate ctx))]))
   \<and> (list_all (bindable (fmstate ctx) s)
         (zip [0..<length (fm_target_attrs (fmstate ctx))] (fm_target_attrs (fmstate ctx)))
       \<and> planSlot (fm_keyAttno (fmstate ctx)) = Some v
       \<and> p_type_oid (fmstate ctx) (length (fm_target_attrs (fmstate ctx))) = Some ty
       \<and> supported_type ty \<longrightarrow>
      (\<exists>binds keycall ctx' rest.
         cassExecForeignUpdate env ctx (Some s) planSlot future
           = (remote_outcome ''UPDATE'' future, ctx')
         \<and> driver ctx' = driver ctx
              @ (if fm_sql_sent (fmstate ctx) then []
                 else [StatementNew (fm_query (fmstate ctx)) (fm_p_nums (fmstate ctx))])
              @ binds @ [keycall]
              @ [SetConsistency (fm_write_consistency (fmstate ctx)), SessionExecute]
              @ rest
         \<and> set rest \<subseteq> {StatementFree, ReleaseConnection}
         \<and> (if future = CASS_OK then rest = [] else True)
         \<and> length binds = length (fm_target_attrs (fmstate ctx))
         \<and> list_all2 (bound_as env (fmstate ctx) s) binds
              (zip [0..<length (fm_target_attrs (fmstate ctx))] (fm_target_attrs (fmstate ctx)))
         \<and> bind_cass_statement_param env ty v (length (fm_target_attrs (fmstate ctx)))
             = Inr keycall
         \<and> map bind_position (binds @ [keycall])
             = map Some [0..<length (fm_target_attrs (fmstate ctx)) + 1]))
   \<and> (list_all (bindable (fmstate ctx) s)
         (zip [0..<length (fm_target_attrs (fmstate ctx))] (fm_target_attrs (fmstate ctx)))
       \<and> planSlot (fm_keyAttno (fmstate ctx)) = Some v
       \<and> p_type_oid (fmstate ctx) (length (fm_target_attrs (fmstate ctx))) = Some ty
       \<and> supported_type ty \<longrightarrow>
      (\<exists>binds keycall ctx' rest.
         cassExecForeignDelete env ctx (Some s) planSlot future
           = (remote_outcome ''DELETE'' future, ctx')
         \<and> driver ctx' = driver ctx
              @ (if fm_sql_sent (fmstate ctx) then []
                 else [StatementNew (fm_query (fmstate ctx)) (fm_p_nums (fmstate ctx))])
              @ binds @ [keycall]
              @ [SetConsistency (fm_write_consistency (fmstate ctx)), SessionExecute]
              @ rest
         \<and> set rest \<subseteq> {StatementFree, ReleaseConnection}
         \<and> (if future = CASS_OK then rest = [] else True)
         \<and> length binds = length (fm_target_attrs (fmstate ctx))
         \<and> list_all2 (bound_as env (fmstate ctx) s) binds
              (zip [0..<length (fm_target_attrs (fmstate ctx))] (fm_target_attrs (fmstate ctx)))
         \<and> bind_cass_statement_param env ty v (length (fm_target_attrs (fmstate ctx)))
             = Inr keycall
         \<and> map bind_position (binds @ [keycall])
             = map Some [0..<length (fm_target_attrs (fmstate ctx)) + 1]))
   \<and> (cassExecForeignInsert env ctx (Some s) future = (ri, ci)
      \<and> driver ci = driver ctx @ callsi \<and> SessionExecute \<in> set callsi \<longrightarrow>
      (\<exists>binds rest.
         callsi = (if fm_sql_sent (fmstate ctx) then []
                   else [StatementNew (fm_query (fmstate ctx)) (fm_p_nums (fmstate ctx))])
           @ binds
           @ [SetConsistency (fm_write_consistency (fmstate ctx)), SessionExecute]
           @ rest
         \<and> set rest \<subseteq> {StatementFree, ReleaseConnection}
         \<and> list_all2 (bound_as env (fmstate ctx) s) binds
              (zip [0..<length (fm_target_attrs (fmstate ctx))] (fm_target_attrs (fmstate ctx)))
         \<and> map bind_position binds = map Some [0..<length (fm_target_attrs (fmstate ctx))]))
   \<and> (cassExecForeignUpdate env ctx (Some s) planSlot future = (ru, cu)
      \<and> driver cu = driver ctx @ callsu \<and> SessionExecute \<in> set callsu \<longrightarrow>
      (\<exists>binds kv kty keycall rest.
         callsu = (if fm_sql_sent (fmstate ctx) then []
                   else [StatementNew (fm_query (fmstate ctx)) (fm_p_nums (fmstate ctx))])
           @ binds @ [keycall]
           @ [SetConsistency (fm_write_consistency (fmstate ctx)), SessionExecute]
           @ rest
         \<and> set rest \<subseteq> {StatementFree, ReleaseConnection}
         \<and> list_all2 (bound_as env (fmstate ctx) s) binds
              (zip [0..<length (fm_target_attrs (fmstate ctx))] (fm_target_attrs (fmstate ctx)))
         \<and> map bind_position (binds @ [keycall])
             = map Some [0..<length (fm_target_attrs (fmstate ctx)) + 1]
         \<and> planSlot (fm_keyAttno (fmstate ctx)) = Some kv
         \<and> p_type_oid (fmstate ctx) (length (fm_target_attrs (fmstate ctx))) = Some kty
         \<and> bind_cass_statement_param env kty kv (length (fm_target_attrs (fmstate ctx)))
             = Inr keycall))
   \<and> (cassExecForeignDelete env ctx (Some s) planSlot future = (rd, cd)
      \<and> driver cd = driver ctx @ callsd \<and> SessionExecute \<in> set callsd \<longrightarrow>
      (\<exists>binds kv kty keycall rest.
         callsd = (if fm_sql_sent (fmstate ctx) then []
                   else [StatementNew (fm_query (fmstate ctx)) (fm_p_nums (fmstate ctx))])
           @ binds @ [keycall]
           @ [SetConsistency (fm_write_consistency (fmstate ctx)), SessionExecute]
           @ rest
         \<and> set rest \<subseteq> {StatementFree, ReleaseConnection}
         \<and> list_all2 (bound_as env (fmstate ctx) s) binds
              (zip [0..<length (fm_target_attrs (fmstate ctx))] (fm_target_attrs (fmstate ctx)))
         \<and> map bind_position (binds @ [keycall])
             = map Some [0..<length (fm_target_attrs (fmstate ctx)) + 1]
         \<and> planSlot (fm_keyAttno (fmstate ctx)) = Some kv
         \<and> p_type_oid (fmstate ctx) (length (fm_target_attrs (fmstate ctx))) = Some kty
         \<and> bind_cass_statement_param env kty kv (length (fm_target_attrs (fmstate ctx)))
             = Inr keycall))
   \<and> (cassExecForeignInsert env ctx (Some s) future = (None, ci) \<longrightarrow>
      (\<exists>cs. driver ci = driver ctx @ cs \<and> SessionExecute \<in> set cs))
   \<and> (cassExecForeignUpdate env ctx (Some s) planSlot future = (None, cu) \<longrightarrow>
      (\<exists>cs. driver cu = driver ctx @ cs \<and> SessionExecute \<in> set cs))
   \<and> (cassExecForeignDelete env ctx (Some s) planSlot future = (None, cd) \<longrightarrow>
      (\<exists>cs. driver cd = driver ctx @ cs \<and> SessionExecute \<in> set cs))
   \<and> (targetAttrs \<noteq> [] \<and> cassDeparseInsertSql kw buf rel targetAttrs doNothing = Inr sql \<longrightarrow>
      (\<exists>cols.
         list_all2 (\<lambda>c a. cassDeparseColumnRef kw rel a = Inr c) cols targetAttrs
         \<and> sql = buf @ ''INSERT INTO '' @ cassDeparseRelation kw rel
                 @ ''('' @ comma_separated cols
                 @ '') VALUES ('' @ comma_separated (map (\<lambda>a. ''?'') targetAttrs) @ '')''
                 @ (if doNothing then '' ON CONFLICT DO NOTHING'' else [])))
   \<and> (cassDeparseUpdateSql kw buf rel targetAttrs primaryKey = Inr sql' \<longrightarrow>
      (\<exists>cols.
         list_all2 (\<lambda>c a. cassDeparseColumnRef kw rel a = Inr c) cols targetAttrs
         \<and> sql' = buf @ ''UPDATE '' @ cassDeparseRelation kw rel @ '' SET ''
                  @ comma_separated (map (\<lambda>c. c @ '' = ?'') cols)
                  @ '' WHERE '' @ primaryKey @ '' = ?''))
   \<and> cassDeparseDeleteSql kw buf rel primaryKey
       = buf @ ''DELETE FROM '' @ cassDeparseRelation kw rel @ '' WHERE '' @ primaryKey @ '' = ?''"
proof (intro conjI impI)
  assume "list_all (bindable (fmstate ctx) s)
       (zip [0..<length (fm_target_attrs (fmstate ctx))] (fm_target_attrs (fmstate ctx)))"
  then show "\<exists>binds ctx' rest.
         cassExecForeignInsert env ctx (Some s) future = (remote_outcome ''INSERT'' future, ctx')
         \<and> driver ctx' = driver ctx
              @ (if fm_sql_sent (fmstate ctx) then []
                 else [StatementNew (fm_query (fmstate ctx)) (fm_p_nums (fmstate ctx))])
              @ binds
              @ [SetConsistency (fm_write_consistency (fmstate ctx)), SessionExecute]
              @ rest
         \<and> set rest \<subseteq> {StatementFree, ReleaseConnection}
         \<and> (if future = CASS_OK then rest = [] else True)
         \<and> length binds = length (fm_target_attrs (fmstate ctx))
         \<and> list_all2 (bound_as env (fmstate ctx) s) binds
              (zip [0..<length (fm_target_attrs (fmstate ctx))] (fm_target_attrs (fmstate ctx)))
         \<and> map bind_position binds = map Some [0..<length (fm_target_attrs (fmstate ctx))]"
    by (rule insert_binds_all)
next
  assume a: "list_all (bindable (fmstate ctx) s)
         (zip [0..<length (fm_target_attrs (fmstate ctx))] (fm_target_attrs (fmstate ctx)))
       \<and> planSlot (fm_keyAttno (fmstate ctx)) = Some v
       \<and> p_type_oid (fmstate ctx) (length (fm_target_attrs (fmstate ctx))) = Some ty
       \<and> supported_type ty"
  show "\<exists>binds keycall ctx' rest.
         cassExecForeignUpdate env ctx (Some s) planSlot future
           = (remote_outcome ''UPDATE'' future, ctx')
         \<and> driver ctx' = driver ctx
              @ (if fm_sql_sent (fmstate ctx) then []
                 else [StatementNew (fm_query (fmstate ctx)) (fm_p_nums (fmstate ctx))])
              @ binds @ [keycall]
              @ [SetConsistency (fm_write_consistency (fmstate ctx)), SessionExecute]
              @ rest
         \<and> set rest \<subseteq> {StatementFree, ReleaseConnection}
         \<and> (if future = CASS_OK then rest = [] else True)
         \<and> length binds = length (fm_target_attrs (fmstate ctx))
         \<and> list_all2 (bound_as env (fmstate ctx) s) binds
              (zip [0..<length (fm_target_attrs (fmstate ctx))] (fm_target_attrs (fmstate ctx)))
         \<and> bind_cass_statement_param env ty v (length (fm_target_attrs (fmstate ctx)))
             = Inr keycall
         \<and> map bind_position (binds @ [keycall])
             = map Some [0..<length (fm_target_attrs (fmstate ctx)) + 1]"
    unfolding cassExecForeignUpdate_def
    using a by (intro pk_write_binds_all) simp_all
next
  assume a: "list_all (bindable (fmstate ctx) s)
         (zip [0..<length (fm_target_attrs (fmstate ctx))] (fm_target_attrs (fmstate ctx)))
       \<and> planSlot (fm_keyAttno (fmstate ctx)) = Some v
       \<and> p_type_oid (fmstate ctx) (length (fm_target_attrs (fmstate ctx))) = Some ty
       \<and> supported_type ty"
  show "\<exists>binds keycall ctx' rest.
         cassExecForeignDelete env ctx (Some s) planSlot future
           = (remote_outcome ''DELETE'' future, ctx')
         \<and> driver ctx' = driver ctx
              @ (if fm_sql_sent (fmstate ctx) then []
                 else [StatementNew (fm_query (fmstate ctx)) (fm_p_nums (fmstate ctx))])
              @ binds @ [keycall]
              @ [SetConsistency (fm_write_consistency (fmstate ctx)), SessionExecute]
              @ rest
         \<and> set rest \<subseteq> {StatementFree, ReleaseConnection}
         \<and> (if future = CASS_OK then rest = [] else True)
         \<and> length binds = length (fm_target_attrs (fmstate ctx))
         \<and> list_all2 (bound_as env (fmstate ctx) s) binds
              (zip [0..<length (fm_target_attrs (fmstate ctx))] (fm_target_attrs (fmstate ctx)))
         \<and> bind_cass_statement_param env ty v (length (fm_target_attrs (fmstate ctx)))
             = Inr keycall
         \<and> map bind_position (binds @ [keycall])
             = map Some [0..<length (fm_target_attrs (fmstate ctx)) + 1]"
    unfolding cassExecForeignDelete_def
    using a by (intro pk_write_binds_all) simp_all
next
  assume "cassExecForeignInsert env ctx (Some s) future = (ri, ci)
      \<and> driver ci = driver ctx @ callsi \<and> SessionExecute \<in> set callsi"
  then show "\<exists>binds rest.
         callsi = (if fm_sql_sent (fmstate ctx) then []
                   else [StatementNew (fm_query (fmstate ctx)) (fm_p_nums (fmstate ctx))])
           @ binds
           @ [SetConsistency (fm_write_consistency (fmstate ctx)), SessionExecute]
           @ rest
         \<and> set rest \<subseteq> {StatementFree, ReleaseConnection}
         \<and> list_all2 (bound_as env (fmstate ctx) s) binds
              (zip [0..<length (fm_target_attrs (fmstate ctx))] (fm_target_attrs (fmstate ctx)))
         \<and> map bind_position binds = map Some [0..<length (fm_target_attrs (fmstate ctx))]"
    by (intro insert_binds[where r = ri and ctx' = ci and future = future]) simp_all
next
  assume "cassExecForeignUpdate env ctx (Some s) planSlot future = (ru, cu)
      \<and> driver cu = driver ctx @ callsu \<and> SessionExecute \<in> set callsu"
  then show "\<exists>binds kv kty keycall rest.
         callsu = (if fm_sql_sent (fmstate ctx) then []
                   else [StatementNew (fm_query (fmstate ctx)) (fm_p_nums (fmstate ctx))])
           @ binds @ [keycall]
           @ [SetConsistency (fm_write_consistency (fmstate ctx)), SessionExecute]
           @ rest
         \<and> set rest \<subseteq> {StatementFree, ReleaseConnection}
         \<and> list_all2 (bound_as env (fmstate ctx) s) binds
              (zip [0..<length (fm_target_attrs (fmstate ctx))] (fm_target_attrs (fmstate ctx)))
         \<and> map bind_position (binds @ [keycall])
             = map Some [0..<length (fm_target_attrs (fmstate ctx)) + 1]
         \<and> planSlot (fm_keyAttno (fmstate ctx)) = Some kv
         \<and> p_type_oid (fmstate ctx) (length (fm_target_attrs (fmstate ctx))) = Some kty
         \<and> bind_cass_statement_param env kty kv (length (fm_target_attrs (fmstate ctx)))
             = Inr keycall"
    unfolding cassExecForeignUpdate_def
    by (intro pk_write_binds[where r = ru and ctx' = cu and future = future
                               and cqlOpName = "''UPDATE''"]) simp_all
next
  assume "cassExecForeignDelete env ctx (Some s) planSlot future = (rd, cd)
      \<and> driver cd = driver ctx @ callsd \<and> SessionExecute \<in> set callsd"
  then show "\<exists>binds kv kty keycall rest.
         callsd = (if fm_sql_sent (fmstate ctx) then []
                   else [StatementNew (fm_query (fmstate ctx)) (fm_p_nums (fmstate ctx))])
           @ binds @ [keycall]
           @ [SetConsistency (fm_write_consistency (fmstate ctx)), SessionExecute]
           @ rest
         \<and> set rest \<subseteq> {StatementFree, ReleaseConnection}
         \<and> list_all2 (bound_as env (fmstate ctx) s) binds
              (zip [0..<length (fm_target_attrs (fmstate ctx))] (fm_target_attrs (fmstate ctx)))
         \<and> map bind_position (binds @ [keycall])
             = map Some [0..<length (fm_target_attrs (fmstate ctx)) + 1]
         \<and> planSlot (fm_keyAttno (fmstate ctx)) = Some kv
         \<and> p_type_oid (fmstate ctx) (length (fm_target_attrs (fmstate ctx))) = Some kty
         \<and> bind_cass_statement_param env kty kv (length (fm_target_attrs (fmstate ctx)))
             = Inr keycall"
    unfolding cassExecForeignDelete_def
    by (intro pk_write_binds[where r = rd and ctx' = cd and future = future
                               and cqlOpName = "''DELETE''"]) simp_all
next
  assume "cassExecForeignInsert env ctx (Some s) future = (None, ci)"
  then show "\<exists>cs. driver ci = driver ctx @ cs \<and> SessionExecute \<in> set cs"
    by (rule insert_ok_executes)
next
  assume "cassExecForeignUpdate env ctx (Some s) planSlot future = (None, cu)"
  then show "\<exists>cs. driver cu = driver ctx @ cs \<and> SessionExecute \<in> set cs"
    by (rule update_ok_executes)
next
  assume "cassExecForeignDelete env ctx (Some s) planSlot future = (None, cd)"
  then show "\<exists>cs. driver cd = driver ctx @ cs \<and> SessionExecute \<in> set cs"
    by (rule delete_ok_executes)
next
  assume "targetAttrs \<noteq> [] \<and> cassDeparseInsertSql kw buf rel targetAttrs doNothing = Inr sql"
  then show "\<exists>cols.
         list_all2 (\<lambda>c a. cassDeparseColumnRef kw rel a = Inr c) cols targetAttrs
         \<and> sql = buf @ ''INSERT INTO '' @ cassDeparseRelation kw rel
                 @ ''('' @ comma_separated cols
                 @ '') VALUES ('' @ comma_separated (map (\<lambda>a. ''?'') targetAttrs) @ '')''
                 @ (if doNothing then '' ON CONFLICT DO NOTHING'' else [])"
    by (intro insert_sql_structure) simp_all
next
  assume "cassDeparseUpdateSql kw buf rel targetAttrs primaryKey = Inr sql'"
  then show "\<exists>cols.
         list_all2 (\<lambda>c a. cassDeparseColumnRef kw rel a = Inr c) cols targetAttrs
         \<and> sql' = buf @ ''UPDATE '' @ cassDeparseRelation kw rel @ '' SET ''
                  @ comma_separated (map (\<lambda>c. c @ '' = ?'') cols)
                  @ '' WHERE '' @ primaryKey @ '' = ?''"
    by (rule update_sql_structure)
next
  show "cassDeparseDeleteSql kw buf rel primaryKey
       = buf @ ''DELETE FROM '' @ cassDeparseRelation kw rel @ '' WHERE '' @ primaryKey @ '' = ?''"
    by (simp add: cassDeparseDeleteSql_def)
qed

lemma example_insert_four:
  "cassExecForeignInsert example_env \<lparr> fmstate = example_insert_state, driver = [] \<rparr>
       (Some (slot_of [Some 1, Some 5, Some 2, Some 0])) CASS_OK
     = (None,
        \<lparr> fmstate = example_insert_state
            \<lparr> fm_sql_sent := True, fm_statement := Some (example_insert_sql, 4) \<rparr>,
          driver = [StatementNew example_insert_sql 4,
                    StatementBind 0 (PInt32 1),
                    StatementBind 1 (PInt16 5),
                    StatementBind 2 (PInt64 2),
                    StatementBind 3 (PBool False),
                    SetConsistency CASS_CONSISTENCY_LOCAL_ONE,
                    SessionExecute] \<rparr>)"
  by code_simp

lemma example_update_two:
  "cassPlanForeignModify no_keyword (-7) CMD_UPDATE ONCONFLICT_NONE example_rel {10, 11}
     = Inr example_update_two_plan
   \<and> cassBeginForeignModify CMD_UPDATE example_rel example_update_two_plan
        example_subplan_tlist False
     = Inr (Some example_update_two_state)
   \<and> cassExecForeignUpdate example_env \<lparr> fmstate = example_update_two_state, driver = [] \<rparr>
       (Some (slot_of [Some 1, Some 5, Some 9, Some 1, Some 1]))
       (slot_of [Some 1, Some 5, Some 9, Some 1, Some 1]) CASS_OK
     = (None,
        \<lparr> fmstate = example_update_two_state
            \<lparr> fm_sql_sent := True, fm_statement := Some (example_update_two_sql, 3) \<rparr>,
          driver = [StatementNew example_update_two_sql 3,
                    StatementBind 0 (PInt64 9),
                    StatementBind 1 (PBool True),
                    StatementBind 2 (PInt32 1),
                    SetConsistency CASS_CONSISTENCY_LOCAL_ONE,
                    SessionExecute] \<rparr>)"
  by code_simp

lemma example_delete_one:
  "cassExecForeignDelete example_env \<lparr> fmstate = example_delete_state, driver = [] \<rparr>
       (Some (slot_of [Some 1, Some 5, Some 9, Some 1, Some 1]))
       (slot_of [Some 1, Some 5, Some 9, Some 1, Some 1]) CASS_OK
     = (None,
        \<lparr> fmstate = example_delete_state
            \<lparr> fm_sql_sent := True,
              fm_statement := Some (''DELETE FROM ks.t WHERE id = ?'', 1) \<rparr>,
          driver = [StatementNew ''DELETE FROM ks.t WHERE id = ?'' 1,
                    StatementBind 0 (PInt32 1),
                    SetConsistency CASS_CONSISTENCY_LOCAL_ONE,
                    SessionExecute] \<rparr>)"
  by code_simp

lemma example_bindable:
  "list_all (bindable example_insert_state (slot_of [Some 1, Some 5, Some 2, Some 0]))
     (zip [0..<length (fm_target_attrs example_insert_state)]
          (fm_target_attrs example_insert_state))"
  "list_all (bindable example_update_two_state (slot_of [Some 1, Some 5, Some 9, Some 1, Some 1]))
     (zip [0..<length (fm_target_attrs example_update_two_state)]
          (fm_target_attrs example_update_two_state))"
  "list_all (bindable example_delete_state (slot_of [Some 1, Some 5, Some 9, Some 1, Some 1]))
     (zip [0..<length (fm_target_attrs example_delete_state)]
          (fm_target_attrs example_delete_state))"
  by code_simp+

lemma example_keys:
  "slot_of [Some 1, Some 5, Some 9, Some 1, Some 1] (fm_keyAttno example_update_two_state) = Some 1"
  "p_type_oid example_update_two_state (length (fm_target_attrs example_update_two_state))
     = Some INT4OID"
  "slot_of [Some 1, Some 5, Some 9, Some 1, Some 1] (fm_keyAttno example_delete_state) = Some 1"
  "p_type_oid example_delete_state (length (fm_target_attrs example_delete_state)) = Some INT4OID"
  "supported_type INT4OID"
  by code_simp+

theorem parameters_bound_in_list_order_witness:
  "list_all (bindable example_insert_state (slot_of [Some 1, Some 5, Some 2, Some 0]))
     (zip [0..<length (fm_target_attrs example_insert_state)]
          (fm_target_attrs example_insert_state))
   \<and> length (fm_target_attrs example_insert_state) = 4
   \<and> (\<exists>binds ctx'.
        cassExecForeignInsert example_env \<lparr> fmstate = example_insert_state, driver = [] \<rparr>
            (Some (slot_of [Some 1, Some 5, Some 2, Some 0])) CASS_OK = (None, ctx')
        \<and> driver ctx' = [StatementNew example_insert_sql 4] @ binds
             @ [SetConsistency CASS_CONSISTENCY_LOCAL_ONE, SessionExecute]
        \<and> length binds = 4
        \<and> map bind_position binds = map Some [0..<4]
        \<and> binds = [StatementBind 0 (PInt32 1), StatementBind 1 (PInt16 5),
                    StatementBind 2 (PInt64 2), StatementBind 3 (PBool False)])
   \<and> list_all (bindable example_update_two_state (slot_of [Some 1, Some 5, Some 9, Some 1, Some 1]))
        (zip [0..<length (fm_target_attrs example_update_two_state)]
             (fm_target_attrs example_update_two_state))
   \<and> slot_of [Some 1, Some 5, Some 9, Some 1, Some 1] (fm_keyAttno example_update_two_state)
       = Some 1
   \<and> p_type_oid example_update_two_state (length (fm_target_attrs example_update_two_state))
       = Some INT4OID
   \<and> supported_type INT4OID
   \<and> (\<exists>binds keycall ctx'.
        cassExecForeignUpdate example_env \<lparr> fmstate = example_update_two_state, driver = [] \<rparr>
            (Some (slot_of [Some 1, Some 5, Some 9, Some 1, Some 1]))
            (slot_of [Some 1, Some 5, Some 9, Some 1, Some 1]) CASS_OK = (None, ctx')
        \<and> driver ctx' = [StatementNew example_update_two_sql 3] @ binds @ [keycall]
             @ [SetConsistency CASS_CONSISTENCY_LOCAL_ONE, SessionExecute]
        \<and> length binds = 2
        \<and> map bind_position (binds @ [keycall]) = map Some [0..<3]
        \<and> binds = [StatementBind 0 (PInt64 9), StatementBind 1 (PBool True)]
        \<and> keycall = StatementBind 2 (PInt32 1))
   \<and> (\<exists>binds keycall ctx'.
        cassExecForeignDelete example_env \<lparr> fmstate = example_delete_state, driver = [] \<rparr>
            (Some (slot_of [Some 1, Some 5, Some 9, Some 1, Some 1]))
            (slot_of [Some 1, Some 5, Some 9, Some 1, Some 1]) CASS_OK = (None, ctx')
        \<and> driver ctx' = [StatementNew ''DELETE FROM ks.t WHERE id = ?'' 1] @ binds @ [keycall]
             @ [SetConsistency CASS_CONSISTENCY_LOCAL_ONE, SessionExecute]
        \<and> binds = []
        \<and> keycall = StatementBind 0 (PInt32 1))
   \<and> SessionExecute \<in> set [StatementNew example_insert_sql 4,
                             StatementBind 0 (PInt32 1), StatementBind 1 (PInt16 5),
                             StatementBind 2 (PInt64 2), StatementBind 3 (PBool False),
                             SetConsistency CASS_CONSISTENCY_LOCAL_ONE, SessionExecute]
   \<and> (\<exists>binds rest.
        [StatementNew example_insert_sql 4,
         StatementBind 0 (PInt32 1), StatementBind 1 (PInt16 5),
         StatementBind 2 (PInt64 2), StatementBind 3 (PBool False),
         SetConsistency CASS_CONSISTENCY_LOCAL_ONE, SessionExecute]
          = [StatementNew example_insert_sql 4] @ binds
            @ [SetConsistency CASS_CONSISTENCY_LOCAL_ONE, SessionExecute] @ rest
        \<and> map bind_position binds = map Some [0..<4])
   \<and> cassPlanForeignModify no_keyword (-7) CMD_UPDATE ONCONFLICT_NONE example_rel {10, 11}
       = Inr example_update_two_plan
   \<and> cassBeginForeignModify CMD_UPDATE example_rel example_update_two_plan
        example_subplan_tlist False
       = Inr (Some example_update_two_state)"
proof -
  let ?ci = "\<lparr> fmstate = example_insert_state, driver = [] \<rparr>"
  let ?cu = "\<lparr> fmstate = example_update_two_state, driver = [] \<rparr>"
  let ?cd = "\<lparr> fmstate = example_delete_state, driver = [] \<rparr>"
  let ?si = "slot_of [Some 1, Some 5, Some 2, Some 0]"
  let ?su = "slot_of [Some 1, Some 5, Some 9, Some 1, Some 1]"
  have n4: "length (fm_target_attrs example_insert_state) = 4"
    and n2: "length (fm_target_attrs example_update_two_state) = 2"
    and n0: "length (fm_target_attrs example_delete_state) = 0"
    by (simp_all add: example_insert_state_def example_update_two_state_def
          example_delete_state_def)
  have hi: "list_all (bindable (fmstate ?ci) ?si)
      (zip [0..<length (fm_target_attrs (fmstate ?ci))] (fm_target_attrs (fmstate ?ci)))"
    using example_bindable(1) by simp
  have hu: "list_all (bindable (fmstate ?cu) ?su)
         (zip [0..<length (fm_target_attrs (fmstate ?cu))] (fm_target_attrs (fmstate ?cu)))
       \<and> ?su (fm_keyAttno (fmstate ?cu)) = Some 1
       \<and> p_type_oid (fmstate ?cu) (length (fm_target_attrs (fmstate ?cu))) = Some INT4OID
       \<and> supported_type INT4OID"
    using example_bindable(2) example_keys by simp
  have hd: "list_all (bindable (fmstate ?cd) ?su)
         (zip [0..<length (fm_target_attrs (fmstate ?cd))] (fm_target_attrs (fmstate ?cd)))
       \<and> ?su (fm_keyAttno (fmstate ?cd)) = Some 1
       \<and> p_type_oid (fmstate ?cd) (length (fm_target_attrs (fmstate ?cd))) = Some INT4OID
       \<and> supported_type INT4OID"
    using example_bindable(3) example_keys by simp
  note ti = parameters_bound_in_list_order
              [where ctx = ?ci and s = ?si and env = example_env and future = CASS_OK,
               THEN conjunct1, THEN mp, OF hi]
  note tu = parameters_bound_in_list_order
              [where ctx = ?cu and s = ?su and planSlot = ?su and env = example_env
                 and future = CASS_OK and v = 1 and ty = INT4OID,
               THEN conjunct2, THEN conjunct1, THEN mp, OF hu]
  note td = parameters_bound_in_list_order
              [where ctx = ?cd and s = ?su and planSlot = ?su and env = example_env
                 and future = CASS_OK and v = 1 and ty = INT4OID,
               THEN conjunct2, THEN conjunct2, THEN conjunct1, THEN mp, OF hd]
  have wi: "\<exists>binds ctx'.
        cassExecForeignInsert example_env ?ci (Some ?si) CASS_OK = (None, ctx')
        \<and> driver ctx' = [StatementNew example_insert_sql 4] @ binds
             @ [SetConsistency CASS_CONSISTENCY_LOCAL_ONE, SessionExecute]
        \<and> length binds = 4
        \<and> map bind_position binds = map Some [0..<4]
        \<and> binds = [StatementBind 0 (PInt32 1), StatementBind 1 (PInt16 5),
                    StatementBind 2 (PInt64 2), StatementBind 3 (PBool False)]"
  proof -
    from ti obtain binds ctx' rest where
      r: "cassExecForeignInsert example_env ?ci (Some ?si) CASS_OK
            = (remote_outcome ''INSERT'' CASS_OK, ctx')"
      and d: "driver ctx' = driver ?ci
              @ (if fm_sql_sent (fmstate ?ci) then []
                 else [StatementNew (fm_query (fmstate ?ci)) (fm_p_nums (fmstate ?ci))])
              @ binds
              @ [SetConsistency (fm_write_consistency (fmstate ?ci)), SessionExecute]
              @ rest"
      and e: "if CASS_OK = CASS_OK then rest = [] else True"
      and l: "length binds = length (fm_target_attrs (fmstate ?ci))"
      and m: "map bind_position binds = map Some [0..<length (fm_target_attrs (fmstate ?ci))]"
      by blast
    from e have rest: "rest = []" by simp
    from r have r': "cassExecForeignInsert example_env ?ci (Some ?si) CASS_OK = (None, ctx')"
      by (simp add: remote_outcome_def)
    from d rest have d': "driver ctx' = [StatementNew example_insert_sql 4] @ binds
             @ [SetConsistency CASS_CONSISTENCY_LOCAL_ONE, SessionExecute]"
      by (simp add: example_insert_state_def)
    from r' example_insert_four have
      "driver ctx' = [StatementNew example_insert_sql 4,
                    StatementBind 0 (PInt32 1), StatementBind 1 (PInt16 5),
                    StatementBind 2 (PInt64 2), StatementBind 3 (PBool False),
                    SetConsistency CASS_CONSISTENCY_LOCAL_ONE, SessionExecute]"
      by auto
    with d' have b: "binds = [StatementBind 0 (PInt32 1), StatementBind 1 (PInt16 5),
                    StatementBind 2 (PInt64 2), StatementBind 3 (PBool False)]"
      by simp
    from l n4 have l': "length binds = 4" by simp
    from m n4 have m': "map bind_position binds = map Some [0..<4]" by simp
    from r' d' l' m' b show ?thesis by blast
  qed
  have wu: "\<exists>binds keycall ctx'.
        cassExecForeignUpdate example_env ?cu (Some ?su) ?su CASS_OK = (None, ctx')
        \<and> driver ctx' = [StatementNew example_update_two_sql 3] @ binds @ [keycall]
             @ [SetConsistency CASS_CONSISTENCY_LOCAL_ONE, SessionExecute]
        \<and> length binds = 2
        \<and> map bind_position (binds @ [keycall]) = map Some [0..<3]
        \<and> binds = [StatementBind 0 (PInt64 9), StatementBind 1 (PBool True)]
        \<and> keycall = StatementBind 2 (PInt32 1)"
  proof -
    from tu obtain binds keycall ctx' rest where
      r: "cassExecForeignUpdate example_env ?cu (Some ?su) ?su CASS_OK
            = (remote_outcome ''UPDATE'' CASS_OK, ctx')"
      and d: "driver ctx' = driver ?cu
              @ (if fm_sql_sent (fmstate ?cu) then []
                 else [StatementNew (fm_query (fmstate ?cu)) (fm_p_nums (fmstate ?cu))])
              @ binds @ [keycall]
              @ [SetConsistency (fm_write_consistency (fmstate ?cu)), SessionExecute]
              @ rest"
      and e: "if CASS_OK = CASS_OK then rest = [] else True"
      and l: "length binds = length (fm_target_attrs (fmstate ?cu))"
      and m: "map bind_position (binds @ [keycall])
                = map Some [0..<length (fm_target_attrs (fmstate ?cu)) + 1]"
      by blast
    from e have rest: "rest = []" by simp
    from r have r': "cassExecForeignUpdate example_env ?cu (Some ?su) ?su CASS_OK = (None, ctx')"
      by (simp add: remote_outcome_def)
    from d rest have d': "driver ctx' = [StatementNew example_update_two_sql 3] @ binds @ [keycall]
             @ [SetConsistency CASS_CONSISTENCY_LOCAL_ONE, SessionExecute]"
      by (simp add: example_update_two_state_def)
    from l n2 have l': "length binds = 2" by simp
    from r' example_update_two have
      "driver ctx' = [StatementNew example_update_two_sql 3,
                    StatementBind 0 (PInt64 9), StatementBind 1 (PBool True),
                    StatementBind 2 (PInt32 1),
                    SetConsistency CASS_CONSISTENCY_LOCAL_ONE, SessionExecute]"
      by auto
    with d' have "binds @ [keycall]
        = [StatementBind 0 (PInt64 9), StatementBind 1 (PBool True)] @ [StatementBind 2 (PInt32 1)]"
      by simp
    with l' have b: "binds = [StatementBind 0 (PInt64 9), StatementBind 1 (PBool True)]"
      and k: "keycall = StatementBind 2 (PInt32 1)"
      by simp_all
    from m n2 have m': "map bind_position (binds @ [keycall]) = map Some [0..<3]"
      by (simp add: numeral_3_eq_3)
    from r' d' l' m' b k show ?thesis by blast
  qed
  have wd: "\<exists>binds keycall ctx'.
        cassExecForeignDelete example_env ?cd (Some ?su) ?su CASS_OK = (None, ctx')
        \<and> driver ctx' = [StatementNew ''DELETE FROM ks.t WHERE id = ?'' 1] @ binds @ [keycall]
             @ [SetConsistency CASS_CONSISTENCY_LOCAL_ONE, SessionExecute]
        \<and> binds = []
        \<and> keycall = StatementBind 0 (PInt32 1)"
  proof -
    from td obtain binds keycall ctx' rest where
      r: "cassExecForeignDelete example_env ?cd (Some ?su) ?su CASS_OK
            = (remote_outcome ''DELETE'' CASS_OK, ctx')"
      and d: "driver ctx' = driver ?cd
              @ (if fm_sql_sent (fmstate ?cd) then []
                 else [StatementNew (fm_query (fmstate ?cd)) (fm_p_nums (fmstate ?cd))])
              @ binds @ [keycall]
              @ [SetConsistency (fm_write_consistency (fmstate ?cd)), SessionExecute]
              @ rest"
      and e: "if CASS_OK = CASS_OK then rest = [] else True"
      and l: "length binds = length (fm_target_attrs (fmstate ?cd))"
      by blast
    from e have rest: "rest = []" by simp
    from l n0 have b: "binds = []" by simp
    from r have r': "cassExecForeignDelete example_env ?cd (Some ?su) ?su CASS_OK = (None, ctx')"
      by (simp add: remote_outcome_def)
    from d rest have d': "driver ctx' = [StatementNew ''DELETE FROM ks.t WHERE id = ?'' 1]
             @ binds @ [keycall]
             @ [SetConsistency CASS_CONSISTENCY_LOCAL_ONE, SessionExecute]"
      by (simp add: example_delete_state_def)
    from r' example_delete_one have
      "driver ctx' = [StatementNew ''DELETE FROM ks.t WHERE id = ?'' 1,
                    StatementBind 0 (PInt32 1),
                    SetConsistency CASS_CONSISTENCY_LOCAL_ONE, SessionExecute]"
      by auto
    with d' b have k: "keycall = StatementBind 0 (PInt32 1)" by simp
    from r' d' b k show ?thesis by blast
  qed
  let ?log = "[StatementNew example_insert_sql 4,
               StatementBind 0 (PInt32 1), StatementBind 1 (PInt16 5),
               StatementBind 2 (PInt64 2), StatementBind 3 (PBool False),
               SetConsistency CASS_CONSISTENCY_LOCAL_ONE, SessionExecute]"
  let ?ci2 = "\<lparr> fmstate = example_insert_state
                  \<lparr> fm_sql_sent := True, fm_statement := Some (example_insert_sql, 4) \<rparr>,
                driver = ?log \<rparr>"
  have ex: "SessionExecute \<in> set ?log" by simp
  have hc: "cassExecForeignInsert example_env ?ci (Some ?si) CASS_OK = (None, ?ci2)
      \<and> driver ?ci2 = driver ?ci @ ?log \<and> SessionExecute \<in> set ?log"
    using example_insert_four by simp
  note tc = parameters_bound_in_list_order
              [where ctx = ?ci and s = ?si and env = example_env and future = CASS_OK
                 and ri = None and ci = ?ci2 and callsi = ?log,
               THEN conjunct2, THEN conjunct2, THEN conjunct2, THEN conjunct1, THEN mp, OF hc]
  have wc: "\<exists>binds rest.
        ?log = [StatementNew example_insert_sql 4] @ binds
            @ [SetConsistency CASS_CONSISTENCY_LOCAL_ONE, SessionExecute] @ rest
        \<and> map bind_position binds = map Some [0..<4]"
  proof -
    from tc obtain binds rest where
      d: "?log = (if fm_sql_sent (fmstate ?ci) then []
                  else [StatementNew (fm_query (fmstate ?ci)) (fm_p_nums (fmstate ?ci))])
           @ binds
           @ [SetConsistency (fm_write_consistency (fmstate ?ci)), SessionExecute]
           @ rest"
      and m: "map bind_position binds = map Some [0..<length (fm_target_attrs (fmstate ?ci))]"
      by blast
    from d have d': "?log = [StatementNew example_insert_sql 4] @ binds
            @ [SetConsistency CASS_CONSISTENCY_LOCAL_ONE, SessionExecute] @ rest"
      by (simp add: example_insert_state_def)
    from m n4 have m': "map bind_position binds = map Some [0..<4]" by simp
    from d' m' show ?thesis by blast
  qed
  show ?thesis
    using example_bindable(1,2) n4 wi example_keys(1,2,5) wu wd ex wc example_update_two
    by (intro conjI) simp_all
qed

end
